theory Spec2Isabelle
  imports Main "HOL-Library.Word" "HOL-Library.Sublist"
begin

unbundle bit_operations_syntax

section \<open>Data model of acpuclock-8960.c\<close>

text \<open>
  The driver's \<open>unsigned int\<close> and \<open>uint32_t\<close> values (and \<open>unsigned long\<close>, which
  is 32 bits wide on this ARM target) are 32-bit words; return codes are \<open>int\<close>.
  Pointers into the two frequency tables are table indices, and a null pointer is
  \<open>None\<close>.
\<close>

type_synonym u32 = "32 word"

subsection \<open>Constants\<close>

text \<open>Source IDs.\<close>

abbreviation (input) PLL_8 :: int where "PLL_8 \<equiv> 0"
abbreviation (input) HFPLL :: int where "HFPLL \<equiv> - 1"
abbreviation (input) QSB :: int where "QSB \<equiv> - 2"

text \<open>Mux source selects.\<close>

abbreviation (input) PRI_SRC_SEL_SEC_SRC :: u32 where "PRI_SRC_SEL_SEC_SRC \<equiv> 0"
abbreviation (input) PRI_SRC_SEL_HFPLL :: u32 where "PRI_SRC_SEL_HFPLL \<equiv> 1"
abbreviation (input) PRI_SRC_SEL_HFPLL_DIV2 :: u32 where "PRI_SRC_SEL_HFPLL_DIV2 \<equiv> 2"
abbreviation (input) SEC_SRC_SEL_QSB :: u32 where "SEC_SRC_SEL_QSB \<equiv> 0"
abbreviation (input) SEC_SRC_SEL_AUX :: u32 where "SEC_SRC_SEL_AUX \<equiv> 2"

text \<open>HFPLL register offsets and CP15 L2 indirect addresses.\<close>

abbreviation (input) HFPLL_MODE :: u32 where "HFPLL_MODE \<equiv> 0x00"
abbreviation (input) HFPLL_CONFIG_CTL :: u32 where "HFPLL_CONFIG_CTL \<equiv> 0x04"
abbreviation (input) HFPLL_L_VAL :: u32 where "HFPLL_L_VAL \<equiv> 0x08"
abbreviation (input) HFPLL_M_VAL :: u32 where "HFPLL_M_VAL \<equiv> 0x0C"
abbreviation (input) HFPLL_N_VAL :: u32 where "HFPLL_N_VAL \<equiv> 0x10"
abbreviation (input) HFPLL_DROOP_CTL :: u32 where "HFPLL_DROOP_CTL \<equiv> 0x14"
abbreviation (input) L2CPMR_IADDR :: u32 where "L2CPMR_IADDR \<equiv> 0x500"
abbreviation (input) L2CPUCPMR_IADDR :: u32 where "L2CPUCPMR_IADDR \<equiv> 0x501"

abbreviation (input) STBY_KHZ :: u32 where "STBY_KHZ \<equiv> 1"
abbreviation (input) MAX_VDD_SC :: u32 where "MAX_VDD_SC \<equiv> 1350000"
abbreviation (input) MIN_VDD_SC :: u32 where "MIN_VDD_SC \<equiv> 400000"
abbreviation (input) HFPLL_NOMINAL_VDD :: u32 where "HFPLL_NOMINAL_VDD \<equiv> 1100000"
abbreviation (input) HFPLL_LOW_VDD :: u32 where "HFPLL_LOW_VDD \<equiv> 800000"
abbreviation (input) HFPLL_LOW_VDD_PLL_L_MAX :: u32 where "HFPLL_LOW_VDD_PLL_L_MAX \<equiv> 0x28"
abbreviation (input) SECCLKAGD :: u32 where "SECCLKAGD \<equiv> 0x10"
abbreviation (input) EINVAL :: int where "EINVAL \<equiv> 22"

text \<open>\<open>enum scalables\<close>: the index of each clock domain in the \<open>scalable\<close> array.\<close>

abbreviation (input) CPU0 :: nat where "CPU0 \<equiv> 0"
abbreviation (input) CPU1 :: nat where "CPU1 \<equiv> 1"
abbreviation (input) CPU2 :: nat where "CPU2 \<equiv> 2"
abbreviation (input) CPU3 :: nat where "CPU3 \<equiv> 3"
abbreviation (input) L2 :: nat where "L2 \<equiv> 4"
abbreviation (input) NUM_SCALABLES :: nat where "NUM_SCALABLES \<equiv> 5"

datatype vregs = VREG_CORE | VREG_MEM | VREG_DIG | VREG_HFPLL_A | VREG_HFPLL_B

text \<open>
  \<open>enum setrate_reason\<close> is declared in acpuclock.h; these are the four values the
  driver tests.
\<close>

datatype setrate_reason = SETRATE_CPUFREQ | SETRATE_SWFI | SETRATE_PC | SETRATE_HOTPLUG

subsection \<open>Structures\<close>

text \<open>\<open>struct vreg\<close>; the regulator handle \<open>reg\<close> is identified by \<open>name\<close>.\<close>

record vreg =
  name :: string
  max_vdd :: u32
  rpm_vreg_voter :: int
  rpm_vreg_id :: int
  cur_vdd :: u32

record core_speed =
  khz :: u32
  src :: int
  pri_src_sel :: u32
  sec_src_sel :: u32
  pll_l_val :: u32

record l2_level =
  speed :: core_speed
  vdd_dig :: u32
  vdd_mem :: u32
  bw_level :: u32

text \<open>
  \<open>struct acpu_level\<close>; the field \<open>l2_level\<close> is a pointer into \<open>l2_freq_tbl\<close>,
  that is an index of that table.
\<close>

record acpu_level =
  use_for_scaling :: u32
  speed :: core_speed
  l2_level :: nat
  vdd_core :: u32

text \<open>
  A \<open>struct core_speed *\<close> points at the \<open>speed\<close> field of an entry of one of the
  two tables; pointer equality is equality of these values.
\<close>

datatype speed_ptr = Acpu_speed nat | L2_speed nat

record scalable =
  hfpll_base :: u32
  aux_clk_sel :: u32
  l2cpmr_iaddr :: u32
  current_speed :: "speed_ptr option"
  l2_vote :: "nat option"
  vreg :: "vregs \<Rightarrow> vreg"
  first_set_call :: bool

section \<open>Voltage requirements of an operating point\<close>

definition calculate_vdd_mem :: "l2_level list \<Rightarrow> acpu_level \<Rightarrow> u32" where
  "calculate_vdd_mem l2_tbl tgt = vdd_mem (l2_tbl ! l2_level tgt)"

definition calculate_vdd_dig :: "l2_level list \<Rightarrow> acpu_level \<Rightarrow> u32" where
  "calculate_vdd_dig l2_tbl tgt =
     (let l = l2_tbl ! l2_level tgt;
          pll_vdd_dig =
            (if src (l2_level.speed l) \<noteq> HFPLL then 0
             else if pll_l_val (l2_level.speed l) > HFPLL_LOW_VDD_PLL_L_MAX
               then HFPLL_NOMINAL_VDD
             else HFPLL_LOW_VDD)
      in max (vdd_dig l) pll_vdd_dig)"

definition calculate_vdd_core :: "acpu_level \<Rightarrow> u32" where
  "calculate_vdd_core tgt =
     (let pll_vdd_core =
            (if src (speed tgt) \<noteq> HFPLL then 0
             else if pll_l_val (speed tgt) > HFPLL_LOW_VDD_PLL_L_MAX
               then HFPLL_NOMINAL_VDD
             else HFPLL_LOW_VDD)
      in max (vdd_core tgt) pll_vdd_core)"

section \<open>The driver's state and its environment\<close>

text \<open>
  What the C program does outside its defined behaviour: a null pointer dereference, a
  read past the end of an array, and the kernel's \<open>BUG()\<close> and \<open>BUG_ON()\<close>.
\<close>

datatype fault = Null_deref | Out_of_bounds | Bug

text \<open>
  The calls into the voltage, regulator and bus-bandwidth backends, with their
  arguments: \<open>rpm_vreg_set_voltage(vreg_id, voter, min_uV, max_uV, sleep_also)\<close>,
  \<open>regulator_get\<close>, \<open>regulator_set_voltage(reg, min_uV, max_uV)\<close> and
  \<open>regulator_enable\<close> on the regulator of the given name,
  \<open>msm_bus_scale_register_client\<close> and
  \<open>msm_bus_scale_client_update_request(bus_perf_client, index)\<close>.
\<close>

datatype backend_call =
    Rpm_vreg_set_voltage int int u32 u32 int
  | Regulator_get string
  | Regulator_set_voltage string u32 u32
  | Regulator_enable string
  | Msm_bus_scale_register_client
  | Msm_bus_scale_client_update_request u32

text \<open>
  The environment of the driver: the CPU masks, the SoC identification and fuse values
  read at start-up, the platform constants of headers outside this file (register base
  addresses, RPM voter and regulator ids, the \<open>KERNEL_FLAG_PVS_*\<close> bits), the
  configured \<open>acpu_max_freq\<close>, and the backends.  A backend answers a call with a
  return code that may depend on every call made before.
\<close>

record env =
  cpu_possible :: "nat list"
  cpu_present :: "nat list"
  cpu_online :: "nat list"
  cpu_is_msm8960 :: bool
  cpu_is_msm8930 :: bool
  cpu_is_msm8627 :: bool
  cpu_is_krait_v1 :: bool
  read_cpuid_id :: u32
  pte_efuse_val :: u32
  get_kernel_flag :: u32
  KERNEL_FLAG_PVS_SLOW_CPU :: u32
  KERNEL_FLAG_PVS_NOM_CPU :: u32
  KERNEL_FLAG_PVS_FAST_CPU :: u32
  acpu_max_freq :: int
  MSM_HFPLL_BASE :: u32
  MSM_ACC0_BASE :: u32
  MSM_ACC1_BASE :: u32
  MSM_APCS_GCC_BASE :: u32
  RPM_VREG_VOTER1 :: int
  RPM_VREG_VOTER2 :: int
  RPM_VREG_VOTER6 :: int
  RPM_VREG_ID_PM8921_L24 :: int
  RPM_VREG_ID_PM8921_S3 :: int
  RPM_VREG_ID_PM8921_S8 :: int
  RPM_VREG_ID_PM8921_L23 :: int
  backend :: "(backend_call \<times> int) list \<Rightarrow> backend_call \<Rightarrow> int"

definition num_possible_cpus :: "env \<Rightarrow> nat" where
  "num_possible_cpus e = length (cpu_possible e)"

text \<open>
  The file-scope variables of the driver and the hardware it writes: the \<open>scalable\<close>
  array, the two frequency tables (\<open>l2_freq_tbl_size\<close> is the length of
  \<open>l2_freq_tbl\<close>), \<open>max_vdd\<close>, the CP15 L2 indirect registers, the memory-mapped
  registers, the kernel footprint words (indexed in words from
  \<open>CPU_FOOT_PRINT_BASE_CPU0_VIRT\<close>), the static arrays of the hotplug callback, and
  the backend calls made so far with their return codes.
\<close>

record driver =
  scalable :: "scalable list"
  acpu_freq_tbl :: "acpu_level list"
  l2_freq_tbl :: "l2_level list"
  max_vdd_var :: u32
  l2_indirect :: "u32 \<Rightarrow> u32"
  iomem :: "u32 \<Rightarrow> u32"
  foot_print :: "nat \<Rightarrow> u32"
  prev_khz :: "nat \<Rightarrow> u32"
  prev_pri_src :: "nat \<Rightarrow> u32"
  prev_sec_src :: "nat \<Rightarrow> u32"
  trace :: "(backend_call \<times> int) list"

definition call_backend :: "env \<Rightarrow> backend_call \<Rightarrow> driver \<Rightarrow> int \<times> driver" where
  "call_backend e c st =
     (let rc = backend e (trace st) c in (rc, st\<lparr>trace := trace st @ [(c, rc)]\<rparr>))"

subsection \<open>Footprints\<close>

abbreviation (input) CPU_FOOT_PRINT_MAGIC :: u32 where "CPU_FOOT_PRINT_MAGIC \<equiv> 0xACBDFE00"

definition set_acpuclk_foot_print :: "nat \<Rightarrow> u32 \<Rightarrow> driver \<Rightarrow> driver" where
  "set_acpuclk_foot_print cpu state st =
     st\<lparr>foot_print := (foot_print st)(0x3C div 4 + cpu := CPU_FOOT_PRINT_MAGIC OR state)\<rparr>"

definition set_acpuclk_cpu_freq_foot_print :: "nat \<Rightarrow> u32 \<Rightarrow> driver \<Rightarrow> driver" where
  "set_acpuclk_cpu_freq_foot_print cpu f st =
     st\<lparr>foot_print := (foot_print st)(0x30 div 4 + cpu := f)\<rparr>"

definition set_acpuclk_L2_freq_foot_print :: "u32 \<Rightarrow> driver \<Rightarrow> driver" where
  "set_acpuclk_L2_freq_foot_print f st =
     st\<lparr>foot_print := (foot_print st)(0x38 div 4 := f)\<rparr>"

subsection \<open>Register access\<close>

text \<open>
  Modelled from the spec: \<open>get_l2_indirect_reg\<close> and \<open>set_l2_indirect_reg\<close> are
  declared in mach/msm-krait-l2-accessors.h, outside this file.  The specification gives
  them as \<open>readIndirect(addr) -> word\<close> and \<open>writeIndirect(addr, word)\<close> on a register
  file: a read returns the word last written at that address.
\<close>

definition get_l2_indirect_reg :: "u32 \<Rightarrow> driver \<Rightarrow> u32" where
  "get_l2_indirect_reg a st = l2_indirect st a"

definition set_l2_indirect_reg :: "u32 \<Rightarrow> u32 \<Rightarrow> driver \<Rightarrow> driver" where
  "set_l2_indirect_reg a v st = st\<lparr>l2_indirect := (l2_indirect st)(a := v)\<rparr>"

definition writel_relaxed :: "u32 \<Rightarrow> u32 \<Rightarrow> driver \<Rightarrow> driver" where
  "writel_relaxed v a st = st\<lparr>iomem := (iomem st)(a := v)\<rparr>"

text \<open>
  The functions below take the index \<open>sci\<close> of a \<open>struct scalable\<close> in the
  \<open>scalable\<close> array where the C takes the pointer \<open>sc\<close>.  The memory barriers and
  the fixed delays have no effect on this state.
\<close>

definition get_pri_clk_src :: "nat \<Rightarrow> driver \<Rightarrow> u32" where
  "get_pri_clk_src sci st =
     (let regval = get_l2_indirect_reg (l2cpmr_iaddr (scalable st ! sci)) st
      in regval AND 0x3)"

definition set_pri_clk_src :: "nat \<Rightarrow> u32 \<Rightarrow> driver \<Rightarrow> driver" where
  "set_pri_clk_src sci pri_sel st =
     (let a = l2cpmr_iaddr (scalable st ! sci);
          regval = get_l2_indirect_reg a st;
          regval = regval AND NOT 0x3;
          regval = regval OR (pri_sel AND 0x3)
      in set_l2_indirect_reg a regval st)"

definition get_sec_clk_src :: "nat \<Rightarrow> driver \<Rightarrow> u32" where
  "get_sec_clk_src sci st =
     (let regval = get_l2_indirect_reg (l2cpmr_iaddr (scalable st ! sci)) st
      in drop_bit 2 regval AND 0x3)"

definition set_sec_clk_src :: "nat \<Rightarrow> u32 \<Rightarrow> driver \<Rightarrow> driver" where
  "set_sec_clk_src sci sec_sel st =
     (let a = l2cpmr_iaddr (scalable st ! sci);
          regval = get_l2_indirect_reg a st;
          regval = regval OR SECCLKAGD;
          st = set_l2_indirect_reg a regval st;
          regval = regval AND NOT (push_bit 2 0x3);
          regval = regval OR push_bit 2 (sec_sel AND 0x3);
          st = set_l2_indirect_reg a regval st;
          regval = regval AND NOT SECCLKAGD
      in set_l2_indirect_reg a regval st)"

subsection \<open>The HFPLL\<close>

definition hfpll_vreg_soc :: "env \<Rightarrow> bool" where
  "hfpll_vreg_soc e \<longleftrightarrow> cpu_is_msm8960 e \<or> cpu_is_msm8930 e \<or> cpu_is_msm8627 e"

definition rpm_vreg_set_voltage ::
  "env \<Rightarrow> vreg \<Rightarrow> u32 \<Rightarrow> u32 \<Rightarrow> driver \<Rightarrow> int \<times> driver" where
  "rpm_vreg_set_voltage e v min_uV max_uV st =
     call_backend e (Rpm_vreg_set_voltage (rpm_vreg_id v) (rpm_vreg_voter v) min_uV max_uV 0) st"

definition regulator_set_voltage ::
  "env \<Rightarrow> vreg \<Rightarrow> u32 \<Rightarrow> u32 \<Rightarrow> driver \<Rightarrow> int \<times> driver" where
  "regulator_set_voltage e v min_uV max_uV st =
     call_backend e (Regulator_set_voltage (name v) min_uV max_uV) st"

text \<open>A failure of the HFPLL supplies is logged and otherwise ignored.\<close>

definition hfpll_enable :: "env \<Rightarrow> nat \<Rightarrow> driver \<Rightarrow> driver" where
  "hfpll_enable e sci st =
     (let sc = scalable st ! sci;
          st = (if hfpll_vreg_soc e then
                  (let (rc, st) = rpm_vreg_set_voltage e (vreg sc VREG_HFPLL_A) 2100000
                                    (max_vdd (vreg sc VREG_HFPLL_A)) st;
                       (rc, st) = rpm_vreg_set_voltage e (vreg sc VREG_HFPLL_B) 1800000
                                    (max_vdd (vreg sc VREG_HFPLL_B)) st
                   in st)
                else st);
          st = writel_relaxed 0x2 (hfpll_base sc + HFPLL_MODE) st;
          st = writel_relaxed 0x6 (hfpll_base sc + HFPLL_MODE) st
      in writel_relaxed 0x7 (hfpll_base sc + HFPLL_MODE) st)"

definition hfpll_disable :: "env \<Rightarrow> nat \<Rightarrow> driver \<Rightarrow> driver" where
  "hfpll_disable e sci st =
     (let sc = scalable st ! sci;
          st = writel_relaxed 0 (hfpll_base sc + HFPLL_MODE) st
      in if hfpll_vreg_soc e then
           (let (rc, st) = rpm_vreg_set_voltage e (vreg sc VREG_HFPLL_B) 0 0 st;
                (rc, st) = rpm_vreg_set_voltage e (vreg sc VREG_HFPLL_A) 0 0 st
            in st)
         else st)"

definition hfpll_set_rate :: "nat \<Rightarrow> core_speed \<Rightarrow> driver \<Rightarrow> driver" where
  "hfpll_set_rate sci tgt_s st =
     writel_relaxed (pll_l_val tgt_s) (hfpll_base (scalable st ! sci) + HFPLL_L_VAL) st"

subsection \<open>The clock-source switch\<close>

text \<open>The \<open>struct core_speed\<close> a pointer points at.\<close>

definition speed_at :: "driver \<Rightarrow> speed_ptr \<Rightarrow> core_speed" where
  "speed_at st p =
     (case p of Acpu_speed i \<Rightarrow> speed (acpu_freq_tbl st ! i)
              | L2_speed j \<Rightarrow> l2_level.speed (l2_freq_tbl st ! j))"

definition set_current_speed :: "nat \<Rightarrow> speed_ptr \<Rightarrow> driver \<Rightarrow> driver" where
  "set_current_speed sci p st =
     st\<lparr>scalable := (scalable st)[sci := (scalable st ! sci)\<lparr>current_speed := Some p\<rparr>]\<rparr>"

definition set_speed ::
  "env \<Rightarrow> nat \<Rightarrow> speed_ptr \<Rightarrow> setrate_reason \<Rightarrow> driver \<Rightarrow> fault + driver" where
  "set_speed e sci tgt_p reason st =
     (if sci \<ge> length (scalable st) then Inl Out_of_bounds
      else case current_speed (scalable st ! sci) of
        None \<Rightarrow> Inl Null_deref
      | Some strt_p \<Rightarrow>
          if tgt_p = strt_p then Inr st
          else
            (let strt_s = speed_at st strt_p; tgt_s = speed_at st tgt_p;
                 st =
                  (if src strt_s = HFPLL \<and> src tgt_s = HFPLL then
                     (let st = set_sec_clk_src sci SEC_SRC_SEL_AUX st;
                          st = set_pri_clk_src sci PRI_SRC_SEL_SEC_SRC st;
                          st = hfpll_disable e sci st;
                          st = hfpll_set_rate sci tgt_s st;
                          st = hfpll_enable e sci st
                      in set_pri_clk_src sci (pri_src_sel tgt_s) st)
                   else if src strt_s = HFPLL \<and> src tgt_s \<noteq> HFPLL then
                     (let st = (if reason \<noteq> SETRATE_HOTPLUG \<or> sci = L2 then
                                  (let st = set_sec_clk_src sci (sec_src_sel tgt_s) st
                                   in set_pri_clk_src sci (pri_src_sel tgt_s) st)
                                else st)
                      in hfpll_disable e sci st)
                   else if src strt_s \<noteq> HFPLL \<and> src tgt_s = HFPLL then
                     (let st = hfpll_set_rate sci tgt_s st;
                          st = hfpll_enable e sci st
                      in if reason \<noteq> SETRATE_HOTPLUG \<or> sci = L2
                         then set_pri_clk_src sci (pri_src_sel tgt_s) st else st)
                   else
                     (if reason \<noteq> SETRATE_HOTPLUG \<or> sci = L2
                      then set_sec_clk_src sci (sec_src_sel tgt_s) st else st))
             in Inr (set_current_speed sci tgt_p st)))"

subsection \<open>The shared-domain vote and the bus bandwidth\<close>

text \<open>
  \<open>max\<close> on \<open>struct l2_level *\<close> compares addresses: a null vote is below every
  table entry, and entries compare by index.
\<close>

definition max_l2_ptr :: "nat \<Rightarrow> nat option \<Rightarrow> nat" where
  "max_l2_ptr new_l vote = (case vote of None \<Rightarrow> new_l | Some v \<Rightarrow> max new_l v)"

definition compute_l2_level :: "env \<Rightarrow> nat \<Rightarrow> nat \<Rightarrow> driver \<Rightarrow> fault + (nat \<times> driver)" where
  "compute_l2_level e sci vote_l st =
     (if vote_l \<ge> length (l2_freq_tbl st) then Inl Bug
      else
        (let st = st\<lparr>scalable := (scalable st)[sci := (scalable st ! sci)\<lparr>l2_vote := Some vote_l\<rparr>]\<rparr>;
             new_l = fold (\<lambda>cpu new_l. max_l2_ptr new_l (l2_vote (scalable st ! cpu)))
                          (cpu_present e) 0
         in Inr (new_l, st)))"

abbreviation (input) ARRAY_SIZE_bw_level_tbl :: u32 where "ARRAY_SIZE_bw_level_tbl \<equiv> 11"

text \<open>A rejected or failed bandwidth request is logged and otherwise ignored.\<close>

definition set_bus_bw :: "env \<Rightarrow> u32 \<Rightarrow> driver \<Rightarrow> driver" where
  "set_bus_bw e bw st =
     (if bw \<ge> ARRAY_SIZE_bw_level_tbl then st
      else snd (call_backend e (Msm_bus_scale_client_update_request bw) st))"

subsection \<open>The rail sequencer\<close>

definition set_cur_vdd :: "nat \<Rightarrow> vregs \<Rightarrow> u32 \<Rightarrow> driver \<Rightarrow> driver" where
  "set_cur_vdd cpu r v st =
     (let sc = scalable st ! cpu
      in st\<lparr>scalable := (scalable st)[cpu := sc\<lparr>vreg := (vreg sc)(r := (vreg sc r)\<lparr>cur_vdd := v\<rparr>)\<rparr>]\<rparr>)"

text \<open>
  \<open>increase_vdd\<close>, in three parts: \<open>increase_vdd_core\<close> is the function from the test
  of \<open>vdd_core\<close> to its end, \<open>increase_vdd_dig\<close> from the test of \<open>vdd_dig\<close> to its
  end.  A \<open>return rc\<close> inside a step leaves out the steps after it.
\<close>

definition increase_vdd_core ::
  "env \<Rightarrow> nat \<Rightarrow> u32 \<Rightarrow> setrate_reason \<Rightarrow> driver \<Rightarrow> int \<times> driver" where
  "increase_vdd_core e cpu vdd_core_v reason st =
     (let sc = scalable st ! cpu
      in if vdd_core_v > cur_vdd (vreg sc VREG_CORE) \<and> reason \<noteq> SETRATE_HOTPLUG then
           (let (rc, st) = regulator_set_voltage e (vreg sc VREG_CORE) vdd_core_v
                             (max_vdd (vreg sc VREG_CORE)) st
            in if rc \<noteq> 0 then (rc, st)
               else (rc, set_cur_vdd cpu VREG_CORE vdd_core_v st))
         else (0, st))"

definition increase_vdd_dig ::
  "env \<Rightarrow> nat \<Rightarrow> u32 \<Rightarrow> u32 \<Rightarrow> setrate_reason \<Rightarrow> driver \<Rightarrow> int \<times> driver" where
  "increase_vdd_dig e cpu vdd_core_v vdd_dig_v reason st =
     (let sc = scalable st ! cpu
      in if vdd_dig_v > cur_vdd (vreg sc VREG_DIG) then
           (let (rc, st) = rpm_vreg_set_voltage e (vreg sc VREG_DIG) vdd_dig_v
                             (max_vdd (vreg sc VREG_DIG)) st
            in if rc \<noteq> 0 then (rc, st)
               else increase_vdd_core e cpu vdd_core_v reason
                      (set_cur_vdd cpu VREG_DIG vdd_dig_v st))
         else increase_vdd_core e cpu vdd_core_v reason st)"

definition increase_vdd ::
  "env \<Rightarrow> nat \<Rightarrow> u32 \<Rightarrow> u32 \<Rightarrow> u32 \<Rightarrow> setrate_reason \<Rightarrow> driver \<Rightarrow> int \<times> driver" where
  "increase_vdd e cpu vdd_core_v vdd_mem_v vdd_dig_v reason st =
     (let sc = scalable st ! cpu
      in if vdd_mem_v > cur_vdd (vreg sc VREG_MEM) then
           (let (rc, st) = rpm_vreg_set_voltage e (vreg sc VREG_MEM) vdd_mem_v
                             (max_vdd (vreg sc VREG_MEM)) st
            in if rc \<noteq> 0 then (rc, st)
               else increase_vdd_dig e cpu vdd_core_v vdd_dig_v reason
                      (set_cur_vdd cpu VREG_MEM vdd_mem_v st))
         else increase_vdd_dig e cpu vdd_core_v vdd_dig_v reason st)"

text \<open>
  \<open>decrease_vdd\<close> returns nothing: a failed step ends the function, and the caller
  is not told.  \<open>decrease_vdd_mem\<close> is the function from the test of \<open>vdd_mem\<close> to
  its end, \<open>decrease_vdd_dig\<close> from the test of \<open>vdd_dig\<close> to its end.
\<close>

definition decrease_vdd_mem :: "env \<Rightarrow> nat \<Rightarrow> u32 \<Rightarrow> driver \<Rightarrow> driver" where
  "decrease_vdd_mem e cpu vdd_mem_v st =
     (let sc = scalable st ! cpu
      in if vdd_mem_v < cur_vdd (vreg sc VREG_MEM) then
           (let (ret, st) = rpm_vreg_set_voltage e (vreg sc VREG_MEM) vdd_mem_v
                              (max_vdd (vreg sc VREG_MEM)) st
            in if ret \<noteq> 0 then st else set_cur_vdd cpu VREG_MEM vdd_mem_v st)
         else st)"

definition decrease_vdd_dig :: "env \<Rightarrow> nat \<Rightarrow> u32 \<Rightarrow> u32 \<Rightarrow> driver \<Rightarrow> driver" where
  "decrease_vdd_dig e cpu vdd_mem_v vdd_dig_v st =
     (let sc = scalable st ! cpu
      in if vdd_dig_v < cur_vdd (vreg sc VREG_DIG) then
           (let (ret, st) = rpm_vreg_set_voltage e (vreg sc VREG_DIG) vdd_dig_v
                              (max_vdd (vreg sc VREG_DIG)) st
            in if ret \<noteq> 0 then st
               else decrease_vdd_mem e cpu vdd_mem_v (set_cur_vdd cpu VREG_DIG vdd_dig_v st))
         else decrease_vdd_mem e cpu vdd_mem_v st)"

definition decrease_vdd ::
  "env \<Rightarrow> nat \<Rightarrow> u32 \<Rightarrow> u32 \<Rightarrow> u32 \<Rightarrow> setrate_reason \<Rightarrow> driver \<Rightarrow> driver" where
  "decrease_vdd e cpu vdd_core_v vdd_mem_v vdd_dig_v reason st =
     (let sc = scalable st ! cpu
      in if vdd_core_v < cur_vdd (vreg sc VREG_CORE) \<and> reason \<noteq> SETRATE_HOTPLUG then
           (let (ret, st) = regulator_set_voltage e (vreg sc VREG_CORE) vdd_core_v
                              (max_vdd (vreg sc VREG_CORE)) st
            in if ret \<noteq> 0 then st
               else decrease_vdd_dig e cpu vdd_mem_v vdd_dig_v
                      (set_cur_vdd cpu VREG_CORE vdd_core_v st))
         else decrease_vdd_dig e cpu vdd_mem_v vdd_dig_v st)"

section \<open>The transition engine\<close>

definition acpuclk_8960_get_rate :: "nat \<Rightarrow> driver \<Rightarrow> fault + u32" where
  "acpuclk_8960_get_rate cpu st =
     (if cpu \<ge> length (scalable st) then Inl Out_of_bounds
      else case current_speed (scalable st ! cpu) of
        None \<Rightarrow> Inl Null_deref
      | Some p \<Rightarrow> Inr (khz (speed_at st p)))"

text \<open>
  The search for the target frequency: the index of the first entry before the sentinel
  whose frequency is \<open>rate\<close>, or \<open>None\<close> when the loop ends at the sentinel.  A table
  without sentinel lets the loop leave the array.
\<close>

fun find_target :: "acpu_level list \<Rightarrow> nat \<Rightarrow> u32 \<Rightarrow> fault + nat option" where
  "find_target [] i rate = Inl Out_of_bounds"
| "find_target (l # ls) i rate =
     (if khz (speed l) = 0 then Inr None
      else if khz (speed l) = rate then Inr (Some i)
      else find_target ls (i + 1) rate)"

text \<open>
  The critical section of \<open>acpuclk_8960_set_rate\<close> under \<open>l2_lock\<close>: the vote of
  the core is recorded, the level to apply is computed and the shared domain is set to
  it.  The result is the level \<open>tgt_l2_l\<close>.
\<close>

definition update_l2_vote ::
  "env \<Rightarrow> nat \<Rightarrow> nat \<Rightarrow> setrate_reason \<Rightarrow> driver \<Rightarrow> fault + (nat \<times> driver)" where
  "update_l2_vote e cpu vote_l reason st =
     (case compute_l2_level e cpu vote_l st of
        Inl f \<Rightarrow> Inl f
      | Inr (tgt_l2_l, st) \<Rightarrow>
          (case set_speed e L2 (L2_speed tgt_l2_l) reason st of
             Inl f \<Rightarrow> Inl f
           | Inr st \<Rightarrow>
               (let st = set_acpuclk_L2_freq_foot_print
                           (khz (l2_level.speed (l2_freq_tbl st ! tgt_l2_l))) st;
                    st = set_acpuclk_foot_print cpu 0x5 st
                in Inr (tgt_l2_l, st))))"

definition clear_first_set_call :: "nat \<Rightarrow> driver \<Rightarrow> driver" where
  "clear_first_set_call cpu st =
     st\<lparr>scalable := (scalable st)[cpu := (scalable st ! cpu)\<lparr>first_set_call := False\<rparr>]\<rparr>"

text \<open>
  \<open>acpuclk_8960_set_rate\<close> from the computation of the voltage requirements on, for the
  target found at index \<open>i\<close> of \<open>acpu_freq_tbl\<close>.  The label \<open>out\<close> writes footprint
  8 and returns \<open>rc\<close>; \<open>driver_lock\<close> has no part in a sequential run.
\<close>

definition set_rate_to ::
  "env \<Rightarrow> nat \<Rightarrow> nat \<Rightarrow> setrate_reason \<Rightarrow> driver \<Rightarrow> fault + (int \<times> driver)" where
  "set_rate_to e cpu i reason st =
     (let tgt = acpu_freq_tbl st ! i;
          vdd_mem_v = calculate_vdd_mem (l2_freq_tbl st) tgt;
          vdd_dig_v = calculate_vdd_dig (l2_freq_tbl st) tgt;
          vdd_core_v = calculate_vdd_core tgt;
          (rc, st) = (if reason = SETRATE_CPUFREQ \<or> reason = SETRATE_HOTPLUG
                      then increase_vdd e cpu vdd_core_v vdd_mem_v vdd_dig_v reason st
                      else (0, st))
      in if rc \<noteq> 0 then Inr (rc, set_acpuclk_foot_print cpu 0x8 st)
         else
           (let st = set_acpuclk_foot_print cpu 0x3 st
            in case set_speed e cpu (Acpu_speed i) reason st of
                 Inl f \<Rightarrow> Inl f
               | Inr st \<Rightarrow>
                   (let st = set_acpuclk_cpu_freq_foot_print cpu (khz (speed tgt)) st;
                        st = set_acpuclk_foot_print cpu 0x4 st
                    in case update_l2_vote e cpu (l2_level tgt) reason st of
                         Inl f \<Rightarrow> Inl f
                       | Inr (tgt_l2_l, st) \<Rightarrow>
                           if reason = SETRATE_PC \<or> reason = SETRATE_SWFI
                           then Inr (0, set_acpuclk_foot_print cpu 0x8 st)
                           else
                             (let st = set_bus_bw e (bw_level (l2_freq_tbl st ! tgt_l2_l)) st;
                                  st = set_acpuclk_foot_print cpu 0x6 st;
                                  st = decrease_vdd e cpu vdd_core_v vdd_mem_v vdd_dig_v reason st;
                                  st = set_acpuclk_foot_print cpu 0x7 st;
                                  st = clear_first_set_call cpu st
                              in Inr (0, set_acpuclk_foot_print cpu 0x8 st)))))"

text \<open>
  \<open>cpu\<close> is compared with the unsigned \<open>num_possible_cpus()\<close>, so the core ids are
  the naturals.
\<close>

definition acpuclk_8960_set_rate ::
  "env \<Rightarrow> nat \<Rightarrow> u32 \<Rightarrow> setrate_reason \<Rightarrow> driver \<Rightarrow> fault + (int \<times> driver)" where
  "acpuclk_8960_set_rate e cpu rate reason st =
     (let st = set_acpuclk_foot_print cpu 0x1 st
      in if cpu > num_possible_cpus e then Inr (- EINVAL, set_acpuclk_foot_print cpu 0x8 st)
         else
           (let st = set_acpuclk_foot_print cpu 0x2 st
            in if cpu \<ge> length (scalable st) then Inl Out_of_bounds
               else case current_speed (scalable st ! cpu) of
                 None \<Rightarrow> Inl Null_deref
               | Some strt_acpu_p \<Rightarrow>
                   if rate = khz (speed_at st strt_acpu_p)
                      \<and> first_set_call (scalable st ! cpu) = False
                   then Inr (0, set_acpuclk_foot_print cpu 0x8 st)
                   else
                     (case find_target (acpu_freq_tbl st) 0 rate of
                        Inl f \<Rightarrow> Inl f
                      | Inr None \<Rightarrow> Inr (- EINVAL, set_acpuclk_foot_print cpu 0x8 st)
                      | Inr (Some i) \<Rightarrow> set_rate_to e cpu i reason st)))"

section \<open>The hotplug coordinator\<close>

datatype hotplug_action =
    CPU_DYING | CPU_DYING_FROZEN | CPU_DEAD | CPU_DEAD_FROZEN
  | CPU_UP_CANCELED | CPU_UP_CANCELED_FROZEN | CPU_UP_PREPARE | CPU_UP_PREPARE_FROZEN
  | CPU_STARTING | CPU_STARTING_FROZEN | Other_action

datatype notify = NOTIFY_OK | NOTIFY_BAD

abbreviation (input) HOT_UNPLUG_KHZ :: u32 where "HOT_UNPLUG_KHZ \<equiv> STBY_KHZ"

text \<open>The two cases that call \<open>acpuclk_8960_set_rate\<close> ignore its return code.\<close>

definition hotplug_dying :: "nat \<Rightarrow> driver \<Rightarrow> driver" where
  "hotplug_dying cpu st =
     (let st = st\<lparr>prev_sec_src := (prev_sec_src st)(cpu := get_sec_clk_src cpu st)\<rparr>;
          st = st\<lparr>prev_pri_src := (prev_pri_src st)(cpu := get_pri_clk_src cpu st)\<rparr>;
          st = set_sec_clk_src cpu SEC_SRC_SEL_QSB st
      in set_pri_clk_src cpu PRI_SRC_SEL_SEC_SRC st)"

definition hotplug_starting :: "nat \<Rightarrow> driver \<Rightarrow> driver" where
  "hotplug_starting cpu st =
     (let st = set_sec_clk_src cpu (prev_sec_src st cpu) st
      in set_pri_clk_src cpu (prev_pri_src st cpu) st)"

definition hotplug_up_canceled :: "env \<Rightarrow> nat \<Rightarrow> driver \<Rightarrow> fault + (notify \<times> driver)" where
  "hotplug_up_canceled e cpu st =
     (case acpuclk_8960_set_rate e cpu HOT_UNPLUG_KHZ SETRATE_HOTPLUG st of
        Inl f \<Rightarrow> Inl f
      | Inr (rc, st) \<Rightarrow> Inr (NOTIFY_OK, st))"

fun acpuclock_cpu_callback ::
  "env \<Rightarrow> hotplug_action \<Rightarrow> nat \<Rightarrow> driver \<Rightarrow> fault + (notify \<times> driver)" where
  "acpuclock_cpu_callback e CPU_DYING cpu st = Inr (NOTIFY_OK, hotplug_dying cpu st)"
| "acpuclock_cpu_callback e CPU_DYING_FROZEN cpu st = Inr (NOTIFY_OK, hotplug_dying cpu st)"
| "acpuclock_cpu_callback e CPU_DEAD cpu st =
     (case acpuclk_8960_get_rate cpu st of
        Inl f \<Rightarrow> Inl f
      | Inr r \<Rightarrow> hotplug_up_canceled e cpu (st\<lparr>prev_khz := (prev_khz st)(cpu := r)\<rparr>))"
| "acpuclock_cpu_callback e CPU_DEAD_FROZEN cpu st =
     (case acpuclk_8960_get_rate cpu st of
        Inl f \<Rightarrow> Inl f
      | Inr r \<Rightarrow> hotplug_up_canceled e cpu (st\<lparr>prev_khz := (prev_khz st)(cpu := r)\<rparr>))"
| "acpuclock_cpu_callback e CPU_UP_CANCELED cpu st = hotplug_up_canceled e cpu st"
| "acpuclock_cpu_callback e CPU_UP_CANCELED_FROZEN cpu st = hotplug_up_canceled e cpu st"
| "acpuclock_cpu_callback e CPU_UP_PREPARE cpu st =
     (if prev_khz st cpu = 0 then Inr (NOTIFY_BAD, st)
      else case acpuclk_8960_set_rate e cpu (prev_khz st cpu) SETRATE_HOTPLUG st of
        Inl f \<Rightarrow> Inl f
      | Inr (rc, st) \<Rightarrow> Inr (NOTIFY_OK, st))"
| "acpuclock_cpu_callback e CPU_UP_PREPARE_FROZEN cpu st =
     (if prev_khz st cpu = 0 then Inr (NOTIFY_BAD, st)
      else case acpuclk_8960_set_rate e cpu (prev_khz st cpu) SETRATE_HOTPLUG st of
        Inl f \<Rightarrow> Inl f
      | Inr (rc, st) \<Rightarrow> Inr (NOTIFY_OK, st))"
| "acpuclock_cpu_callback e CPU_STARTING cpu st = Inr (NOTIFY_OK, hotplug_starting cpu st)"
| "acpuclock_cpu_callback e CPU_STARTING_FROZEN cpu st = Inr (NOTIFY_OK, hotplug_starting cpu st)"
| "acpuclock_cpu_callback e Other_action cpu st = Inr (NOTIFY_OK, st)"

section \<open>The frequency tables\<close>

text \<open>
  The rows of the tables, written as the C initialisers are: the fields of the
  \<open>core_speed\<close> first.  \<open>L2(x)\<close> is the index \<open>x\<close> of \<open>l2_freq_tbl_8960_kraitv2\<close>;
  the last row of each table of operating points is the sentinel \<open>{ 0, { 0 } }\<close>.
\<close>

definition L2_LEVEL ::
  "u32 \<Rightarrow> int \<Rightarrow> u32 \<Rightarrow> u32 \<Rightarrow> u32 \<Rightarrow> u32 \<Rightarrow> u32 \<Rightarrow> u32 \<Rightarrow> l2_level" where
  "L2_LEVEL k s p q l vd vm bw =
     \<lparr>l2_level.speed = \<lparr>khz = k, src = s, pri_src_sel = p, sec_src_sel = q, pll_l_val = l\<rparr>,
      vdd_dig = vd, vdd_mem = vm, bw_level = bw\<rparr>"

definition ACPU_LEVEL ::
  "u32 \<Rightarrow> u32 \<Rightarrow> int \<Rightarrow> u32 \<Rightarrow> u32 \<Rightarrow> u32 \<Rightarrow> nat \<Rightarrow> u32 \<Rightarrow> acpu_level" where
  "ACPU_LEVEL u k s p q l l2 vc =
     \<lparr>use_for_scaling = u,
      speed = \<lparr>khz = k, src = s, pri_src_sel = p, sec_src_sel = q, pll_l_val = l\<rparr>,
      l2_level = l2, vdd_core = vc\<rparr>"

definition ACPU_END :: acpu_level where
  "ACPU_END =
     \<lparr>use_for_scaling = 0,
      speed = \<lparr>khz = 0, src = 0, pri_src_sel = 0, sec_src_sel = 0, pll_l_val = 0\<rparr>,
      l2_level = 0, vdd_core = 0\<rparr>"

definition l2_freq_tbl_8960_kraitv2 :: "l2_level list" where
  "l2_freq_tbl_8960_kraitv2 =
     [L2_LEVEL STBY_KHZ QSB 0 0 0x00 1050000 1050000 0,
      L2_LEVEL 192000 PLL_8 0 2 0x00 1050000 1050000 1,
      L2_LEVEL 384000 HFPLL 2 0 0x20 1050000 1050000 2,
      L2_LEVEL 486000 HFPLL 2 0 0x24 1050000 1050000 2,
      L2_LEVEL 540000 HFPLL 2 0 0x28 1050000 1050000 2,
      L2_LEVEL 594000 HFPLL 1 0 0x16 1050000 1050000 2,
      L2_LEVEL 648000 HFPLL 1 0 0x18 1050000 1050000 4,
      L2_LEVEL 702000 HFPLL 1 0 0x1A 1050000 1050000 4,
      L2_LEVEL 756000 HFPLL 1 0 0x1C 1150000 1150000 4,
      L2_LEVEL 810000 HFPLL 1 0 0x1E 1150000 1150000 4,
      L2_LEVEL 864000 HFPLL 1 0 0x20 1150000 1150000 4,
      L2_LEVEL 918000 HFPLL 1 0 0x22 1150000 1150000 6,
      L2_LEVEL 972000 HFPLL 1 0 0x24 1150000 1150000 6,
      L2_LEVEL 1026000 HFPLL 1 0 0x26 1150000 1150000 6,
      L2_LEVEL 1080000 HFPLL 1 0 0x28 1150000 1150000 6,
      L2_LEVEL 1134000 HFPLL 1 0 0x2A 1150000 1150000 6,
      L2_LEVEL 1188000 HFPLL 1 0 0x2C 1150000 1150000 6,
      L2_LEVEL 1242000 HFPLL 1 0 0x2E 1150000 1150000 6,
      L2_LEVEL 1350000 HFPLL 1 0 0x30 1150000 1150000 6,
      L2_LEVEL 1458000 HFPLL 1 0 0x32 1150000 1150000 6,
      L2_LEVEL 1512000 HFPLL 1 0 0x34 1150000 1150000 7,
      L2_LEVEL 1674000 HFPLL 1 0 0x36 1150000 1150000 7,
      L2_LEVEL 1728000 HFPLL 1 0 0x36 1150000 1150000 7]"

definition acpu_freq_tbl_8960_fusion_slow :: "acpu_level list" where
  "acpu_freq_tbl_8960_fusion_slow =
     [ACPU_LEVEL 0 STBY_KHZ QSB 0 0 0x00 0 850000,
      ACPU_LEVEL 1 192000 PLL_8 0 2 0x00 1 900000,
      ACPU_LEVEL 1 384000 HFPLL 2 0 0x20 7 900000,
      ACPU_LEVEL 1 486000 HFPLL 2 0 0x24 7 950000,
      ACPU_LEVEL 0 540000 HFPLL 2 0 0x28 7 1000000,
      ACPU_LEVEL 1 594000 HFPLL 1 0 0x16 7 1000000,
      ACPU_LEVEL 0 648000 HFPLL 1 0 0x18 7 1025000,
      ACPU_LEVEL 1 702000 HFPLL 1 0 0x1A 7 1025000,
      ACPU_LEVEL 0 756000 HFPLL 1 0 0x1C 7 1075000,
      ACPU_LEVEL 1 810000 HFPLL 1 0 0x1E 7 1075000,
      ACPU_LEVEL 0 864000 HFPLL 1 0 0x20 7 1100000,
      ACPU_LEVEL 1 918000 HFPLL 1 0 0x22 7 1100000,
      ACPU_LEVEL 0 972000 HFPLL 1 0 0x24 7 1125000,
      ACPU_LEVEL 1 1026000 HFPLL 1 0 0x26 7 1125000,
      ACPU_LEVEL 0 1080000 HFPLL 1 0 0x28 16 1175000,
      ACPU_LEVEL 1 1134000 HFPLL 1 0 0x2A 16 1175000,
      ACPU_LEVEL 0 1188000 HFPLL 1 0 0x2C 16 1200000,
      ACPU_LEVEL 1 1242000 HFPLL 1 0 0x2E 16 1200000,
      ACPU_LEVEL 0 1296000 HFPLL 1 0 0x30 16 1225000,
      ACPU_LEVEL 1 1350000 HFPLL 1 0 0x32 16 1225000,
      ACPU_LEVEL 0 1404000 HFPLL 1 0 0x34 16 1237500,
      ACPU_LEVEL 1 1458000 HFPLL 1 0 0x36 16 1237500,
      ACPU_LEVEL 1 1512000 HFPLL 1 0 0x38 18 1250000,
      ACPU_LEVEL 1 1674000 HFPLL 1 0 0x3A 18 1275000,
      ACPU_LEVEL 1 1728000 HFPLL 1 0 0x3C 19 1300000,
      ACPU_LEVEL 1 1809000 HFPLL 1 0 0x3E 19 1325000,
      ACPU_LEVEL 1 1890000 HFPLL 1 0 0x40 20 1350000,
      ACPU_LEVEL 1 1998000 HFPLL 1 0 0x40 21 1350000,
      ACPU_LEVEL 1 2160000 HFPLL 1 0 0x40 21 1350000,
      ACPU_END]"

definition acpu_freq_tbl_8960_fusion_nom :: "acpu_level list" where
  "acpu_freq_tbl_8960_fusion_nom =
     [ACPU_LEVEL 0 STBY_KHZ QSB 0 0 0x00 0 800000,
      ACPU_LEVEL 1 192000 PLL_8 0 2 0x00 1 800000,
      ACPU_LEVEL 1 384000 HFPLL 2 0 0x20 7 850000,
      ACPU_LEVEL 1 486000 HFPLL 2 0 0x24 7 900000,
      ACPU_LEVEL 0 540000 HFPLL 2 0 0x28 7 950000,
      ACPU_LEVEL 1 594000 HFPLL 1 0 0x16 7 950000,
      ACPU_LEVEL 0 648000 HFPLL 1 0 0x18 7 975000,
      ACPU_LEVEL 1 702000 HFPLL 1 0 0x1A 7 975000,
      ACPU_LEVEL 0 756000 HFPLL 1 0 0x1C 7 1025000,
      ACPU_LEVEL 1 810000 HFPLL 1 0 0x1E 7 1025000,
      ACPU_LEVEL 0 864000 HFPLL 1 0 0x20 7 1050000,
      ACPU_LEVEL 1 918000 HFPLL 1 0 0x22 7 1050000,
      ACPU_LEVEL 0 972000 HFPLL 1 0 0x24 7 1075000,
      ACPU_LEVEL 1 1026000 HFPLL 1 0 0x26 7 1075000,
      ACPU_LEVEL 0 1080000 HFPLL 1 0 0x28 16 1100000,
      ACPU_LEVEL 1 1134000 HFPLL 1 0 0x2A 16 1125000,
      ACPU_LEVEL 0 1188000 HFPLL 1 0 0x2C 16 1125000,
      ACPU_LEVEL 1 1242000 HFPLL 1 0 0x2E 16 1150000,
      ACPU_LEVEL 0 1296000 HFPLL 1 0 0x30 16 1150000,
      ACPU_LEVEL 1 1350000 HFPLL 1 0 0x32 16 1175000,
      ACPU_LEVEL 0 1404000 HFPLL 1 0 0x34 16 1175000,
      ACPU_LEVEL 1 1458000 HFPLL 1 0 0x36 16 1187500,
      ACPU_LEVEL 1 1512000 HFPLL 1 0 0x38 18 1200000,
      ACPU_LEVEL 1 1674000 HFPLL 1 0 0x3A 18 1225000,
      ACPU_LEVEL 1 1728000 HFPLL 1 0 0x3C 19 1250000,
      ACPU_LEVEL 1 1809000 HFPLL 1 0 0x3E 19 1275000,
      ACPU_LEVEL 1 1890000 HFPLL 1 0 0x40 19 1300000,
      ACPU_LEVEL 1 1998000 HFPLL 1 0 0x40 21 1325000,
      ACPU_LEVEL 1 2160000 HFPLL 1 0 0x40 21 1350000,
      ACPU_END]"

definition acpu_freq_tbl_8960_fusion_fast :: "acpu_level list" where
  "acpu_freq_tbl_8960_fusion_fast =
     [ACPU_LEVEL 0 STBY_KHZ QSB 0 0 0x00 0 800000,
      ACPU_LEVEL 1 192000 PLL_8 0 2 0x00 1 800000,
      ACPU_LEVEL 1 384000 HFPLL 2 0 0x20 7 800000,
      ACPU_LEVEL 1 486000 HFPLL 2 0 0x24 7 850000,
      ACPU_LEVEL 0 540000 HFPLL 2 0 0x28 7 900000,
      ACPU_LEVEL 1 594000 HFPLL 1 0 0x16 7 900000,
      ACPU_LEVEL 0 648000 HFPLL 1 0 0x18 7 925000,
      ACPU_LEVEL 1 702000 HFPLL 1 0 0x1A 7 925000,
      ACPU_LEVEL 0 756000 HFPLL 1 0 0x1C 7 975000,
      ACPU_LEVEL 1 810000 HFPLL 1 0 0x1E 7 975000,
      ACPU_LEVEL 0 864000 HFPLL 1 0 0x20 7 1000000,
      ACPU_LEVEL 1 918000 HFPLL 1 0 0x22 7 1000000,
      ACPU_LEVEL 0 972000 HFPLL 1 0 0x24 7 1025000,
      ACPU_LEVEL 1 1026000 HFPLL 1 0 0x26 7 1025000,
      ACPU_LEVEL 0 1080000 HFPLL 1 0 0x28 16 1075000,
      ACPU_LEVEL 1 1134000 HFPLL 1 0 0x2A 16 1075000,
      ACPU_LEVEL 0 1188000 HFPLL 1 0 0x2C 16 1100000,
      ACPU_LEVEL 1 1242000 HFPLL 1 0 0x2E 16 1100000,
      ACPU_LEVEL 0 1296000 HFPLL 1 0 0x30 16 1125000,
      ACPU_LEVEL 1 1350000 HFPLL 1 0 0x32 16 1125000,
      ACPU_LEVEL 0 1404000 HFPLL 1 0 0x34 16 1125000,
      ACPU_LEVEL 1 1458000 HFPLL 1 0 0x36 16 1137500,
      ACPU_LEVEL 1 1512000 HFPLL 1 0 0x38 18 1150000,
      ACPU_LEVEL 1 1674000 HFPLL 1 0 0x3A 18 1175000,
      ACPU_LEVEL 1 1728000 HFPLL 1 0 0x3C 19 1200000,
      ACPU_LEVEL 1 1809000 HFPLL 1 0 0x3E 19 1250000,
      ACPU_LEVEL 1 1890000 HFPLL 1 0 0x40 19 1275000,
      ACPU_LEVEL 1 1998000 HFPLL 1 0 0x40 21 1300000,
      ACPU_LEVEL 1 2160000 HFPLL 1 0 0x40 21 1325000,
      ACPU_END]"


text \<open>
  \<open>scalable_8960\<close>: the entries \<open>CPU0\<close>, \<open>CPU1\<close> and \<open>L2\<close> are initialised, the
  entries \<open>CPU2\<close> and \<open>CPU3\<close> between them are zero-filled, as is every field that
  an initialiser leaves out.
\<close>

definition zero_vreg :: vreg where
  "zero_vreg = \<lparr>name = [], max_vdd = 0, rpm_vreg_voter = 0, rpm_vreg_id = 0, cur_vdd = 0\<rparr>"

definition VREG :: "string \<Rightarrow> u32 \<Rightarrow> int \<Rightarrow> int \<Rightarrow> vreg" where
  "VREG n m voter ident =
     \<lparr>name = n, max_vdd = m, rpm_vreg_voter = voter, rpm_vreg_id = ident, cur_vdd = 0\<rparr>"

definition zero_scalable :: scalable where
  "zero_scalable =
     \<lparr>hfpll_base = 0, aux_clk_sel = 0, l2cpmr_iaddr = 0, current_speed = None,
      l2_vote = None, vreg = (\<lambda>r. zero_vreg), first_set_call = False\<rparr>"

definition scalable_8960 :: "env \<Rightarrow> scalable list" where
  "scalable_8960 e =
     [zero_scalable
        \<lparr>hfpll_base := MSM_HFPLL_BASE e + 0x200,
         aux_clk_sel := MSM_ACC0_BASE e + 0x014,
         l2cpmr_iaddr := L2CPUCPMR_IADDR,
         vreg := (\<lambda>r. zero_vreg)
           (VREG_CORE := VREG ''krait0'' 1350000 0 0,
            VREG_MEM := VREG ''krait0_mem'' 1150000 (RPM_VREG_VOTER1 e) (RPM_VREG_ID_PM8921_L24 e),
            VREG_DIG := VREG ''krait0_dig'' 1150000 (RPM_VREG_VOTER1 e) (RPM_VREG_ID_PM8921_S3 e),
            VREG_HFPLL_A := VREG ''hfpll'' 2100000 (RPM_VREG_VOTER1 e) (RPM_VREG_ID_PM8921_S8 e),
            VREG_HFPLL_B := VREG ''hfpll'' 1800000 (RPM_VREG_VOTER1 e) (RPM_VREG_ID_PM8921_L23 e))\<rparr>,
      zero_scalable
        \<lparr>hfpll_base := MSM_HFPLL_BASE e + 0x300,
         aux_clk_sel := MSM_ACC1_BASE e + 0x014,
         l2cpmr_iaddr := L2CPUCPMR_IADDR,
         vreg := (\<lambda>r. zero_vreg)
           (VREG_CORE := VREG ''krait1'' 1350000 0 0,
            VREG_MEM := VREG ''krait0_mem'' 1150000 (RPM_VREG_VOTER2 e) (RPM_VREG_ID_PM8921_L24 e),
            VREG_DIG := VREG ''krait0_dig'' 1150000 (RPM_VREG_VOTER2 e) (RPM_VREG_ID_PM8921_S3 e),
            VREG_HFPLL_A := VREG ''hfpll'' 2100000 (RPM_VREG_VOTER2 e) (RPM_VREG_ID_PM8921_S8 e),
            VREG_HFPLL_B := VREG ''hfpll'' 1800000 (RPM_VREG_VOTER2 e) (RPM_VREG_ID_PM8921_L23 e))\<rparr>,
      zero_scalable,
      zero_scalable,
      zero_scalable
        \<lparr>hfpll_base := MSM_HFPLL_BASE e + 0x400,
         aux_clk_sel := MSM_APCS_GCC_BASE e + 0x028,
         l2cpmr_iaddr := L2CPMR_IADDR,
         vreg := (\<lambda>r. zero_vreg)
           (VREG_HFPLL_A := VREG ''hfpll'' 2100000 (RPM_VREG_VOTER6 e) (RPM_VREG_ID_PM8921_S8 e),
            VREG_HFPLL_B := VREG ''hfpll'' 1800000 (RPM_VREG_VOTER6 e) (RPM_VREG_ID_PM8921_L23 e))\<rparr>]"

section \<open>Start-up: the operating-point selector and the initial state\<close>

definition krait_needs_vmin :: "env \<Rightarrow> bool" where
  "krait_needs_vmin e \<longleftrightarrow>
     read_cpuid_id e = 0x511F04D0 \<or> read_cpuid_id e = 0x511F04D1 \<or> read_cpuid_id e = 0x510F06F0"

text \<open>
  The loops of the selector run over a table up to its sentinel; a table without
  sentinel lets them leave the array.
\<close>

fun kraitv2_apply_vmin :: "acpu_level list \<Rightarrow> fault + acpu_level list" where
  "kraitv2_apply_vmin [] = Inl Out_of_bounds"
| "kraitv2_apply_vmin (l # ls) =
     (if khz (speed l) = 0 then Inr (l # ls)
      else case kraitv2_apply_vmin ls of
        Inl f \<Rightarrow> Inl f
      | Inr ls' \<Rightarrow>
          Inr ((if vdd_core l < MIN_VDD_SC then l\<lparr>vdd_core := MIN_VDD_SC\<rparr> else l) # ls'))"

text \<open>The inner loop of the adjustment to \<open>acpu_max_freq\<close>, from \<open>++l\<close> on.\<close>

fun mark_not_supported :: "acpu_level list \<Rightarrow> fault + acpu_level list" where
  "mark_not_supported [] = Inl Out_of_bounds"
| "mark_not_supported (l # ls) =
     (if khz (speed l) = 0 then Inr (l # ls)
      else case mark_not_supported ls of
        Inl f \<Rightarrow> Inl f
      | Inr ls' \<Rightarrow> Inr (l\<lparr>use_for_scaling := 0\<rparr> # ls'))"

fun adjust_to_max_freq :: "u32 \<Rightarrow> acpu_level list \<Rightarrow> fault + acpu_level list" where
  "adjust_to_max_freq f [] = Inl Out_of_bounds"
| "adjust_to_max_freq f (l # ls) =
     (if khz (speed l) = 0 then Inr (l # ls)
      else if khz (speed l) = f then
        (case mark_not_supported ls of Inl x \<Rightarrow> Inl x | Inr ls' \<Rightarrow> Inr (l # ls'))
      else
        (case adjust_to_max_freq f ls of Inl x \<Rightarrow> Inl x | Inr ls' \<Rightarrow> Inr (l # ls')))"

text \<open>
  The last loop of \<open>select_freq_plan\<close>: \<open>i\<close> is the index of the entry at hand and
  \<open>max_acpu_level\<close> the pointer found so far.
\<close>

fun find_max_acpu_level :: "acpu_level list \<Rightarrow> nat \<Rightarrow> nat option \<Rightarrow> fault + nat option" where
  "find_max_acpu_level [] i max_acpu_level = Inl Out_of_bounds"
| "find_max_acpu_level (l # ls) i max_acpu_level =
     (if khz (speed l) = 0 then Inr max_acpu_level
      else find_max_acpu_level ls (i + 1)
             (if use_for_scaling l \<noteq> 0 \<and> khz (speed l) = 2160000 then Some i
              else max_acpu_level))"

definition select_pvs_table :: "env \<Rightarrow> acpu_level list" where
  "select_pvs_table e =
     (let pte_efuse = pte_efuse_val e;
          pvs = drop_bit 10 pte_efuse AND 0x7;
          pvs = (if pvs = 0x7 then drop_bit 13 pte_efuse AND 0x7 else pvs);
          v2 = (if pvs = 0x0 \<or> pvs = 0x7 then acpu_freq_tbl_8960_fusion_slow
                else if pvs = 0x1 then acpu_freq_tbl_8960_fusion_nom
                else if pvs = 0x3 then acpu_freq_tbl_8960_fusion_fast
                else acpu_freq_tbl_8960_fusion_nom)
      in if \<not> cpu_is_krait_v1 e then
           (if get_kernel_flag e AND KERNEL_FLAG_PVS_SLOW_CPU e \<noteq> 0
              then acpu_freq_tbl_8960_fusion_slow
            else if get_kernel_flag e AND KERNEL_FLAG_PVS_NOM_CPU e \<noteq> 0
              then acpu_freq_tbl_8960_fusion_nom
            else if get_kernel_flag e AND KERNEL_FLAG_PVS_FAST_CPU e \<noteq> 0
              then acpu_freq_tbl_8960_fusion_fast
            else v2)
         else v2)"

text \<open>
  \<open>select_freq_plan\<close> returns the index of \<open>max_acpu_level\<close> in \<open>acpu_freq_tbl\<close>.
  On a Krait v1 the table pointers stay null, and the first loop over
  \<open>acpu_freq_tbl\<close> dereferences a null pointer.
\<close>

definition select_freq_plan :: "env \<Rightarrow> driver \<Rightarrow> fault + (nat \<times> driver)" where
  "select_freq_plan e st =
     (if \<not> cpu_is_msm8960 e then Inl Bug
      else if cpu_is_krait_v1 e then Inl Null_deref
      else
        (let st = st\<lparr>scalable := scalable_8960 e,
                      acpu_freq_tbl := select_pvs_table e,
                      l2_freq_tbl := l2_freq_tbl_8960_kraitv2\<rparr>
         in case (if krait_needs_vmin e then kraitv2_apply_vmin (acpu_freq_tbl st)
                  else Inr (acpu_freq_tbl st)) of
              Inl f \<Rightarrow> Inl f
            | Inr tbl \<Rightarrow>
                (case (if acpu_max_freq e \<noteq> 0
                       then adjust_to_max_freq (word_of_int (acpu_max_freq e)) tbl
                       else Inr tbl) of
                   Inl f \<Rightarrow> Inl f
                 | Inr tbl \<Rightarrow>
                     (case find_max_acpu_level tbl 0 None of
                        Inl f \<Rightarrow> Inl f
                      | Inr None \<Rightarrow> Inl Bug
                      | Inr (Some m) \<Rightarrow>
                          Inr (m, st\<lparr>acpu_freq_tbl := tbl,
                                     max_vdd_var := vdd_core (tbl ! m)\<rparr>)))))"

definition hfpll_init :: "env \<Rightarrow> nat \<Rightarrow> core_speed \<Rightarrow> driver \<Rightarrow> driver" where
  "hfpll_init e sci tgt_s st =
     (let sc = scalable st ! sci;
          st = hfpll_disable e sci st;
          st = writel_relaxed 0x7845C665 (hfpll_base sc + HFPLL_CONFIG_CTL) st;
          st = writel_relaxed 0 (hfpll_base sc + HFPLL_M_VAL) st;
          st = writel_relaxed 1 (hfpll_base sc + HFPLL_N_VAL) st;
          st = writel_relaxed 0x0108C000 (hfpll_base sc + HFPLL_DROOP_CTL) st;
          st = hfpll_set_rate sci tgt_s st
      in hfpll_enable e sci st)"

definition init_clock_sources :: "env \<Rightarrow> nat \<Rightarrow> speed_ptr \<Rightarrow> driver \<Rightarrow> driver" where
  "init_clock_sources e sci tgt_p st =
     (let sc = scalable st ! sci;
          tgt_s = speed_at st tgt_p;
          st = writel_relaxed 0x3 (aux_clk_sel sc) st;
          st = set_sec_clk_src sci SEC_SRC_SEL_AUX st;
          st = set_pri_clk_src sci PRI_SRC_SEL_SEC_SRC st;
          st = hfpll_init e sci tgt_s st;
          regval = get_l2_indirect_reg (l2cpmr_iaddr sc) st;
          regval = regval AND NOT (push_bit 6 0x3);
          st = set_l2_indirect_reg (l2cpmr_iaddr sc) regval st;
          st = set_sec_clk_src sci (sec_src_sel tgt_s) st;
          st = set_pri_clk_src sci (pri_src_sel tgt_s) st;
          st = set_current_speed sci tgt_p st
      in st\<lparr>scalable := (scalable st)[sci := (scalable st ! sci)\<lparr>first_set_call := True\<rparr>]\<rparr>)"

definition per_cpu_init :: "env \<Rightarrow> nat \<Rightarrow> nat \<Rightarrow> driver \<Rightarrow> driver" where
  "per_cpu_init e max_acpu_level cpu st =
     (let st = init_clock_sources e cpu (Acpu_speed max_acpu_level) st
      in st\<lparr>scalable := (scalable st)[cpu := (scalable st ! cpu)
              \<lparr>l2_vote := Some (l2_level (acpu_freq_tbl st ! max_acpu_level))\<rparr>]\<rparr>)"

text \<open>
  \<open>regulator_init\<close> over the possible CPUs: \<open>regulator_get\<close> answers with an error
  pointer when its code is not zero.  The failures of the two other calls are logged.
\<close>

fun regulator_init :: "env \<Rightarrow> nat list \<Rightarrow> driver \<Rightarrow> fault + driver" where
  "regulator_init e [] st = Inr st"
| "regulator_init e (cpu # cpus) st =
     (let sc = scalable st ! cpu;
          (err, st) = call_backend e (Regulator_get (name (vreg sc VREG_CORE))) st
      in if err \<noteq> 0 then Inl Bug
         else
           (let (ret, st) = regulator_set_voltage e (vreg sc VREG_CORE)
                              (max_vdd_var st) (max_vdd_var st) st;
                (ret, st) = call_backend e (Regulator_enable (name (vreg sc VREG_CORE))) st
            in regulator_init e cpus st))"

text \<open>\<open>bus_init\<close>: the backend answers the registration with the client handle.\<close>

definition bus_init :: "env \<Rightarrow> driver \<Rightarrow> fault + driver" where
  "bus_init e st =
     (let (bus_perf_client, st) = call_backend e Msm_bus_scale_register_client st
      in if bus_perf_client = 0 then Inl Bug
         else Inr (snd (call_backend e
                   (Msm_bus_scale_client_update_request (ARRAY_SIZE_bw_level_tbl - 1)) st)))"

text \<open>
  \<open>acpuclk_8960_init\<close>.  \<open>cpufreq_table_init\<close>, \<open>acpuclk_register\<close> and
  \<open>register_hotcpu_notifier\<close> hand tables and entry points to other layers and change
  none of this state.
\<close>

definition acpuclk_8960_init :: "env \<Rightarrow> driver \<Rightarrow> fault + (int \<times> driver)" where
  "acpuclk_8960_init e st =
     (case select_freq_plan e st of
        Inl f \<Rightarrow> Inl f
      | Inr (max_acpu_level, st) \<Rightarrow>
          (let st = init_clock_sources e L2
                      (L2_speed (l2_level (acpu_freq_tbl st ! max_acpu_level))) st;
               st = fold (per_cpu_init e max_acpu_level) (cpu_online e) st
           in case regulator_init e (cpu_possible e) st of
                Inl f \<Rightarrow> Inl f
              | Inr st \<Rightarrow>
                  (case bus_init e st of
                     Inl f \<Rightarrow> Inl f
                   | Inr st \<Rightarrow> Inr (0, st))))"

section \<open>Runtime adjustment of the core voltages\<close>

text \<open>
  The loop of \<open>acpuclk_set_vdd\<close>: \<open>j\<close> is the array index \<open>i+1\<close>, \<open>vdd_uv\<close> is
  the \<open>int\<close> argument, converted to \<open>unsigned int\<close> where the C does so.  The loop
  leaves the array when no entry from index 1 on has frequency zero.
\<close>

function set_vdd_loop :: "u32 \<Rightarrow> int \<Rightarrow> nat \<Rightarrow> acpu_level list \<Rightarrow> fault + acpu_level list" where
  "set_vdd_loop f vdd_uv j tbl =
     (if j \<ge> length tbl then Inl Out_of_bounds
      else if khz (speed (tbl ! j)) = 0 then Inr tbl
      else if f = 0 then
        set_vdd_loop f vdd_uv (Suc j)
          (tbl[j := (tbl ! j)\<lparr>vdd_core :=
             min (max (vdd_core (tbl ! j) + word_of_int vdd_uv) MIN_VDD_SC) MAX_VDD_SC\<rparr>])
      else if khz (speed (tbl ! j)) = f then
        set_vdd_loop f vdd_uv (Suc j)
          (tbl[j := (tbl ! j)\<lparr>vdd_core :=
             min (max (word_of_int vdd_uv) MIN_VDD_SC) MAX_VDD_SC\<rparr>])
      else set_vdd_loop f vdd_uv (Suc j) tbl)"
  by pat_completeness auto
termination
  by (relation "measure (\<lambda>(f, vdd_uv, j, tbl). length tbl - j)") auto

declare set_vdd_loop.simps [simp del]

definition acpuclk_set_vdd :: "u32 \<Rightarrow> int \<Rightarrow> acpu_level list \<Rightarrow> fault + acpu_level list" where
  "acpuclk_set_vdd f vdd_uv tbl = set_vdd_loop f vdd_uv 1 tbl"

section \<open>The specification's notions\<close>

text \<open>
  The PLL-dependent floor as the specification words it: zero when the source is not the
  reprogrammable PLL, 1100000 uV when the frequency-control value exceeds 0x28, and
  800000 uV otherwise.
\<close>

definition spec_pll_floor :: "core_speed \<Rightarrow> u32" where
  "spec_pll_floor s =
     (if src s \<noteq> HFPLL then 0 else if 0x28 < pll_l_val s then 1100000 else 800000)"

text \<open>
  The rail sequencer of the specification.  \<open>rail_call sc r v\<close> is the backend call
  that sets rail \<open>r\<close> of the core \<open>sc\<close> to \<open>v\<close> microvolts: the regulator of the
  core rail, the RPM for the memory and cache (dig) rails.  \<open>rail_sequence\<close> runs a
  list of steps in order: each step calls the backend, a failure ends the sequence with
  the backend's code, a success stores the value as the rail's cached voltage.
\<close>

definition rail_call :: "scalable \<Rightarrow> vregs \<Rightarrow> u32 \<Rightarrow> backend_call" where
  "rail_call sc r v =
     (if r = VREG_CORE
      then Regulator_set_voltage (name (vreg sc r)) v (max_vdd (vreg sc r))
      else Rpm_vreg_set_voltage (rpm_vreg_id (vreg sc r)) (rpm_vreg_voter (vreg sc r)) v
             (max_vdd (vreg sc r)) 0)"

fun rail_sequence :: "env \<Rightarrow> nat \<Rightarrow> (vregs \<times> u32) list \<Rightarrow> driver \<Rightarrow> int \<times> driver" where
  "rail_sequence e cpu [] st = (0, st)"
| "rail_sequence e cpu ((r, v) # steps) st =
     (let (rc, st) = call_backend e (rail_call (scalable st ! cpu) r v) st
      in if rc \<noteq> 0 then (rc, st) else rail_sequence e cpu steps (set_cur_vdd cpu r v st))"

text \<open>
  The steps of the two paths: on the increase path memory, then cache, then core; on the
  decrease path core, then cache, then memory.  A step is left out when the requested
  value does not exceed (increase) or fall below (decrease) the cached value, and the core
  step is left out for the hotplug reason.
\<close>

definition increase_steps ::
  "scalable \<Rightarrow> u32 \<Rightarrow> u32 \<Rightarrow> u32 \<Rightarrow> setrate_reason \<Rightarrow> (vregs \<times> u32) list" where
  "increase_steps sc vc vm vd reason =
     (if cur_vdd (vreg sc VREG_MEM) < vm then [(VREG_MEM, vm)] else [])
     @ (if cur_vdd (vreg sc VREG_DIG) < vd then [(VREG_DIG, vd)] else [])
     @ (if cur_vdd (vreg sc VREG_CORE) < vc \<and> reason \<noteq> SETRATE_HOTPLUG
        then [(VREG_CORE, vc)] else [])"

definition decrease_steps ::
  "scalable \<Rightarrow> u32 \<Rightarrow> u32 \<Rightarrow> u32 \<Rightarrow> setrate_reason \<Rightarrow> (vregs \<times> u32) list" where
  "decrease_steps sc vc vm vd reason =
     (if vc < cur_vdd (vreg sc VREG_CORE) \<and> reason \<noteq> SETRATE_HOTPLUG
      then [(VREG_CORE, vc)] else [])
     @ (if vd < cur_vdd (vreg sc VREG_DIG) then [(VREG_DIG, vd)] else [])
     @ (if vm < cur_vdd (vreg sc VREG_MEM) then [(VREG_MEM, vm)] else [])"

text \<open>
  What no transition and no rail step writes: the two frequency tables, the static arrays
  of the hotplug callback, and the register address of each clock domain.
\<close>

definition same_fixed_state :: "driver \<Rightarrow> driver \<Rightarrow> bool" where
  "same_fixed_state st st' \<longleftrightarrow>
     acpu_freq_tbl st' = acpu_freq_tbl st \<and> l2_freq_tbl st' = l2_freq_tbl st
     \<and> prev_khz st' = prev_khz st \<and> prev_pri_src st' = prev_pri_src st
     \<and> prev_sec_src st' = prev_sec_src st
     \<and> map l2cpmr_iaddr (scalable st') = map l2cpmr_iaddr (scalable st)"

text \<open>
  The level the Domain Arbitrator owes: the maximum of the votes of the present cores,
  where a core without a vote counts as the lowest level of the table, index 0.
\<close>

definition present_votes :: "env \<Rightarrow> driver \<Rightarrow> nat list" where
  "present_votes e st =
     map (\<lambda>c. case l2_vote (scalable st ! c) of None \<Rightarrow> 0 | Some v \<Rightarrow> v) (cpu_present e)"

definition spec_max_vote :: "env \<Rightarrow> driver \<Rightarrow> nat" where
  "spec_max_vote e st = Max (set (0 # present_votes e st))"

text \<open>
  A run of transition requests \<open>(core, frequency, reason)\<close>, one after the other,
  whatever each of them returns.
\<close>

fun transitions ::
  "env \<Rightarrow> (nat \<times> u32 \<times> setrate_reason) list \<Rightarrow> driver \<Rightarrow> fault + driver" where
  "transitions e [] st = Inr st"
| "transitions e ((cpu, rate, reason) # reqs) st =
     (case acpuclk_8960_set_rate e cpu rate reason st of
        Inl f \<Rightarrow> Inl f
      | Inr (rc, st') \<Rightarrow> transitions e reqs st')"

section \<open>An example system\<close>

text \<open>
  A two-core MSM8960 (Krait v2) whose fuses select the nominal table, for the concrete
  runs below.  The register bases, voter and regulator ids stand for the constants of the
  platform headers.  The backends accept every request but one kind: the core regulators
  do not go below 1000000 uV and answer such a request with \<open>-EINVAL\<close>.
\<close>

definition backend_8960 :: "(backend_call \<times> int) list \<Rightarrow> backend_call \<Rightarrow> int" where
  "backend_8960 tr c =
     (case c of
        Msm_bus_scale_register_client \<Rightarrow> 1
      | Regulator_set_voltage n min_uV max_uV \<Rightarrow> if min_uV < 1000000 then - EINVAL else 0
      | _ \<Rightarrow> 0)"

definition env_8960 :: env where
  "env_8960 =
     \<lparr>cpu_possible = [0, 1], cpu_present = [0, 1], cpu_online = [0, 1],
      cpu_is_msm8960 = True, cpu_is_msm8930 = False, cpu_is_msm8627 = False,
      cpu_is_krait_v1 = False, read_cpuid_id = 0x511F04D4, pte_efuse_val = 0x400,
      get_kernel_flag = 0, KERNEL_FLAG_PVS_SLOW_CPU = 0x1, KERNEL_FLAG_PVS_NOM_CPU = 0x2,
      KERNEL_FLAG_PVS_FAST_CPU = 0x4, acpu_max_freq = 0,
      MSM_HFPLL_BASE = 0x1000, MSM_ACC0_BASE = 0x2000, MSM_ACC1_BASE = 0x3000,
      MSM_APCS_GCC_BASE = 0x4000, RPM_VREG_VOTER1 = 1, RPM_VREG_VOTER2 = 2,
      RPM_VREG_VOTER6 = 6, RPM_VREG_ID_PM8921_L24 = 24, RPM_VREG_ID_PM8921_S3 = 3,
      RPM_VREG_ID_PM8921_S8 = 8, RPM_VREG_ID_PM8921_L23 = 23, backend = backend_8960\<rparr>"

text \<open>
  The state before \<open>acpuclk_8960_init\<close>: the file-scope variables are zero (the table
  pointers null, here the empty lists), and the registers are taken to read zero.
\<close>

definition boot_driver :: driver where
  "boot_driver =
     \<lparr>scalable = [], acpu_freq_tbl = [], l2_freq_tbl = [], max_vdd_var = 0,
      l2_indirect = (\<lambda>a. 0), iomem = (\<lambda>a. 0), foot_print = (\<lambda>a. 0),
      prev_khz = (\<lambda>c. 0), prev_pri_src = (\<lambda>c. 0), prev_sec_src = (\<lambda>c. 0), trace = []\<rparr>"

text \<open>
  The state \<open>acpuclk_8960_init\<close> leaves on the example system, started from
  \<open>boot_driver\<close>: both cores and the shared domain run at the highest operating
  point, every cached voltage is still zero, and \<open>first_set_call\<close> is set.
\<close>

definition driver_after_init :: driver where
  "driver_after_init =
     boot_driver
       \<lparr>acpu_freq_tbl := acpu_freq_tbl_8960_fusion_nom,
          l2_freq_tbl := l2_freq_tbl_8960_kraitv2, max_vdd_var := 1350000,
          iomem :=
            (\<lambda>a. 0)
            (16424 := 3, 5124 := 2017838693, 5132 := 0, 5136 := 1,
               5140 := 17350656, 5128 := 54, 5120 := 7, 8212 := 3,
               4612 := 2017838693, 4620 := 0, 4624 := 1, 4628 := 17350656,
               4616 := 64, 4608 := 7, 12308 := 3, 4868 := 2017838693,
               4876 := 0, 4880 := 1, 4884 := 17350656, 4872 := 64,
               4864 := 7),
          l2_indirect := (\<lambda>a. 0)(1280 := 1, 1281 := 1),
          scalable :=
            [\<lparr>hfpll_base = 4608, aux_clk_sel = 8212, l2cpmr_iaddr = 1281,
                current_speed = Some (Acpu_speed 28), l2_vote = Some 21,
                vreg =
                  (\<lambda>r. \<lparr>name = [], max_vdd = 0, rpm_vreg_voter = 0,
                          rpm_vreg_id = 0, cur_vdd = 0\<rparr>)
                  (VREG_CORE :=
                     \<lparr>name = ''krait0'', max_vdd = 1350000,
                        rpm_vreg_voter = 0, rpm_vreg_id = 0, cur_vdd = 0\<rparr>,
                     VREG_MEM :=
                       \<lparr>name = ''krait0_mem'', max_vdd = 1150000,
                          rpm_vreg_voter = 1, rpm_vreg_id = 24,
                          cur_vdd = 0\<rparr>,
                     VREG_DIG :=
                       \<lparr>name = ''krait0_dig'', max_vdd = 1150000,
                          rpm_vreg_voter = 1, rpm_vreg_id = 3,
                          cur_vdd = 0\<rparr>,
                     VREG_HFPLL_A :=
                       \<lparr>name = ''hfpll'', max_vdd = 2100000,
                          rpm_vreg_voter = 1, rpm_vreg_id = 8,
                          cur_vdd = 0\<rparr>,
                     VREG_HFPLL_B :=
                       \<lparr>name = ''hfpll'', max_vdd = 1800000,
                          rpm_vreg_voter = 1, rpm_vreg_id = 23,
                          cur_vdd = 0\<rparr>),
                first_set_call = True\<rparr>,
             \<lparr>hfpll_base = 4864, aux_clk_sel = 12308, l2cpmr_iaddr = 1281,
                current_speed = Some (Acpu_speed 28), l2_vote = Some 21,
                vreg =
                  (\<lambda>r. \<lparr>name = [], max_vdd = 0, rpm_vreg_voter = 0,
                          rpm_vreg_id = 0, cur_vdd = 0\<rparr>)
                  (VREG_CORE :=
                     \<lparr>name = ''krait1'', max_vdd = 1350000,
                        rpm_vreg_voter = 0, rpm_vreg_id = 0, cur_vdd = 0\<rparr>,
                     VREG_MEM :=
                       \<lparr>name = ''krait0_mem'', max_vdd = 1150000,
                          rpm_vreg_voter = 2, rpm_vreg_id = 24,
                          cur_vdd = 0\<rparr>,
                     VREG_DIG :=
                       \<lparr>name = ''krait0_dig'', max_vdd = 1150000,
                          rpm_vreg_voter = 2, rpm_vreg_id = 3,
                          cur_vdd = 0\<rparr>,
                     VREG_HFPLL_A :=
                       \<lparr>name = ''hfpll'', max_vdd = 2100000,
                          rpm_vreg_voter = 2, rpm_vreg_id = 8,
                          cur_vdd = 0\<rparr>,
                     VREG_HFPLL_B :=
                       \<lparr>name = ''hfpll'', max_vdd = 1800000,
                          rpm_vreg_voter = 2, rpm_vreg_id = 23,
                          cur_vdd = 0\<rparr>),
                first_set_call = True\<rparr>,
             \<lparr>hfpll_base = 0, aux_clk_sel = 0, l2cpmr_iaddr = 0,
                current_speed = None, l2_vote = None,
                vreg =
                  \<lambda>r. \<lparr>name = [], max_vdd = 0, rpm_vreg_voter = 0,
                         rpm_vreg_id = 0, cur_vdd = 0\<rparr>,
                first_set_call = False\<rparr>,
             \<lparr>hfpll_base = 0, aux_clk_sel = 0, l2cpmr_iaddr = 0,
                current_speed = None, l2_vote = None,
                vreg =
                  \<lambda>r. \<lparr>name = [], max_vdd = 0, rpm_vreg_voter = 0,
                         rpm_vreg_id = 0, cur_vdd = 0\<rparr>,
                first_set_call = False\<rparr>,
             \<lparr>hfpll_base = 5120, aux_clk_sel = 16424, l2cpmr_iaddr = 1280,
                current_speed = Some (L2_speed 21), l2_vote = None,
                vreg =
                  (\<lambda>r. \<lparr>name = [], max_vdd = 0, rpm_vreg_voter = 0,
                          rpm_vreg_id = 0, cur_vdd = 0\<rparr>)
                  (VREG_HFPLL_A :=
                     \<lparr>name = ''hfpll'', max_vdd = 2100000,
                        rpm_vreg_voter = 6, rpm_vreg_id = 8, cur_vdd = 0\<rparr>,
                     VREG_HFPLL_B :=
                       \<lparr>name = ''hfpll'', max_vdd = 1800000,
                          rpm_vreg_voter = 6, rpm_vreg_id = 23,
                          cur_vdd = 0\<rparr>),
                first_set_call = True\<rparr>],
          trace :=
            [(Rpm_vreg_set_voltage 23 6 0 0 0, 0),
             (Rpm_vreg_set_voltage 8 6 0 0 0, 0),
             (Rpm_vreg_set_voltage 8 6 2100000 2100000 0, 0),
             (Rpm_vreg_set_voltage 23 6 1800000 1800000 0, 0),
             (Rpm_vreg_set_voltage 23 1 0 0 0, 0),
             (Rpm_vreg_set_voltage 8 1 0 0 0, 0),
             (Rpm_vreg_set_voltage 8 1 2100000 2100000 0, 0),
             (Rpm_vreg_set_voltage 23 1 1800000 1800000 0, 0),
             (Rpm_vreg_set_voltage 23 2 0 0 0, 0),
             (Rpm_vreg_set_voltage 8 2 0 0 0, 0),
             (Rpm_vreg_set_voltage 8 2 2100000 2100000 0, 0),
             (Rpm_vreg_set_voltage 23 2 1800000 1800000 0, 0),
             (Regulator_get ''krait0'', 0),
             (Regulator_set_voltage ''krait0'' 1350000 1350000, 0),
             (Regulator_enable ''krait0'', 0),
             (Regulator_get ''krait1'', 0),
             (Regulator_set_voltage ''krait1'' 1350000 1350000, 0),
             (Regulator_enable ''krait1'', 0),
             (Msm_bus_scale_register_client, 1),
             (Msm_bus_scale_client_update_request 10, 0)]\<rparr>"

text \<open>
  Two runs from there.  In the first the idle path asks for the frequency core 0 is
  running at, with the reason \<open>SETRATE_SWFI\<close>.  In the second cpufreq asks for it,
  and then for 384000 kHz.  Each state is the one the call returns.
\<close>

definition driver_after_swfi :: driver where
  "driver_after_swfi =
     (case acpuclk_8960_set_rate env_8960 0 2160000 SETRATE_SWFI driver_after_init of
        Inr (rc, st) \<Rightarrow> st | Inl f \<Rightarrow> driver_after_init)"

definition driver_running :: driver where
  "driver_running =
     (case acpuclk_8960_set_rate env_8960 0 2160000 SETRATE_CPUFREQ driver_after_init of
        Inr (rc, st) \<Rightarrow> st | Inl f \<Rightarrow> driver_after_init)"

definition driver_slow :: driver where
  "driver_slow =
     (case acpuclk_8960_set_rate env_8960 0 384000 SETRATE_CPUFREQ driver_running of
        Inr (rc, st) \<Rightarrow> st | Inl f \<Rightarrow> driver_running)"

section \<open>Properties\<close>

subsection \<open>The runs of the example system\<close>

text \<open>
  The example system is evaluated by rewriting.  The tables stay folded: the entries and
  the searches that the runs need are proved once.
\<close>

lemmas table_defs = acpu_freq_tbl_8960_fusion_nom_def l2_freq_tbl_8960_kraitv2_def
  ACPU_LEVEL_def ACPU_END_def L2_LEVEL_def

lemma find_max_nom: "find_max_acpu_level acpu_freq_tbl_8960_fusion_nom 0 None = Inr (Some 28)"
  by (simp add: table_defs)

lemma nom_entries:
  "acpu_freq_tbl_8960_fusion_nom ! 0 = ACPU_LEVEL 0 STBY_KHZ QSB 0 0 0x00 0 800000"
  "acpu_freq_tbl_8960_fusion_nom ! 2 = ACPU_LEVEL 1 384000 HFPLL 2 0 0x20 7 850000"
  "acpu_freq_tbl_8960_fusion_nom ! 28 = ACPU_LEVEL 1 2160000 HFPLL 1 0 0x40 21 1350000"
  by (simp_all add: acpu_freq_tbl_8960_fusion_nom_def)

lemma l2_entries:
  "l2_freq_tbl_8960_kraitv2 ! 0 = L2_LEVEL STBY_KHZ QSB 0 0 0x00 1050000 1050000 0"
  "l2_freq_tbl_8960_kraitv2 ! 7 = L2_LEVEL 702000 HFPLL 1 0 0x1A 1050000 1050000 4"
  "l2_freq_tbl_8960_kraitv2 ! 21 = L2_LEVEL 1674000 HFPLL 1 0 0x36 1150000 1150000 7"
  "length l2_freq_tbl_8960_kraitv2 = 23"
  by (simp_all add: l2_freq_tbl_8960_kraitv2_def)

lemma find_target_nom:
  "find_target acpu_freq_tbl_8960_fusion_nom 0 STBY_KHZ = Inr (Some 0)"
  "find_target acpu_freq_tbl_8960_fusion_nom 0 384000 = Inr (Some 2)"
  "find_target acpu_freq_tbl_8960_fusion_nom 0 2160000 = Inr (Some 28)"
  "find_target acpu_freq_tbl_8960_fusion_nom 0 513000 = Inr None"
  by (simp_all add: table_defs)

lemma nominal_plan: "select_freq_plan env_8960 boot_driver =
  Inr (28, boot_driver\<lparr>scalable := scalable_8960 env_8960,
             acpu_freq_tbl := acpu_freq_tbl_8960_fusion_nom,
             l2_freq_tbl := l2_freq_tbl_8960_kraitv2,
             max_vdd_var := 1350000\<rparr>)"
  by (simp add: select_freq_plan_def select_pvs_table_def env_8960_def Let_def krait_needs_vmin_def
      find_max_nom nom_entries ACPU_LEVEL_def)

lemma env_8960_fields:
  "cpu_possible env_8960 = [0, 1]" "cpu_present env_8960 = [0, 1]" "cpu_online env_8960 = [0, 1]"
  "cpu_is_msm8960 env_8960 = True" "cpu_is_msm8930 env_8960 = False" "cpu_is_msm8627 env_8960 = False"
  "MSM_HFPLL_BASE env_8960 = 0x1000" "MSM_ACC0_BASE env_8960 = 0x2000" "MSM_ACC1_BASE env_8960 = 0x3000"
  "MSM_APCS_GCC_BASE env_8960 = 0x4000" "RPM_VREG_VOTER1 env_8960 = 1" "RPM_VREG_VOTER2 env_8960 = 2"
  "RPM_VREG_VOTER6 env_8960 = 6" "RPM_VREG_ID_PM8921_L24 env_8960 = 24" "RPM_VREG_ID_PM8921_S3 env_8960 = 3"
  "RPM_VREG_ID_PM8921_S8 env_8960 = 8" "RPM_VREG_ID_PM8921_L23 env_8960 = 23"
  "backend env_8960 = backend_8960"
  by (simp_all add: env_8960_def)

lemma boot_driver_fields:
  "scalable boot_driver = []" "acpu_freq_tbl boot_driver = []" "l2_freq_tbl boot_driver = []"
  "max_vdd_var boot_driver = 0" "l2_indirect boot_driver = (\<lambda>a. 0)" "iomem boot_driver = (\<lambda>a. 0)"
  "foot_print boot_driver = (\<lambda>a. 0)" "prev_khz boot_driver = (\<lambda>c. 0)"
  "prev_pri_src boot_driver = (\<lambda>c. 0)" "prev_sec_src boot_driver = (\<lambda>c. 0)" "trace boot_driver = []"
  by (simp_all add: boot_driver_def)

lemmas eval_defs =
  acpuclk_8960_init_def
  init_clock_sources_def per_cpu_init_def hfpll_init_def hfpll_enable_def hfpll_disable_def
  hfpll_set_rate_def set_sec_clk_src_def set_pri_clk_src_def writel_relaxed_def set_l2_indirect_reg_def
  get_l2_indirect_reg_def set_current_speed_def speed_at_def hfpll_vreg_soc_def rpm_vreg_set_voltage_def
  regulator_set_voltage_def call_backend_def bus_init_def Let_def
  acpuclk_8960_set_rate_def set_rate_to_def update_l2_vote_def compute_l2_level_def max_l2_ptr_def
  set_speed_def set_bus_bw_def increase_vdd_def increase_vdd_dig_def increase_vdd_core_def
  decrease_vdd_def decrease_vdd_dig_def decrease_vdd_mem_def set_cur_vdd_def clear_first_set_call_def
  calculate_vdd_mem_def calculate_vdd_dig_def calculate_vdd_core_def num_possible_cpus_def
  set_acpuclk_foot_print_def set_acpuclk_cpu_freq_foot_print_def set_acpuclk_L2_freq_foot_print_def
  acpuclk_8960_get_rate_def
  scalable_8960_def zero_scalable_def zero_vreg_def VREG_def
  ACPU_LEVEL_def L2_LEVEL_def
  nom_entries l2_entries find_target_nom
  env_8960_fields boot_driver_fields backend_8960_def

lemmas eval_cong = let_weak_cong prod.case_cong_weak sum.case_cong_weak option.case_cong_weak

lemma init_result: "acpuclk_8960_init env_8960 boot_driver = Inr (0, driver_after_init)"
  by (simp add: eval_defs nominal_plan driver_after_init_def cong: eval_cong)

text \<open>The three transitions of the example runs return zero.\<close>

lemma run_state:
  "r = Inr (rc, st) \<Longrightarrow> (case r of Inr (rc, st) \<Rightarrow> st | Inl f \<Rightarrow> d) = st"
  by simp

lemma swfi_run:
  "acpuclk_8960_set_rate env_8960 0 2160000 SETRATE_SWFI driver_after_init
     = Inr (0, driver_after_swfi)"
proof -
  have "\<exists>st. acpuclk_8960_set_rate env_8960 0 2160000 SETRATE_SWFI driver_after_init = Inr (0, st)"
    by (simp add: eval_defs driver_after_init_def cong: eval_cong)
  then obtain st where
    r: "acpuclk_8960_set_rate env_8960 0 2160000 SETRATE_SWFI driver_after_init = Inr (0, st)" ..
  show ?thesis unfolding driver_after_swfi_def run_state[OF r] by (rule r)
qed

lemma cpufreq_run:
  "acpuclk_8960_set_rate env_8960 0 2160000 SETRATE_CPUFREQ driver_after_init
     = Inr (0, driver_running)"
proof -
  have "\<exists>st. acpuclk_8960_set_rate env_8960 0 2160000 SETRATE_CPUFREQ driver_after_init = Inr (0, st)"
    by (simp add: eval_defs driver_after_init_def cong: eval_cong)
  then obtain st where
    r: "acpuclk_8960_set_rate env_8960 0 2160000 SETRATE_CPUFREQ driver_after_init = Inr (0, st)" ..
  show ?thesis unfolding driver_running_def run_state[OF r] by (rule r)
qed

lemma slow_run:
  "acpuclk_8960_set_rate env_8960 0 384000 SETRATE_CPUFREQ driver_running
     = Inr (0, driver_slow)"
proof -
  have "\<exists>st. acpuclk_8960_set_rate env_8960 0 384000 SETRATE_CPUFREQ driver_running = Inr (0, st)"
    by (simp add: eval_defs driver_running_def driver_after_init_def cong: eval_cong)
  then obtain st where
    r: "acpuclk_8960_set_rate env_8960 0 384000 SETRATE_CPUFREQ driver_running = Inr (0, st)" ..
  show ?thesis unfolding driver_slow_def run_state[OF r] by (rule r)
qed

text \<open>The frequency of core 0 after the last of them, and the size of the array.\<close>

lemma slow_rate: "acpuclk_8960_get_rate 0 driver_slow = Inr 384000"
  by (simp add: eval_defs driver_slow_def driver_running_def driver_after_init_def cong: eval_cong)

lemma after_init_length: "length (scalable driver_after_init) = 5"
  by (simp add: driver_after_init_def)

lemma running_length: "length (scalable driver_running) = 5"
  by (simp add: eval_defs driver_running_def driver_after_init_def cong: eval_cong)

lemma running_cur_vdd:
  "cur_vdd (vreg (scalable driver_running ! 0) VREG_CORE) = 1350000"
  "cur_vdd (vreg (scalable driver_running ! 0) VREG_DIG) = 1150000"
  "cur_vdd (vreg (scalable driver_running ! 0) VREG_MEM) = 1150000"
  by (simp_all add: eval_defs driver_running_def driver_after_init_def cong: eval_cong)

subsection \<open>Required voltages\<close>

text \<open>
  Claim C5.  For every operating point, the required core-rail voltage is the maximum of
  the table's nominal core voltage and the PLL floor of the core's speed, the required
  cache-rail voltage is the maximum of the nominal cache voltage of the operating point's
  shared-domain level and the PLL floor of that level's speed, and the required
  memory-rail voltage is that level's nominal memory voltage.
\<close>

theorem calculate_vdd_floor:
  "calculate_vdd_core tgt = max (vdd_core tgt) (spec_pll_floor (speed tgt))
   \<and> calculate_vdd_dig l2_tbl tgt =
       max (vdd_dig (l2_tbl ! l2_level tgt))
           (spec_pll_floor (l2_level.speed (l2_tbl ! l2_level tgt)))
   \<and> calculate_vdd_mem l2_tbl tgt = vdd_mem (l2_tbl ! l2_level tgt)"
  by (simp add: calculate_vdd_core_def calculate_vdd_dig_def calculate_vdd_mem_def
      spec_pll_floor_def Let_def)

subsection \<open>Runtime adjustment of the core voltages\<close>

lemma vdd_clamp_range:
  "MIN_VDD_SC \<le> min (max (x::u32) MIN_VDD_SC) MAX_VDD_SC"
  "min (max (x::u32) MIN_VDD_SC) MAX_VDD_SC \<le> MAX_VDD_SC"
  by (auto simp: min_def max_def not_le intro: less_imp_le)

lemma set_vdd_loop_spec:
  assumes "j \<le> n" "n < length tbl" "khz (speed (tbl ! n)) = 0"
    and "\<forall>k. j \<le> k \<and> k < n \<longrightarrow> khz (speed (tbl ! k)) \<noteq> 0"
  shows "\<exists>tbl'. set_vdd_loop f v j tbl = Inr tbl' \<and> length tbl' = length tbl \<and>
           (\<forall>k<length tbl. tbl' ! k =
              (if j \<le> k \<and> k < n \<and> (f = 0 \<or> khz (speed (tbl ! k)) = f)
               then (tbl ! k)\<lparr>vdd_core :=
                      min (max (if f = 0 then vdd_core (tbl ! k) + word_of_int v
                                else word_of_int v) MIN_VDD_SC) MAX_VDD_SC\<rparr>
               else tbl ! k))"
  using assms
proof (induction "n - j" arbitrary: j tbl)
  case 0
  then have "j = n" by simp
  with 0 show ?case by (auto simp: set_vdd_loop.simps)
next
  case (Suc d)
  then have jn: "j < n" and nz: "khz (speed (tbl ! j)) \<noteq> 0" by auto
  define tbl2 where "tbl2 =
    (if f = 0 \<or> khz (speed (tbl ! j)) = f
     then tbl[j := (tbl ! j)\<lparr>vdd_core :=
            min (max (if f = 0 then vdd_core (tbl ! j) + word_of_int v
                      else word_of_int v) MIN_VDD_SC) MAX_VDD_SC\<rparr>]
     else tbl)"
  have step: "set_vdd_loop f v j tbl = set_vdd_loop f v (Suc j) tbl2"
    using jn nz Suc.prems by (subst set_vdd_loop.simps) (auto simp: tbl2_def)
  have len2: "length tbl2 = length tbl" by (simp add: tbl2_def)
  have sp2: "\<And>k. k < length tbl \<Longrightarrow> speed (tbl2 ! k) = speed (tbl ! k)"
    using jn Suc.prems(2) by (auto simp: tbl2_def nth_list_update)
  have nth2: "\<And>k. k < length tbl \<Longrightarrow> k \<noteq> j \<Longrightarrow> tbl2 ! k = tbl ! k"
    by (simp add: tbl2_def)
  have "d = n - Suc j" using Suc.hyps by simp
  moreover have "Suc j \<le> n" using jn by simp
  moreover have "n < length tbl2" using Suc.prems len2 by simp
  moreover have "khz (speed (tbl2 ! n)) = 0" using Suc.prems sp2 by simp
  moreover have "\<forall>k. Suc j \<le> k \<and> k < n \<longrightarrow> khz (speed (tbl2 ! k)) \<noteq> 0"
    using Suc.prems sp2 by auto
  ultimately obtain tbl' where
    r: "set_vdd_loop f v (Suc j) tbl2 = Inr tbl'" and l: "length tbl' = length tbl2"
    and c: "\<forall>k<length tbl2. tbl' ! k =
              (if Suc j \<le> k \<and> k < n \<and> (f = 0 \<or> khz (speed (tbl2 ! k)) = f)
               then (tbl2 ! k)\<lparr>vdd_core :=
                      min (max (if f = 0 then vdd_core (tbl2 ! k) + word_of_int v
                                else word_of_int v) MIN_VDD_SC) MAX_VDD_SC\<rparr>
               else tbl2 ! k)"
    using Suc.hyps(1)[of "Suc j" tbl2] by blast
  have "\<forall>k<length tbl. tbl' ! k =
              (if j \<le> k \<and> k < n \<and> (f = 0 \<or> khz (speed (tbl ! k)) = f)
               then (tbl ! k)\<lparr>vdd_core :=
                      min (max (if f = 0 then vdd_core (tbl ! k) + word_of_int v
                                else word_of_int v) MIN_VDD_SC) MAX_VDD_SC\<rparr>
               else tbl ! k)"
  proof (intro allI impI)
    fix k assume k: "k < length tbl"
    show "tbl' ! k =
              (if j \<le> k \<and> k < n \<and> (f = 0 \<or> khz (speed (tbl ! k)) = f)
               then (tbl ! k)\<lparr>vdd_core :=
                      min (max (if f = 0 then vdd_core (tbl ! k) + word_of_int v
                                else word_of_int v) MIN_VDD_SC) MAX_VDD_SC\<rparr>
               else tbl ! k)"
    proof (cases "k = j")
      case True
      have "tbl' ! j = tbl2 ! j" using c k len2 True by simp
      then show ?thesis using True jn k by (simp add: tbl2_def)
    next
      case False
      then show ?thesis using c k len2 nth2[OF k False] sp2[OF k] by auto
    qed
  qed
  then show ?case using step r l len2 by simp
qed


text \<open>
  Claim C10.  On a table whose entries after the first are operating points up to a
  sentinel, \<open>acpuclk_set_vdd\<close> returns, every core voltage it writes lies within
  400000 uV and 1350000 uV, it writes only the \<open>vdd_core\<close> of entries between the first
  entry and the sentinel, all of them for a requested frequency of zero and else those of
  the requested frequency, and every entry whose frequency differs from a nonzero
  requested frequency is left as it was.
\<close>

theorem acpuclk_set_vdd_clamped:
  assumes body: "\<forall>l\<in>set body. khz (speed l) \<noteq> 0" and sent: "khz (speed s) = 0"
    and tbl: "tbl = l0 # body @ s # rest"
  shows "\<exists>tbl' w. acpuclk_set_vdd f v tbl = Inr tbl' \<and> length tbl' = length tbl
           \<and> (\<forall>k. MIN_VDD_SC \<le> w k \<and> w k \<le> MAX_VDD_SC)
           \<and> (\<forall>k<length tbl. tbl' ! k =
                  (if 1 \<le> k \<and> k \<le> length body \<and> (f = 0 \<or> khz (speed (tbl ! k)) = f)
                   then (tbl ! k)\<lparr>vdd_core := w k\<rparr> else tbl ! k))
           \<and> (\<forall>k<length tbl. f \<noteq> 0 \<and> khz (speed (tbl ! k)) \<noteq> f \<longrightarrow> tbl' ! k = tbl ! k)"
proof -
  define n where "n = Suc (length body)"
  have n: "n < length tbl" and sn: "khz (speed (tbl ! n)) = 0"
    using sent by (simp_all add: tbl n_def nth_append)
  have nz: "\<forall>k. 1 \<le> k \<and> k < n \<longrightarrow> khz (speed (tbl ! k)) \<noteq> 0"
  proof (intro allI impI)
    fix k assume k: "1 \<le> k \<and> k < n"
    then have "tbl ! k = body ! (k - 1)"
      by (cases k) (simp_all add: tbl n_def nth_append)
    moreover have "body ! (k - 1) \<in> set body" using k by (auto simp: n_def intro!: nth_mem)
    ultimately show "khz (speed (tbl ! k)) \<noteq> 0" using body by simp
  qed
  have "(1::nat) \<le> n" by (simp add: n_def)
  from set_vdd_loop_spec[OF this n sn nz, of f v] obtain tbl' where
    r: "set_vdd_loop f v 1 tbl = Inr tbl'" and l: "length tbl' = length tbl"
    and c: "\<forall>k<length tbl. tbl' ! k =
              (if 1 \<le> k \<and> k < n \<and> (f = 0 \<or> khz (speed (tbl ! k)) = f)
               then (tbl ! k)\<lparr>vdd_core :=
                      min (max (if f = 0 then vdd_core (tbl ! k) + word_of_int v
                                else word_of_int v) MIN_VDD_SC) MAX_VDD_SC\<rparr>
               else tbl ! k)"
    by blast
  define w where "w k = min (max (if f = 0 then vdd_core (tbl ! k) + word_of_int v
                                else word_of_int v) MIN_VDD_SC) MAX_VDD_SC" for k
  have w: "\<forall>k. MIN_VDD_SC \<le> w k \<and> w k \<le> MAX_VDD_SC"
    unfolding w_def using vdd_clamp_range by blast
  have c': "\<forall>k<length tbl. tbl' ! k =
                  (if 1 \<le> k \<and> k \<le> length body \<and> (f = 0 \<or> khz (speed (tbl ! k)) = f)
                   then (tbl ! k)\<lparr>vdd_core := w k\<rparr> else tbl ! k)"
    using c by (auto simp: w_def n_def less_Suc_eq_le)
  have u: "\<forall>k<length tbl. f \<noteq> 0 \<and> khz (speed (tbl ! k)) \<noteq> f \<longrightarrow> tbl' ! k = tbl ! k"
    using c' by auto
  show ?thesis
    unfolding acpuclk_set_vdd_def using r l w c' u by blast
qed

theorem acpuclk_set_vdd_clamped_witness:
  "\<exists>tbl'. acpuclk_set_vdd 1512000 1400000 acpu_freq_tbl_8960_fusion_nom = Inr tbl'
     \<and> MIN_VDD_SC \<le> vdd_core (tbl' ! 22) \<and> vdd_core (tbl' ! 22) \<le> MAX_VDD_SC
     \<and> tbl' ! 21 = acpu_freq_tbl_8960_fusion_nom ! 21"
proof -
  define body where "body = butlast (tl acpu_freq_tbl_8960_fusion_nom)"
  have tbl: "acpu_freq_tbl_8960_fusion_nom = hd acpu_freq_tbl_8960_fusion_nom # body @ ACPU_END # []"
    by (simp add: body_def acpu_freq_tbl_8960_fusion_nom_def)
  have b: "\<forall>l\<in>set body. khz (speed l) \<noteq> 0"
    by (simp add: body_def acpu_freq_tbl_8960_fusion_nom_def ACPU_LEVEL_def)
  have s: "khz (speed ACPU_END) = 0" by (simp add: ACPU_END_def)
  from acpuclk_set_vdd_clamped[OF b s tbl, of 1512000 1400000] obtain tbl' w where
    r: "acpuclk_set_vdd 1512000 1400000 acpu_freq_tbl_8960_fusion_nom = Inr tbl'"
    and w: "\<forall>k. MIN_VDD_SC \<le> w k \<and> w k \<le> MAX_VDD_SC"
    and c: "\<forall>k<length acpu_freq_tbl_8960_fusion_nom. tbl' ! k =
                  (if 1 \<le> k \<and> k \<le> length body \<and> (1512000 = (0::u32) \<or> khz (speed (acpu_freq_tbl_8960_fusion_nom ! k)) = 1512000)
                   then (acpu_freq_tbl_8960_fusion_nom ! k)\<lparr>vdd_core := w k\<rparr> else acpu_freq_tbl_8960_fusion_nom ! k)"
    by blast
  have "tbl' ! 22 = (acpu_freq_tbl_8960_fusion_nom ! 22)\<lparr>vdd_core := w 22\<rparr>"
    using c[rule_format, of 22]
    by (simp add: body_def acpu_freq_tbl_8960_fusion_nom_def ACPU_LEVEL_def)
  moreover have "tbl' ! 21 = acpu_freq_tbl_8960_fusion_nom ! 21"
    using c[rule_format, of 21]
    by (simp add: body_def acpu_freq_tbl_8960_fusion_nom_def ACPU_LEVEL_def)
  ultimately show ?thesis using r w by simp
qed

subsection \<open>The rail sequencer\<close>

lemma map_list_update_same: "f x = f (xs ! i) \<Longrightarrow> map f (xs[i := x]) = map f xs"
  by (cases "i < length xs") (simp_all add: map_update list_update_same_conv list_update_beyond)

lemma call_backend_frame [simp]:
  "scalable (snd (call_backend e c st)) = scalable st"
  "acpu_freq_tbl (snd (call_backend e c st)) = acpu_freq_tbl st"
  "l2_freq_tbl (snd (call_backend e c st)) = l2_freq_tbl st"
  "prev_khz (snd (call_backend e c st)) = prev_khz st"
  "prev_pri_src (snd (call_backend e c st)) = prev_pri_src st"
  "prev_sec_src (snd (call_backend e c st)) = prev_sec_src st"
  "trace (snd (call_backend e c st)) = trace st @ [(c, fst (call_backend e c st))]"
  by (simp_all add: call_backend_def Let_def)

lemma set_cur_vdd_frame [simp]:
  "acpu_freq_tbl (set_cur_vdd cpu r v st) = acpu_freq_tbl st"
  "l2_freq_tbl (set_cur_vdd cpu r v st) = l2_freq_tbl st"
  "prev_khz (set_cur_vdd cpu r v st) = prev_khz st"
  "prev_pri_src (set_cur_vdd cpu r v st) = prev_pri_src st"
  "prev_sec_src (set_cur_vdd cpu r v st) = prev_sec_src st"
  "trace (set_cur_vdd cpu r v st) = trace st"
  "length (scalable (set_cur_vdd cpu r v st)) = length (scalable st)"
  "map current_speed (scalable (set_cur_vdd cpu r v st)) = map current_speed (scalable st)"
  "map l2_vote (scalable (set_cur_vdd cpu r v st)) = map l2_vote (scalable st)"
  "map first_set_call (scalable (set_cur_vdd cpu r v st)) = map first_set_call (scalable st)"
  "map l2cpmr_iaddr (scalable (set_cur_vdd cpu r v st)) = map l2cpmr_iaddr (scalable st)"
  by (simp_all add: set_cur_vdd_def Let_def map_list_update_same)

lemma set_cur_vdd_vreg:
  "cpu < length (scalable st) \<Longrightarrow>
   vreg (scalable (set_cur_vdd cpu r v st) ! cpu) r' =
     (if r' = r then (vreg (scalable st ! cpu) r)\<lparr>cur_vdd := v\<rparr> else vreg (scalable st ! cpu) r')"
  by (simp add: set_cur_vdd_def Let_def)

lemma rail_call_set_cur_vdd [simp]:
  "cpu < length (scalable st) \<Longrightarrow>
   rail_call (scalable (set_cur_vdd cpu r v st) ! cpu) r' v' = rail_call (scalable st ! cpu) r' v'"
  by (simp add: rail_call_def set_cur_vdd_vreg)

lemma increase_vdd_core_rail_sequence:
  "cpu < length (scalable st) \<Longrightarrow> increase_vdd_core e cpu vc reason st =
     rail_sequence e cpu
       (if cur_vdd (vreg (scalable st ! cpu) VREG_CORE) < vc \<and> reason \<noteq> SETRATE_HOTPLUG
        then [(VREG_CORE, vc)] else []) st"
  by (auto simp: increase_vdd_core_def regulator_set_voltage_def rail_call_def Let_def
      split: prod.splits)

lemma increase_vdd_dig_rail_sequence:
  "cpu < length (scalable st) \<Longrightarrow> increase_vdd_dig e cpu vc vd reason st =
     rail_sequence e cpu
       ((if cur_vdd (vreg (scalable st ! cpu) VREG_DIG) < vd then [(VREG_DIG, vd)] else [])
        @ (if cur_vdd (vreg (scalable st ! cpu) VREG_CORE) < vc \<and> reason \<noteq> SETRATE_HOTPLUG
           then [(VREG_CORE, vc)] else [])) st"
  by (auto simp: increase_vdd_dig_def increase_vdd_core_rail_sequence rpm_vreg_set_voltage_def
      rail_call_def Let_def case_prod_beta set_cur_vdd_vreg)

lemma increase_vdd_rail_sequence:
  "cpu < length (scalable st) \<Longrightarrow> increase_vdd e cpu vc vm vd reason st =
     rail_sequence e cpu (increase_steps (scalable st ! cpu) vc vm vd reason) st"
  by (auto simp: increase_vdd_def increase_vdd_dig_rail_sequence rpm_vreg_set_voltage_def
      increase_steps_def rail_call_def Let_def case_prod_beta set_cur_vdd_vreg)


lemma decrease_vdd_mem_rail_sequence:
  "cpu < length (scalable st) \<Longrightarrow> decrease_vdd_mem e cpu vm st =
     snd (rail_sequence e cpu
       (if vm < cur_vdd (vreg (scalable st ! cpu) VREG_MEM) then [(VREG_MEM, vm)] else []) st)"
  by (auto simp: decrease_vdd_mem_def rpm_vreg_set_voltage_def rail_call_def Let_def
      split: prod.splits)

lemma decrease_vdd_dig_rail_sequence:
  "cpu < length (scalable st) \<Longrightarrow> decrease_vdd_dig e cpu vm vd st =
     snd (rail_sequence e cpu
       ((if vd < cur_vdd (vreg (scalable st ! cpu) VREG_DIG) then [(VREG_DIG, vd)] else [])
        @ (if vm < cur_vdd (vreg (scalable st ! cpu) VREG_MEM) then [(VREG_MEM, vm)] else [])) st)"
  by (auto simp: decrease_vdd_dig_def decrease_vdd_mem_rail_sequence rpm_vreg_set_voltage_def
      rail_call_def Let_def case_prod_beta set_cur_vdd_vreg)

lemma decrease_vdd_rail_sequence:
  "cpu < length (scalable st) \<Longrightarrow> decrease_vdd e cpu vc vm vd reason st =
     snd (rail_sequence e cpu (decrease_steps (scalable st ! cpu) vc vm vd reason) st)"
  by (auto simp: decrease_vdd_def decrease_vdd_dig_rail_sequence regulator_set_voltage_def
      decrease_steps_def rail_call_def Let_def case_prod_beta set_cur_vdd_vreg)

lemma rail_sequence_run:
  assumes "cpu < length (scalable st)" and "distinct (map fst steps)"
    and "rail_sequence e cpu steps st = (rc, st')"
  shows "\<exists>evs. trace st' = trace st @ evs \<and> length evs \<le> length steps
           \<and> map fst evs =
               map (\<lambda>(r, v). rail_call (scalable st ! cpu) r v) (take (length evs) steps)
           \<and> (\<forall>i. Suc i < length evs \<longrightarrow> snd (evs ! i) = 0)
           \<and> rc = (if evs = [] then 0 else snd (last evs))
           \<and> (rc = 0 \<longrightarrow> length evs = length steps)
           \<and> (\<forall>i<length evs. snd (evs ! i) = 0 \<longrightarrow>
                  cur_vdd (vreg (scalable st' ! cpu) (fst (steps ! i))) = snd (steps ! i))
           \<and> (\<forall>r. (\<forall>i<length evs. fst (steps ! i) = r \<longrightarrow> snd (evs ! i) \<noteq> 0) \<longrightarrow>
                  vreg (scalable st' ! cpu) r = vreg (scalable st ! cpu) r)
           \<and> length (scalable st') = length (scalable st)"
  using assms
proof (induction steps arbitrary: st)
  case Nil
  then show ?case by simp
next
  case (Cons step steps)
  obtain r v where step: "step = (r, v)" by (cases step)
  define c where "c = rail_call (scalable st ! cpu) r v"
  define rc1 where "rc1 = fst (call_backend e c st)"
  define st1 where "st1 = snd (call_backend e c st)"
  have tr1: "trace st1 = trace st @ [(c, rc1)]" and sc1: "scalable st1 = scalable st"
    by (simp_all add: st1_def rc1_def)
  show ?case
  proof (cases "rc1 = 0")
    case False
    then have "rc = rc1" "st' = st1"
      using Cons.prems(3) by (simp_all add: step c_def rc1_def st1_def case_prod_beta)
    then show ?thesis
      using False tr1 sc1 by (intro exI[of _ "[(c, rc1)]"]) (simp add: step c_def)
  next
    case True
    define st2 where "st2 = set_cur_vdd cpu r v st1"
    have run: "rail_sequence e cpu steps st2 = (rc, st')"
      using Cons.prems(3) True by (simp add: step c_def rc1_def st1_def st2_def case_prod_beta)
    have len2: "cpu < length (scalable st2)" using Cons.prems(1) sc1 by (simp add: st2_def)
    have d: "distinct (map fst steps)" and rn: "r \<notin> fst ` set steps"
      using Cons.prems(2) by (simp_all add: step)
    have v2: "\<And>r'. vreg (scalable st2 ! cpu) r' =
        (if r' = r then (vreg (scalable st ! cpu) r)\<lparr>cur_vdd := v\<rparr> else vreg (scalable st ! cpu) r')"
      using Cons.prems(1) sc1 by (simp add: st2_def set_cur_vdd_vreg)
    have call2: "\<And>r' v'. rail_call (scalable st2 ! cpu) r' v' = rail_call (scalable st ! cpu) r' v'"
      using Cons.prems(1) sc1 by (simp add: st2_def rail_call_def set_cur_vdd_vreg)
    from Cons.IH[OF len2 d run] obtain evs where
      t: "trace st' = trace st2 @ evs" and l: "length evs \<le> length steps"
      and m: "map fst evs =
               map (\<lambda>(r, v). rail_call (scalable st2 ! cpu) r v) (take (length evs) steps)"
      and z: "\<forall>i. Suc i < length evs \<longrightarrow> snd (evs ! i) = 0"
      and rcv: "rc = (if evs = [] then 0 else snd (last evs))"
      and full: "rc = 0 \<longrightarrow> length evs = length steps"
      and upd: "\<forall>i<length evs. snd (evs ! i) = 0 \<longrightarrow>
                  cur_vdd (vreg (scalable st' ! cpu) (fst (steps ! i))) = snd (steps ! i)"
      and keep: "\<forall>r. (\<forall>i<length evs. fst (steps ! i) = r \<longrightarrow> snd (evs ! i) \<noteq> 0) \<longrightarrow>
                  vreg (scalable st' ! cpu) r = vreg (scalable st2 ! cpu) r"
      and ln: "length (scalable st') = length (scalable st2)"
      by blast
    let ?evs = "(c, 0) # evs"
    have 1: "trace st' = trace st @ ?evs" using t tr1 True by (simp add: st2_def)
    have 2: "length ?evs \<le> length (step # steps)" using l by simp
    have 3: "map fst ?evs =
               map (\<lambda>(r, v). rail_call (scalable st ! cpu) r v) (take (length ?evs) (step # steps))"
      using m by (simp add: step c_def call2)
    have 4: "\<forall>i. Suc i < length ?evs \<longrightarrow> snd (?evs ! i) = 0"
      using z by (auto simp: nth_Cons split: nat.splits)
    have 5: "rc = (if ?evs = [] then 0 else snd (last ?evs))" using rcv by simp
    have 6: "rc = 0 \<longrightarrow> length ?evs = length (step # steps)" using full by simp
    have rkeep: "vreg (scalable st' ! cpu) r = vreg (scalable st2 ! cpu) r"
    proof -
      have "\<forall>i<length evs. fst (steps ! i) = r \<longrightarrow> snd (evs ! i) \<noteq> 0"
      proof (intro allI impI)
        fix i assume "i < length evs" "fst (steps ! i) = r"
        then have "r \<in> fst ` set steps" using l by (metis image_eqI nth_mem order_less_le_trans)
        then show "snd (evs ! i) \<noteq> 0" using rn by simp
      qed
      then show ?thesis using keep by blast
    qed
    have 7: "\<forall>i<length ?evs. snd (?evs ! i) = 0 \<longrightarrow>
                  cur_vdd (vreg (scalable st' ! cpu) (fst ((step # steps) ! i))) = snd ((step # steps) ! i)"
    proof (intro allI impI)
      fix i assume i: "i < length ?evs" "snd (?evs ! i) = 0"
      show "cur_vdd (vreg (scalable st' ! cpu) (fst ((step # steps) ! i))) = snd ((step # steps) ! i)"
      proof (cases i)
        case 0
        then show ?thesis using rkeep v2 by (simp add: step)
      next
        case (Suc j)
        then show ?thesis using i upd by simp
      qed
    qed
    have 8: "\<forall>r'. (\<forall>i<length ?evs. fst ((step # steps) ! i) = r' \<longrightarrow> snd (?evs ! i) \<noteq> 0) \<longrightarrow>
                  vreg (scalable st' ! cpu) r' = vreg (scalable st ! cpu) r'"
    proof (intro allI impI)
      fix r' assume a: "\<forall>i<length ?evs. fst ((step # steps) ! i) = r' \<longrightarrow> snd (?evs ! i) \<noteq> 0"
      from a[rule_format, of 0] have ne: "r' \<noteq> r" by (auto simp: step)
      have "\<forall>i<length evs. fst (steps ! i) = r' \<longrightarrow> snd (evs ! i) \<noteq> 0"
        using a by (metis Suc_less_eq length_Cons nth_Cons_Suc)
      then have "vreg (scalable st' ! cpu) r' = vreg (scalable st2 ! cpu) r'" using keep by blast
      then show "vreg (scalable st' ! cpu) r' = vreg (scalable st ! cpu) r'" using v2 ne by simp
    qed
    have 9: "length (scalable st') = length (scalable st)" using ln sc1 by (simp add: st2_def)
    show ?thesis
      using 1 2 3 4 5 6 7 8 9 by (intro exI[of _ ?evs]) blast
  qed
qed

lemma increase_steps_subseq:
  "subseq (increase_steps sc vc vm vd reason) [(VREG_MEM, vm), (VREG_DIG, vd), (VREG_CORE, vc)]"
  by (simp add: increase_steps_def)

lemma decrease_steps_subseq:
  "subseq (decrease_steps sc vc vm vd reason) [(VREG_CORE, vc), (VREG_DIG, vd), (VREG_MEM, vm)]"
  by (simp add: decrease_steps_def)

lemma increase_steps_distinct: "distinct (map fst (increase_steps sc vc vm vd reason))"
  by (auto simp: increase_steps_def)

lemma decrease_steps_distinct: "distinct (map fst (decrease_steps sc vc vm vd reason))"
  by (auto simp: decrease_steps_def)

lemma increase_steps_needed:
  "(r, v) \<in> set (increase_steps sc vc vm vd reason) \<Longrightarrow> cur_vdd (vreg sc r) < v"
  by (auto simp: increase_steps_def split: if_splits)

lemma decrease_steps_needed:
  "(r, v) \<in> set (decrease_steps sc vc vm vd reason) \<Longrightarrow> v < cur_vdd (vreg sc r)"
  by (auto simp: decrease_steps_def split: if_splits)

lemma subseq_take: "subseq (take n xs) xs"
  by (metis append_take_drop_id subseq_rev_drop_many subseq_order.order_refl list_emb_append2)

lemma increase_steps_filter:
  "increase_steps sc vc vm vd reason =
     filter (\<lambda>(r, v). cur_vdd (vreg sc r) < v \<and> (r = VREG_CORE \<longrightarrow> reason \<noteq> SETRATE_HOTPLUG))
       [(VREG_MEM, vm), (VREG_DIG, vd), (VREG_CORE, vc)]"
  by (simp add: increase_steps_def)

lemma decrease_steps_filter:
  "decrease_steps sc vc vm vd reason =
     filter (\<lambda>(r, v). v < cur_vdd (vreg sc r) \<and> (r = VREG_CORE \<longrightarrow> reason \<noteq> SETRATE_HOTPLUG))
       [(VREG_CORE, vc), (VREG_DIG, vd), (VREG_MEM, vm)]"
  by (simp add: decrease_steps_def)

lemma rail_sequence_calls:
  assumes "cpu < length (scalable st)" and "distinct (map fst steps)"
  shows "\<exists>evs. trace (snd (rail_sequence e cpu steps st)) = trace st @ evs
           \<and> map fst evs =
               map (\<lambda>(r, v). rail_call (scalable st ! cpu) r v) (take (length evs) steps)
           \<and> (\<forall>i. Suc i < length evs \<longrightarrow> snd (evs ! i) = 0)
           \<and> (length evs = length steps \<or> evs \<noteq> [] \<and> snd (last evs) \<noteq> 0)"
proof -
  obtain rc st' where r: "rail_sequence e cpu steps st = (rc, st')"
    by (cases "rail_sequence e cpu steps st")
  from rail_sequence_run[OF assms r] obtain evs where
    t: "trace st' = trace st @ evs"
    and m: "map fst evs = map (\<lambda>(r, v). rail_call (scalable st ! cpu) r v) (take (length evs) steps)"
    and z: "\<forall>i. Suc i < length evs \<longrightarrow> snd (evs ! i) = 0"
    and rc: "rc = (if evs = [] then 0 else snd (last evs))"
    and full: "rc = 0 \<longrightarrow> length evs = length steps"
    by blast
  have "length evs = length steps \<or> evs \<noteq> [] \<and> snd (last evs) \<noteq> 0"
    using rc full by (cases "evs = []") auto
  then show ?thesis using t m z r by (intro exI[of _ evs]) simp
qed

text \<open>
  Claim C3.  The steps of the increase path are the memory rail, the cache (dig) rail and
  the core rail, in this order, without the rails whose cached value the request does not
  exceed and, for the hotplug reason, without the core rail.  The steps of the decrease
  path are the core rail, the cache rail and the memory rail, in this order, without the
  rails whose cached value the request does not fall below and, for the hotplug reason,
  without the core rail.  The backend calls of \<open>increase_vdd\<close> and of \<open>decrease_vdd\<close>
  are the calls for these steps, one after the other from the first step on: all of them
  when no call fails, and otherwise those up to the first call that fails.
\<close>

theorem rail_sequencer_order:
  assumes "cpu < length (scalable st)"
  shows "(\<exists>evs. trace (snd (increase_vdd e cpu vc vm vd reason st)) = trace st @ evs
           \<and> map fst evs =
               map (\<lambda>(r, v). rail_call (scalable st ! cpu) r v)
                 (take (length evs) (increase_steps (scalable st ! cpu) vc vm vd reason))
           \<and> (\<forall>i. Suc i < length evs \<longrightarrow> snd (evs ! i) = 0)
           \<and> (length evs = length (increase_steps (scalable st ! cpu) vc vm vd reason)
                \<or> evs \<noteq> [] \<and> snd (last evs) \<noteq> 0))
       \<and> (\<exists>evs. trace (decrease_vdd e cpu vc vm vd reason st) = trace st @ evs
           \<and> map fst evs =
               map (\<lambda>(r, v). rail_call (scalable st ! cpu) r v)
                 (take (length evs) (decrease_steps (scalable st ! cpu) vc vm vd reason))
           \<and> (\<forall>i. Suc i < length evs \<longrightarrow> snd (evs ! i) = 0)
           \<and> (length evs = length (decrease_steps (scalable st ! cpu) vc vm vd reason)
                \<or> evs \<noteq> [] \<and> snd (last evs) \<noteq> 0))
       \<and> increase_steps (scalable st ! cpu) vc vm vd reason =
           filter (\<lambda>(r, v). cur_vdd (vreg (scalable st ! cpu) r) < v
                            \<and> (r = VREG_CORE \<longrightarrow> reason \<noteq> SETRATE_HOTPLUG))
             [(VREG_MEM, vm), (VREG_DIG, vd), (VREG_CORE, vc)]
       \<and> decrease_steps (scalable st ! cpu) vc vm vd reason =
           filter (\<lambda>(r, v). v < cur_vdd (vreg (scalable st ! cpu) r)
                            \<and> (r = VREG_CORE \<longrightarrow> reason \<noteq> SETRATE_HOTPLUG))
             [(VREG_CORE, vc), (VREG_DIG, vd), (VREG_MEM, vm)]"
  unfolding increase_vdd_rail_sequence[OF assms] decrease_vdd_rail_sequence[OF assms]
  by (intro conjI rail_sequence_calls[OF assms] increase_steps_distinct decrease_steps_distinct
      increase_steps_filter decrease_steps_filter)

theorem rail_sequencer_order_witness:
  "(\<exists>evs. trace (snd (increase_vdd env_8960 0 1350000 1150000 1150000 SETRATE_HOTPLUG
                        driver_after_init)) = trace driver_after_init @ evs
        \<and> map fst evs = map (\<lambda>(r, v). rail_call (scalable driver_after_init ! 0) r v)
                           (take (length evs) [(VREG_MEM, 1150000), (VREG_DIG, 1150000)])
        \<and> (length evs = 2 \<or> evs \<noteq> [] \<and> snd (last evs) \<noteq> 0))
   \<and> (\<exists>evs. trace (decrease_vdd env_8960 0 850000 1050000 1050000 SETRATE_CPUFREQ driver_running)
          = trace driver_running @ evs
        \<and> map fst evs = map (\<lambda>(r, v). rail_call (scalable driver_running ! 0) r v)
             (take (length evs) [(VREG_CORE, 850000), (VREG_DIG, 1050000), (VREG_MEM, 1050000)])
        \<and> (length evs = 3 \<or> evs \<noteq> [] \<and> snd (last evs) \<noteq> 0))"
proof -
  have 1: "0 < length (scalable driver_after_init)" by (simp add: after_init_length)
  have 2: "0 < length (scalable driver_running)" by (simp add: running_length)
  note a = rail_sequencer_order[OF 1, of env_8960 1350000 1150000 1150000 SETRATE_HOTPLUG]
  note b = rail_sequencer_order[OF 2, of env_8960 850000 1050000 1050000 SETRATE_CPUFREQ]
  have a3: "increase_steps (scalable driver_after_init ! 0) 1350000 1150000 1150000
              SETRATE_HOTPLUG = [(VREG_MEM, 1150000), (VREG_DIG, 1150000)]"
    unfolding a[THEN conjunct2, THEN conjunct2, THEN conjunct1]
    by (simp add: driver_after_init_def)
  have b3: "decrease_steps (scalable driver_running ! 0) 850000 1050000 1050000
              SETRATE_CPUFREQ = [(VREG_CORE, 850000), (VREG_DIG, 1050000), (VREG_MEM, 1050000)]"
    unfolding b[THEN conjunct2, THEN conjunct2, THEN conjunct2]
    by (simp add: running_cur_vdd)
  from a[THEN conjunct1] obtain evs where
    t: "trace (snd (increase_vdd env_8960 0 1350000 1150000 1150000 SETRATE_HOTPLUG
                        driver_after_init)) = trace driver_after_init @ evs"
    and m: "map fst evs = map (\<lambda>(r, v). rail_call (scalable driver_after_init ! 0) r v)
              (take (length evs) (increase_steps (scalable driver_after_init ! 0)
                 1350000 1150000 1150000 SETRATE_HOTPLUG))"
    and f: "length evs = length (increase_steps (scalable driver_after_init ! 0)
                 1350000 1150000 1150000 SETRATE_HOTPLUG) \<or> evs \<noteq> [] \<and> snd (last evs) \<noteq> 0"
    by (elim exE conjE)
  from b[THEN conjunct2, THEN conjunct1] obtain evs' where
    t': "trace (decrease_vdd env_8960 0 850000 1050000 1050000 SETRATE_CPUFREQ driver_running)
          = trace driver_running @ evs'"
    and m': "map fst evs' = map (\<lambda>(r, v). rail_call (scalable driver_running ! 0) r v)
              (take (length evs') (decrease_steps (scalable driver_running ! 0)
                 850000 1050000 1050000 SETRATE_CPUFREQ))"
    and f': "length evs' = length (decrease_steps (scalable driver_running ! 0)
                 850000 1050000 1050000 SETRATE_CPUFREQ) \<or> evs' \<noteq> [] \<and> snd (last evs') \<noteq> 0"
    by (elim exE conjE)
  have f2: "length evs = 2 \<or> evs \<noteq> [] \<and> snd (last evs) \<noteq> 0"
    using f unfolding a3 by (simp add: numeral_2_eq_2)
  have f3: "length evs' = 3 \<or> evs' \<noteq> [] \<and> snd (last evs') \<noteq> 0"
    using f' unfolding b3 by (simp add: numeral_3_eq_3)
  show ?thesis
    apply (rule conjI)
     apply (rule exI[of _ evs])
     apply (intro conjI t m[unfolded a3] f2)
    apply (rule exI[of _ evs'])
    apply (intro conjI t' m'[unfolded b3] f3)
    done
qed

lemma subseq_set_subset: "subseq xs ys \<Longrightarrow> set xs \<subseteq> set ys"
  by (induction rule: list_emb.induct) auto

lemma rail_sequence_steps:
  assumes "cpu < length (scalable st)" and "distinct (map fst plan)"
    and "rail_sequence e cpu plan st = (rc, st')"
  shows "\<exists>steps evs. trace st' = trace st @ evs \<and> length evs = length steps
           \<and> map fst evs = map (\<lambda>(r, v). rail_call (scalable st ! cpu) r v) steps
           \<and> subseq steps plan
           \<and> (\<forall>i<length evs. snd (evs ! i) = 0 \<longrightarrow>
                  cur_vdd (vreg (scalable st' ! cpu) (fst (steps ! i))) = snd (steps ! i))
           \<and> (\<forall>r. (\<forall>i<length evs. fst (steps ! i) = r \<longrightarrow> snd (evs ! i) \<noteq> 0) \<longrightarrow>
                  vreg (scalable st' ! cpu) r = vreg (scalable st ! cpu) r)
           \<and> (\<forall>i. Suc i < length evs \<longrightarrow> snd (evs ! i) = 0)
           \<and> rc = (if evs = [] then 0 else snd (last evs))"
proof -
  from rail_sequence_run[OF assms] obtain evs where
    t: "trace st' = trace st @ evs" and l: "length evs \<le> length plan"
    and m: "map fst evs =
               map (\<lambda>(r, v). rail_call (scalable st ! cpu) r v) (take (length evs) plan)"
    and z: "\<forall>i. Suc i < length evs \<longrightarrow> snd (evs ! i) = 0"
    and rcv: "rc = (if evs = [] then 0 else snd (last evs))"
    and upd: "\<forall>i<length evs. snd (evs ! i) = 0 \<longrightarrow>
                  cur_vdd (vreg (scalable st' ! cpu) (fst (plan ! i))) = snd (plan ! i)"
    and keep: "\<forall>r. (\<forall>i<length evs. fst (plan ! i) = r \<longrightarrow> snd (evs ! i) \<noteq> 0) \<longrightarrow>
                  vreg (scalable st' ! cpu) r = vreg (scalable st ! cpu) r"
    by blast
  let ?steps = "take (length evs) plan"
  have n: "\<And>i. i < length evs \<Longrightarrow> ?steps ! i = plan ! i" by simp
  have 1: "length evs = length ?steps" using l by simp
  have 2: "subseq ?steps plan" by (rule subseq_take)
  have 3: "\<forall>i<length evs. snd (evs ! i) = 0 \<longrightarrow>
                  cur_vdd (vreg (scalable st' ! cpu) (fst (?steps ! i))) = snd (?steps ! i)"
    using upd n by simp
  have 4: "\<forall>r. (\<forall>i<length evs. fst (?steps ! i) = r \<longrightarrow> snd (evs ! i) \<noteq> 0) \<longrightarrow>
                  vreg (scalable st' ! cpu) r = vreg (scalable st ! cpu) r"
    using keep n by simp
  show ?thesis
    by (intro exI[of _ ?steps] exI[of _ evs] conjI) (rule t 1 m 2 3 4 z rcv)+
qed

text \<open>
  Claim C4, as amended.  On both paths every call is for a rail whose requested value
  exceeds (increase) or falls below (decrease) the cached value, the cached value of a
  rail changes only to the requested value and only after the call for that rail
  returned zero, and no call follows a call that failed.  \<open>increase_vdd\<close> returns the
  code of the failed call, and zero when no call failed; \<open>decrease_vdd\<close> returns
  nothing.
\<close>

theorem rail_sequencer_steps:
  assumes "cpu < length (scalable st)"
    and "increase_vdd e cpu vc vm vd reason st = (rc, sti)"
    and "decrease_vdd e cpu vc vm vd reason st = std"
  shows "(\<exists>steps evs. trace sti = trace st @ evs \<and> length evs = length steps
           \<and> map fst evs = map (\<lambda>(r, v). rail_call (scalable st ! cpu) r v) steps
           \<and> subseq steps [(VREG_MEM, vm), (VREG_DIG, vd), (VREG_CORE, vc)]
           \<and> (\<forall>(r, v)\<in>set steps. cur_vdd (vreg (scalable st ! cpu) r) < v)
           \<and> (\<forall>i<length evs. snd (evs ! i) = 0 \<longrightarrow>
                  cur_vdd (vreg (scalable sti ! cpu) (fst (steps ! i))) = snd (steps ! i))
           \<and> (\<forall>r. (\<forall>i<length evs. fst (steps ! i) = r \<longrightarrow> snd (evs ! i) \<noteq> 0) \<longrightarrow>
                  vreg (scalable sti ! cpu) r = vreg (scalable st ! cpu) r)
           \<and> (\<forall>i. Suc i < length evs \<longrightarrow> snd (evs ! i) = 0)
           \<and> rc = (if evs = [] then 0 else snd (last evs)))
       \<and> (\<exists>steps evs. trace std = trace st @ evs \<and> length evs = length steps
           \<and> map fst evs = map (\<lambda>(r, v). rail_call (scalable st ! cpu) r v) steps
           \<and> subseq steps [(VREG_CORE, vc), (VREG_DIG, vd), (VREG_MEM, vm)]
           \<and> (\<forall>(r, v)\<in>set steps. v < cur_vdd (vreg (scalable st ! cpu) r))
           \<and> (\<forall>i<length evs. snd (evs ! i) = 0 \<longrightarrow>
                  cur_vdd (vreg (scalable std ! cpu) (fst (steps ! i))) = snd (steps ! i))
           \<and> (\<forall>r. (\<forall>i<length evs. fst (steps ! i) = r \<longrightarrow> snd (evs ! i) \<noteq> 0) \<longrightarrow>
                  vreg (scalable std ! cpu) r = vreg (scalable st ! cpu) r)
           \<and> (\<forall>i. Suc i < length evs \<longrightarrow> snd (evs ! i) = 0))"
proof
  let ?plan = "increase_steps (scalable st ! cpu) vc vm vd reason"
  have r: "rail_sequence e cpu ?plan st = (rc, sti)"
    using assms(2) by (simp add: increase_vdd_rail_sequence[OF assms(1)])
  from rail_sequence_steps[OF assms(1) increase_steps_distinct r] obtain steps evs where
    f: "trace sti = trace st @ evs" "length evs = length steps"
      "map fst evs = map (\<lambda>(r, v). rail_call (scalable st ! cpu) r v) steps"
      "\<forall>i<length evs. snd (evs ! i) = 0 \<longrightarrow>
                  cur_vdd (vreg (scalable sti ! cpu) (fst (steps ! i))) = snd (steps ! i)"
      "\<forall>r. (\<forall>i<length evs. fst (steps ! i) = r \<longrightarrow> snd (evs ! i) \<noteq> 0) \<longrightarrow>
                  vreg (scalable sti ! cpu) r = vreg (scalable st ! cpu) r"
      "\<forall>i. Suc i < length evs \<longrightarrow> snd (evs ! i) = 0"
      "rc = (if evs = [] then 0 else snd (last evs))"
    and s: "subseq steps ?plan"
    by blast
  have s': "subseq steps [(VREG_MEM, vm), (VREG_DIG, vd), (VREG_CORE, vc)]"
    using s increase_steps_subseq by (rule subseq_order.order_trans)
  have nd: "\<forall>(r, v)\<in>set steps. cur_vdd (vreg (scalable st ! cpu) r) < v"
    using subseq_set_subset[OF s] increase_steps_needed by blast
  show "\<exists>steps evs. trace sti = trace st @ evs \<and> length evs = length steps
           \<and> map fst evs = map (\<lambda>(r, v). rail_call (scalable st ! cpu) r v) steps
           \<and> subseq steps [(VREG_MEM, vm), (VREG_DIG, vd), (VREG_CORE, vc)]
           \<and> (\<forall>(r, v)\<in>set steps. cur_vdd (vreg (scalable st ! cpu) r) < v)
           \<and> (\<forall>i<length evs. snd (evs ! i) = 0 \<longrightarrow>
                  cur_vdd (vreg (scalable sti ! cpu) (fst (steps ! i))) = snd (steps ! i))
           \<and> (\<forall>r. (\<forall>i<length evs. fst (steps ! i) = r \<longrightarrow> snd (evs ! i) \<noteq> 0) \<longrightarrow>
                  vreg (scalable sti ! cpu) r = vreg (scalable st ! cpu) r)
           \<and> (\<forall>i. Suc i < length evs \<longrightarrow> snd (evs ! i) = 0)
           \<and> rc = (if evs = [] then 0 else snd (last evs))"
    by (intro exI[of _ steps] exI[of _ evs] conjI) (rule f s' nd)+
next
  let ?plan = "decrease_steps (scalable st ! cpu) vc vm vd reason"
  obtain rc' where r: "rail_sequence e cpu ?plan st = (rc', std)"
    using assms(3) by (cases "rail_sequence e cpu ?plan st")
      (simp add: decrease_vdd_rail_sequence[OF assms(1)])
  from rail_sequence_steps[OF assms(1) decrease_steps_distinct r] obtain steps evs where
    f: "trace std = trace st @ evs" "length evs = length steps"
      "map fst evs = map (\<lambda>(r, v). rail_call (scalable st ! cpu) r v) steps"
      "\<forall>i<length evs. snd (evs ! i) = 0 \<longrightarrow>
                  cur_vdd (vreg (scalable std ! cpu) (fst (steps ! i))) = snd (steps ! i)"
      "\<forall>r. (\<forall>i<length evs. fst (steps ! i) = r \<longrightarrow> snd (evs ! i) \<noteq> 0) \<longrightarrow>
                  vreg (scalable std ! cpu) r = vreg (scalable st ! cpu) r"
      "\<forall>i. Suc i < length evs \<longrightarrow> snd (evs ! i) = 0"
    and s: "subseq steps ?plan"
    by blast
  have s': "subseq steps [(VREG_CORE, vc), (VREG_DIG, vd), (VREG_MEM, vm)]"
    using s decrease_steps_subseq by (rule subseq_order.order_trans)
  have nd: "\<forall>(r, v)\<in>set steps. v < cur_vdd (vreg (scalable st ! cpu) r)"
    using subseq_set_subset[OF s] decrease_steps_needed by blast
  show "\<exists>steps evs. trace std = trace st @ evs \<and> length evs = length steps
           \<and> map fst evs = map (\<lambda>(r, v). rail_call (scalable st ! cpu) r v) steps
           \<and> subseq steps [(VREG_CORE, vc), (VREG_DIG, vd), (VREG_MEM, vm)]
           \<and> (\<forall>(r, v)\<in>set steps. v < cur_vdd (vreg (scalable st ! cpu) r))
           \<and> (\<forall>i<length evs. snd (evs ! i) = 0 \<longrightarrow>
                  cur_vdd (vreg (scalable std ! cpu) (fst (steps ! i))) = snd (steps ! i))
           \<and> (\<forall>r. (\<forall>i<length evs. fst (steps ! i) = r \<longrightarrow> snd (evs ! i) \<noteq> 0) \<longrightarrow>
                  vreg (scalable std ! cpu) r = vreg (scalable st ! cpu) r)
           \<and> (\<forall>i. Suc i < length evs \<longrightarrow> snd (evs ! i) = 0)"
    by (intro exI[of _ steps] exI[of _ evs] conjI) (rule f s' nd)+
qed

theorem rail_sequencer_steps_witness:
  "(\<exists>steps evs.
        trace (snd (increase_vdd env_8960 0 850000 1050000 1050000 SETRATE_CPUFREQ driver_running))
          = trace driver_running @ evs \<and> length evs = length steps
      \<and> map fst evs = map (\<lambda>(r, v). rail_call (scalable driver_running ! 0) r v) steps
      \<and> subseq steps [(VREG_MEM, 1050000), (VREG_DIG, 1050000), (VREG_CORE, 850000)]
      \<and> fst (increase_vdd env_8960 0 850000 1050000 1050000 SETRATE_CPUFREQ driver_running)
          = (if evs = [] then 0 else snd (last evs)))
   \<and> (\<exists>steps evs.
        trace (decrease_vdd env_8960 0 850000 1050000 1050000 SETRATE_CPUFREQ driver_running)
          = trace driver_running @ evs \<and> length evs = length steps
      \<and> map fst evs = map (\<lambda>(r, v). rail_call (scalable driver_running ! 0) r v) steps
      \<and> subseq steps [(VREG_CORE, 850000), (VREG_DIG, 1050000), (VREG_MEM, 1050000)]
      \<and> (\<forall>i. Suc i < length evs \<longrightarrow> snd (evs ! i) = 0))"
proof -
  have 1: "0 < length (scalable driver_running)" by (simp add: running_length)
  have 2: "increase_vdd env_8960 0 850000 1050000 1050000 SETRATE_CPUFREQ driver_running
             = (fst (increase_vdd env_8960 0 850000 1050000 1050000 SETRATE_CPUFREQ driver_running),
                snd (increase_vdd env_8960 0 850000 1050000 1050000 SETRATE_CPUFREQ driver_running))"
    by simp
  from rail_sequencer_steps[OF 1 2 refl] show ?thesis by blast
qed

text \<open>
  Claim C4 as the specification words it has the failure of a step reported to the caller.
  On the example system the transition of core 0 from 2160000 to 384000 kHz asks the core
  regulator for 850000 uV, the regulator answers \<open>-EINVAL\<close>, \<open>decrease_vdd\<close> has no
  return value to carry that code, and \<open>acpuclk_8960_set_rate\<close> returns zero.
\<close>

theorem failed_decrease_is_not_reported:
  "acpuclk_8960_init env_8960 boot_driver = Inr (0, driver_after_init)
   \<and> acpuclk_8960_set_rate env_8960 0 2160000 SETRATE_CPUFREQ driver_after_init
       = Inr (0, driver_running)
   \<and> acpuclk_8960_set_rate env_8960 0 384000 SETRATE_CPUFREQ driver_running
       = Inr (0, driver_slow)
   \<and> trace driver_slow = trace driver_running @
        [(Rpm_vreg_set_voltage 23 1 0 0 0, 0), (Rpm_vreg_set_voltage 8 1 0 0 0, 0),
         (Rpm_vreg_set_voltage 8 1 2100000 2100000 0, 0),
         (Rpm_vreg_set_voltage 23 1 1800000 1800000 0, 0),
         (Msm_bus_scale_client_update_request 7, 0),
         (Regulator_set_voltage ''krait0'' 850000 1350000, - EINVAL)]
   \<and> trace (decrease_vdd env_8960 0 850000 1050000 1050000 SETRATE_CPUFREQ driver_running)
       = trace driver_running @ [(Regulator_set_voltage ''krait0'' 850000 1350000, - EINVAL)]"
proof (intro conjI)
  show "acpuclk_8960_init env_8960 boot_driver = Inr (0, driver_after_init)"
    by (rule init_result)
  show "acpuclk_8960_set_rate env_8960 0 2160000 SETRATE_CPUFREQ driver_after_init
          = Inr (0, driver_running)"
    by (rule cpufreq_run)
  show "acpuclk_8960_set_rate env_8960 0 384000 SETRATE_CPUFREQ driver_running
          = Inr (0, driver_slow)"
    by (rule slow_run)
  show "trace driver_slow = trace driver_running @
        [(Rpm_vreg_set_voltage 23 1 0 0 0, 0), (Rpm_vreg_set_voltage 8 1 0 0 0, 0),
         (Rpm_vreg_set_voltage 8 1 2100000 2100000 0, 0),
         (Rpm_vreg_set_voltage 23 1 1800000 1800000 0, 0),
         (Msm_bus_scale_client_update_request 7, 0),
         (Regulator_set_voltage ''krait0'' 850000 1350000, - EINVAL)]"
    by (simp add: eval_defs driver_slow_def driver_running_def driver_after_init_def
        cong: eval_cong)
  show "trace (decrease_vdd env_8960 0 850000 1050000 1050000 SETRATE_CPUFREQ driver_running)
       = trace driver_running @ [(Regulator_set_voltage ''krait0'' 850000 1350000, - EINVAL)]"
    by (simp add: eval_defs driver_running_def driver_after_init_def cong: eval_cong)
qed

subsection \<open>What a transition leaves alone\<close>

lemma set_acpuclk_foot_print_frame [simp]:
  "scalable (set_acpuclk_foot_print cpu s st) = scalable st"
  "acpu_freq_tbl (set_acpuclk_foot_print cpu s st) = acpu_freq_tbl st"
  "l2_freq_tbl (set_acpuclk_foot_print cpu s st) = l2_freq_tbl st"
  "prev_khz (set_acpuclk_foot_print cpu s st) = prev_khz st"
  "prev_pri_src (set_acpuclk_foot_print cpu s st) = prev_pri_src st"
  "prev_sec_src (set_acpuclk_foot_print cpu s st) = prev_sec_src st"
  "trace (set_acpuclk_foot_print cpu s st) = trace st"
  by (simp_all add: set_acpuclk_foot_print_def Let_def case_prod_beta)

lemma set_acpuclk_cpu_freq_foot_print_frame [simp]:
  "scalable (set_acpuclk_cpu_freq_foot_print cpu f st) = scalable st"
  "acpu_freq_tbl (set_acpuclk_cpu_freq_foot_print cpu f st) = acpu_freq_tbl st"
  "l2_freq_tbl (set_acpuclk_cpu_freq_foot_print cpu f st) = l2_freq_tbl st"
  "prev_khz (set_acpuclk_cpu_freq_foot_print cpu f st) = prev_khz st"
  "prev_pri_src (set_acpuclk_cpu_freq_foot_print cpu f st) = prev_pri_src st"
  "prev_sec_src (set_acpuclk_cpu_freq_foot_print cpu f st) = prev_sec_src st"
  "trace (set_acpuclk_cpu_freq_foot_print cpu f st) = trace st"
  by (simp_all add: set_acpuclk_cpu_freq_foot_print_def Let_def case_prod_beta)

lemma set_acpuclk_L2_freq_foot_print_frame [simp]:
  "scalable (set_acpuclk_L2_freq_foot_print f st) = scalable st"
  "acpu_freq_tbl (set_acpuclk_L2_freq_foot_print f st) = acpu_freq_tbl st"
  "l2_freq_tbl (set_acpuclk_L2_freq_foot_print f st) = l2_freq_tbl st"
  "prev_khz (set_acpuclk_L2_freq_foot_print f st) = prev_khz st"
  "prev_pri_src (set_acpuclk_L2_freq_foot_print f st) = prev_pri_src st"
  "prev_sec_src (set_acpuclk_L2_freq_foot_print f st) = prev_sec_src st"
  "trace (set_acpuclk_L2_freq_foot_print f st) = trace st"
  by (simp_all add: set_acpuclk_L2_freq_foot_print_def Let_def case_prod_beta)

lemma set_l2_indirect_reg_frame [simp]:
  "scalable (set_l2_indirect_reg a v st) = scalable st"
  "acpu_freq_tbl (set_l2_indirect_reg a v st) = acpu_freq_tbl st"
  "l2_freq_tbl (set_l2_indirect_reg a v st) = l2_freq_tbl st"
  "prev_khz (set_l2_indirect_reg a v st) = prev_khz st"
  "prev_pri_src (set_l2_indirect_reg a v st) = prev_pri_src st"
  "prev_sec_src (set_l2_indirect_reg a v st) = prev_sec_src st"
  "trace (set_l2_indirect_reg a v st) = trace st"
  by (simp_all add: set_l2_indirect_reg_def Let_def case_prod_beta)

lemma writel_relaxed_frame [simp]:
  "scalable (writel_relaxed v a st) = scalable st"
  "acpu_freq_tbl (writel_relaxed v a st) = acpu_freq_tbl st"
  "l2_freq_tbl (writel_relaxed v a st) = l2_freq_tbl st"
  "prev_khz (writel_relaxed v a st) = prev_khz st"
  "prev_pri_src (writel_relaxed v a st) = prev_pri_src st"
  "prev_sec_src (writel_relaxed v a st) = prev_sec_src st"
  "trace (writel_relaxed v a st) = trace st"
  by (simp_all add: writel_relaxed_def Let_def case_prod_beta)

lemma set_pri_clk_src_frame [simp]:
  "scalable (set_pri_clk_src sci p st) = scalable st"
  "acpu_freq_tbl (set_pri_clk_src sci p st) = acpu_freq_tbl st"
  "l2_freq_tbl (set_pri_clk_src sci p st) = l2_freq_tbl st"
  "prev_khz (set_pri_clk_src sci p st) = prev_khz st"
  "prev_pri_src (set_pri_clk_src sci p st) = prev_pri_src st"
  "prev_sec_src (set_pri_clk_src sci p st) = prev_sec_src st"
  "trace (set_pri_clk_src sci p st) = trace st"
  by (simp_all add: set_pri_clk_src_def Let_def case_prod_beta)

lemma set_sec_clk_src_frame [simp]:
  "scalable (set_sec_clk_src sci p st) = scalable st"
  "acpu_freq_tbl (set_sec_clk_src sci p st) = acpu_freq_tbl st"
  "l2_freq_tbl (set_sec_clk_src sci p st) = l2_freq_tbl st"
  "prev_khz (set_sec_clk_src sci p st) = prev_khz st"
  "prev_pri_src (set_sec_clk_src sci p st) = prev_pri_src st"
  "prev_sec_src (set_sec_clk_src sci p st) = prev_sec_src st"
  "trace (set_sec_clk_src sci p st) = trace st"
  by (simp_all add: set_sec_clk_src_def Let_def case_prod_beta)

lemma rpm_vreg_set_voltage_frame [simp]:
  "scalable (snd (rpm_vreg_set_voltage e v a b st)) = scalable st"
  "acpu_freq_tbl (snd (rpm_vreg_set_voltage e v a b st)) = acpu_freq_tbl st"
  "l2_freq_tbl (snd (rpm_vreg_set_voltage e v a b st)) = l2_freq_tbl st"
  "prev_khz (snd (rpm_vreg_set_voltage e v a b st)) = prev_khz st"
  "prev_pri_src (snd (rpm_vreg_set_voltage e v a b st)) = prev_pri_src st"
  "prev_sec_src (snd (rpm_vreg_set_voltage e v a b st)) = prev_sec_src st"
  by (simp_all add: rpm_vreg_set_voltage_def Let_def case_prod_beta)

lemma regulator_set_voltage_frame [simp]:
  "scalable (snd (regulator_set_voltage e v a b st)) = scalable st"
  "acpu_freq_tbl (snd (regulator_set_voltage e v a b st)) = acpu_freq_tbl st"
  "l2_freq_tbl (snd (regulator_set_voltage e v a b st)) = l2_freq_tbl st"
  "prev_khz (snd (regulator_set_voltage e v a b st)) = prev_khz st"
  "prev_pri_src (snd (regulator_set_voltage e v a b st)) = prev_pri_src st"
  "prev_sec_src (snd (regulator_set_voltage e v a b st)) = prev_sec_src st"
  by (simp_all add: regulator_set_voltage_def Let_def case_prod_beta)

lemma hfpll_enable_frame [simp]:
  "scalable (hfpll_enable e sci st) = scalable st"
  "acpu_freq_tbl (hfpll_enable e sci st) = acpu_freq_tbl st"
  "l2_freq_tbl (hfpll_enable e sci st) = l2_freq_tbl st"
  "prev_khz (hfpll_enable e sci st) = prev_khz st"
  "prev_pri_src (hfpll_enable e sci st) = prev_pri_src st"
  "prev_sec_src (hfpll_enable e sci st) = prev_sec_src st"
  by (simp_all add: hfpll_enable_def Let_def case_prod_beta)

lemma hfpll_disable_frame [simp]:
  "scalable (hfpll_disable e sci st) = scalable st"
  "acpu_freq_tbl (hfpll_disable e sci st) = acpu_freq_tbl st"
  "l2_freq_tbl (hfpll_disable e sci st) = l2_freq_tbl st"
  "prev_khz (hfpll_disable e sci st) = prev_khz st"
  "prev_pri_src (hfpll_disable e sci st) = prev_pri_src st"
  "prev_sec_src (hfpll_disable e sci st) = prev_sec_src st"
  by (simp_all add: hfpll_disable_def Let_def case_prod_beta)

lemma hfpll_set_rate_frame [simp]:
  "scalable (hfpll_set_rate sci s st) = scalable st"
  "acpu_freq_tbl (hfpll_set_rate sci s st) = acpu_freq_tbl st"
  "l2_freq_tbl (hfpll_set_rate sci s st) = l2_freq_tbl st"
  "prev_khz (hfpll_set_rate sci s st) = prev_khz st"
  "prev_pri_src (hfpll_set_rate sci s st) = prev_pri_src st"
  "prev_sec_src (hfpll_set_rate sci s st) = prev_sec_src st"
  "trace (hfpll_set_rate sci s st) = trace st"
  by (simp_all add: hfpll_set_rate_def Let_def case_prod_beta)

lemma set_bus_bw_frame [simp]:
  "scalable (set_bus_bw e bw st) = scalable st"
  "acpu_freq_tbl (set_bus_bw e bw st) = acpu_freq_tbl st"
  "l2_freq_tbl (set_bus_bw e bw st) = l2_freq_tbl st"
  "prev_khz (set_bus_bw e bw st) = prev_khz st"
  "prev_pri_src (set_bus_bw e bw st) = prev_pri_src st"
  "prev_sec_src (set_bus_bw e bw st) = prev_sec_src st"
  by (simp_all add: set_bus_bw_def Let_def case_prod_beta)

lemma speed_at_cong:
  "acpu_freq_tbl st' = acpu_freq_tbl st \<Longrightarrow> l2_freq_tbl st' = l2_freq_tbl st \<Longrightarrow>
   speed_at st' p = speed_at st p"
  by (cases p) (simp_all add: speed_at_def)

lemma list_update_current_speed_same:
  "current_speed (xs ! i) = Some p \<Longrightarrow> xs[i := (xs ! i)\<lparr>current_speed := Some p\<rparr>] = xs"
proof -
  assume a: "current_speed (xs ! i) = Some p"
  have "(xs ! i)\<lparr>current_speed := Some p\<rparr> = xs ! i"
    using a by (cases "xs ! i") simp
  then show ?thesis by simp
qed

lemma set_current_speed_frame [simp]:
  "acpu_freq_tbl (set_current_speed sci p st) = acpu_freq_tbl st"
  "l2_freq_tbl (set_current_speed sci p st) = l2_freq_tbl st"
  "prev_khz (set_current_speed sci p st) = prev_khz st"
  "prev_pri_src (set_current_speed sci p st) = prev_pri_src st"
  "prev_sec_src (set_current_speed sci p st) = prev_sec_src st"
  "trace (set_current_speed sci p st) = trace st"
  "scalable (set_current_speed sci p st) =
     (scalable st)[sci := (scalable st ! sci)\<lparr>current_speed := Some p\<rparr>]"
  by (simp_all add: set_current_speed_def)

lemma set_speed_result:
  assumes "set_speed e sci p reason st = Inr st'"
  shows "sci < length (scalable st)"
    and "scalable st' = (scalable st)[sci := (scalable st ! sci)\<lparr>current_speed := Some p\<rparr>]"
    and "acpu_freq_tbl st' = acpu_freq_tbl st"
    and "l2_freq_tbl st' = l2_freq_tbl st"
    and "prev_pri_src st' = prev_pri_src st"
    and "prev_sec_src st' = prev_sec_src st"
    and "prev_khz st' = prev_khz st"
  using assms
  by (auto simp: set_speed_def Let_def list_update_current_speed_same split: if_splits option.splits)

lemma compute_l2_level_result:
  assumes "compute_l2_level e sci vote_l st = Inr (new_l, st')"
  shows "vote_l < length (l2_freq_tbl st)"
    and "st' = st\<lparr>scalable := (scalable st)[sci := (scalable st ! sci)\<lparr>l2_vote := Some vote_l\<rparr>]\<rparr>"
    and "new_l = fold (\<lambda>cpu new_l. max_l2_ptr new_l (l2_vote (scalable st' ! cpu))) (cpu_present e) 0"
  using assms by (auto simp: compute_l2_level_def Let_def split: if_splits)

lemma update_l2_vote_result:
  assumes "update_l2_vote e cpu vote_l reason st = Inr (l, st')"
  shows "L2 < length (scalable st)"
    and "scalable st' = ((scalable st)[cpu := (scalable st ! cpu)\<lparr>l2_vote := Some vote_l\<rparr>])
                          [L2 := (((scalable st)[cpu := (scalable st ! cpu)\<lparr>l2_vote := Some vote_l\<rparr>]) ! L2)
                                   \<lparr>current_speed := Some (L2_speed l)\<rparr>]"
    and "acpu_freq_tbl st' = acpu_freq_tbl st"
    and "l2_freq_tbl st' = l2_freq_tbl st"
    and "prev_pri_src st' = prev_pri_src st"
    and "prev_sec_src st' = prev_sec_src st"
    and "prev_khz st' = prev_khz st"
proof -
  from assms obtain st1 st2 where
    c: "compute_l2_level e cpu vote_l st = Inr (l, st1)"
    and s: "set_speed e L2 (L2_speed l) reason st1 = Inr st2"
    and e: "st' = set_acpuclk_foot_print cpu 0x5
              (set_acpuclk_L2_freq_foot_print (khz (l2_level.speed (l2_freq_tbl st2 ! l))) st2)"
    by (auto simp: update_l2_vote_def Let_def split: sum.splits prod.splits)
  note c' = compute_l2_level_result[OF c]
  note s' = set_speed_result[OF s]
  show "L2 < length (scalable st)" using s'(1) c'(2) by simp
  show "scalable st' = ((scalable st)[cpu := (scalable st ! cpu)\<lparr>l2_vote := Some vote_l\<rparr>])
                          [L2 := (((scalable st)[cpu := (scalable st ! cpu)\<lparr>l2_vote := Some vote_l\<rparr>]) ! L2)
                                   \<lparr>current_speed := Some (L2_speed l)\<rparr>]"
    using s'(2) c'(2) e by simp
  show "acpu_freq_tbl st' = acpu_freq_tbl st" using s'(3) c'(2) e by simp
  show "l2_freq_tbl st' = l2_freq_tbl st" using s'(4) c'(2) e by simp
  show "prev_pri_src st' = prev_pri_src st" using s'(5) c'(2) e by simp
  show "prev_sec_src st' = prev_sec_src st" using s'(6) c'(2) e by simp
  show "prev_khz st' = prev_khz st" using s'(7) c'(2) e by simp
qed

lemma rail_sequence_frame_all:
  "acpu_freq_tbl (snd (rail_sequence e cpu steps st)) = acpu_freq_tbl st
   \<and> l2_freq_tbl (snd (rail_sequence e cpu steps st)) = l2_freq_tbl st
   \<and> prev_khz (snd (rail_sequence e cpu steps st)) = prev_khz st
   \<and> prev_pri_src (snd (rail_sequence e cpu steps st)) = prev_pri_src st
   \<and> prev_sec_src (snd (rail_sequence e cpu steps st)) = prev_sec_src st
   \<and> length (scalable (snd (rail_sequence e cpu steps st))) = length (scalable st)
   \<and> map current_speed (scalable (snd (rail_sequence e cpu steps st))) = map current_speed (scalable st)
   \<and> map l2_vote (scalable (snd (rail_sequence e cpu steps st))) = map l2_vote (scalable st)
   \<and> map first_set_call (scalable (snd (rail_sequence e cpu steps st))) = map first_set_call (scalable st)
   \<and> map l2cpmr_iaddr (scalable (snd (rail_sequence e cpu steps st))) = map l2cpmr_iaddr (scalable st)"
proof (induction steps arbitrary: st)
  case Nil
  show ?case by simp
next
  case (Cons step steps)
  obtain r v where step: "step = (r, v)" by (cases step)
  show ?case
    using Cons.IH[of "set_cur_vdd cpu r v (snd (call_backend e (rail_call (scalable st ! cpu) r v) st))"]
    by (simp add: step case_prod_beta Let_def)
qed

lemma rail_sequence_frame [simp]:
  "acpu_freq_tbl (snd (rail_sequence e cpu steps st)) = acpu_freq_tbl st"
  "l2_freq_tbl (snd (rail_sequence e cpu steps st)) = l2_freq_tbl st"
  "prev_khz (snd (rail_sequence e cpu steps st)) = prev_khz st"
  "prev_pri_src (snd (rail_sequence e cpu steps st)) = prev_pri_src st"
  "prev_sec_src (snd (rail_sequence e cpu steps st)) = prev_sec_src st"
  "length (scalable (snd (rail_sequence e cpu steps st))) = length (scalable st)"
  "map current_speed (scalable (snd (rail_sequence e cpu steps st))) = map current_speed (scalable st)"
  "map l2_vote (scalable (snd (rail_sequence e cpu steps st))) = map l2_vote (scalable st)"
  "map first_set_call (scalable (snd (rail_sequence e cpu steps st))) = map first_set_call (scalable st)"
  "map l2cpmr_iaddr (scalable (snd (rail_sequence e cpu steps st))) = map l2cpmr_iaddr (scalable st)"
  using rail_sequence_frame_all[of e cpu steps st] by simp_all

lemma same_fixed_state_refl [simp]: "same_fixed_state st st"
  by (simp add: same_fixed_state_def)

lemma same_fixed_state_trans:
  "same_fixed_state a b \<Longrightarrow> same_fixed_state b c \<Longrightarrow> same_fixed_state a c"
  by (simp add: same_fixed_state_def)

lemma same_fixed_state_length:
  "same_fixed_state st st' \<Longrightarrow> length (scalable st') = length (scalable st)"
  by (auto simp: same_fixed_state_def dest: map_eq_imp_length_eq)

lemma map_eq_nth: "map f xs = map f ys \<Longrightarrow> i < length ys \<Longrightarrow> f (xs ! i) = f (ys ! i)"
  by (metis length_map nth_map)

lemma map_update_same_field [simp]: "(map f xs)[i := f (xs ! i)] = map f xs"
  by (cases "i < length xs") (simp_all add: list_update_same_conv list_update_beyond)

lemma nth_update_same_field: "f x = f (xs ! i) \<Longrightarrow> f (xs[i := x] ! j) = f (xs ! j)"
  by (cases "i < length xs"; cases "i = j"; simp add: list_update_beyond)

lemma increase_vdd_frame:
  assumes "cpu < length (scalable st)"
  shows "same_fixed_state st (snd (increase_vdd e cpu vc vm vd reason st))"
    and "map current_speed (scalable (snd (increase_vdd e cpu vc vm vd reason st))) = map current_speed (scalable st)"
    and "map first_set_call (scalable (snd (increase_vdd e cpu vc vm vd reason st))) = map first_set_call (scalable st)"
    and "map l2_vote (scalable (snd (increase_vdd e cpu vc vm vd reason st))) = map l2_vote (scalable st)"
  by (simp_all add: increase_vdd_rail_sequence[OF assms] same_fixed_state_def)

lemma decrease_vdd_frame:
  assumes "cpu < length (scalable st)"
  shows "same_fixed_state st (decrease_vdd e cpu vc vm vd reason st)"
    and "map current_speed (scalable (decrease_vdd e cpu vc vm vd reason st)) = map current_speed (scalable st)"
    and "map first_set_call (scalable (decrease_vdd e cpu vc vm vd reason st)) = map first_set_call (scalable st)"
    and "map l2_vote (scalable (decrease_vdd e cpu vc vm vd reason st)) = map l2_vote (scalable st)"
  by (simp_all add: decrease_vdd_rail_sequence[OF assms] same_fixed_state_def)

lemma set_speed_frame:
  assumes "set_speed e sci p reason st = Inr st'"
  shows "same_fixed_state st st'"
    and "map current_speed (scalable st') = (map current_speed (scalable st))[sci := Some p]"
    and "map first_set_call (scalable st') = map first_set_call (scalable st)"
    and "map l2_vote (scalable st') = map l2_vote (scalable st)"
  using set_speed_result[OF assms]
  by (simp_all add: same_fixed_state_def map_list_update_same map_update)

lemma update_l2_vote_frame:
  assumes "update_l2_vote e cpu vote_l reason st = Inr (l, st')"
  shows "same_fixed_state st st'"
    and "map current_speed (scalable st') = (map current_speed (scalable st))[L2 := Some (L2_speed l)]"
    and "map first_set_call (scalable st') = map first_set_call (scalable st)"
  using update_l2_vote_result[OF assms]
  by (simp_all add: same_fixed_state_def map_list_update_same map_update nth_update_same_field)

lemma clear_first_set_call_frame:
  "same_fixed_state st (clear_first_set_call cpu st)"
  "map current_speed (scalable (clear_first_set_call cpu st)) = map current_speed (scalable st)"
  "map first_set_call (scalable (clear_first_set_call cpu st)) = (map first_set_call (scalable st))[cpu := False]"
  "trace (clear_first_set_call cpu st) = trace st"
  by (simp_all add: clear_first_set_call_def same_fixed_state_def map_list_update_same map_update)

lemma foot_print_same_fixed [simp]:
  "same_fixed_state st (set_acpuclk_foot_print cpu s st)"
  "same_fixed_state st (set_acpuclk_cpu_freq_foot_print cpu f st)"
  "same_fixed_state st (set_acpuclk_L2_freq_foot_print f st)"
  "same_fixed_state st (set_bus_bw e bw st)"
  by (simp_all add: same_fixed_state_def)

lemma set_rate_to_stages:
  assumes "set_rate_to e cpu i reason st = Inr (rc, st')"
  defines "tgt \<equiv> acpu_freq_tbl st ! i"
  defines "vm \<equiv> calculate_vdd_mem (l2_freq_tbl st) tgt"
    and "vd \<equiv> calculate_vdd_dig (l2_freq_tbl st) tgt"
    and "vc \<equiv> calculate_vdd_core tgt"
  defines "inc \<equiv> (if reason = SETRATE_CPUFREQ \<or> reason = SETRATE_HOTPLUG
                    then increase_vdd e cpu vc vm vd reason st else (0, st))"
  shows "(fst inc \<noteq> 0 \<and> rc = fst inc \<and> st' = set_acpuclk_foot_print cpu 0x8 (snd inc))
       \<or> (fst inc = 0 \<and> rc = 0 \<and>
           (\<exists>st3 l st5.
              set_speed e cpu (Acpu_speed i) reason (set_acpuclk_foot_print cpu 0x3 (snd inc)) = Inr st3
            \<and> update_l2_vote e cpu (l2_level tgt) reason
                 (set_acpuclk_foot_print cpu 0x4
                   (set_acpuclk_cpu_freq_foot_print cpu (khz (speed tgt)) st3)) = Inr (l, st5)
            \<and> st' = (if reason = SETRATE_PC \<or> reason = SETRATE_SWFI
                      then set_acpuclk_foot_print cpu 0x8 st5
                      else set_acpuclk_foot_print cpu 0x8
                             (clear_first_set_call cpu
                               (set_acpuclk_foot_print cpu 0x7
                                 (decrease_vdd e cpu vc vm vd reason
                                   (set_acpuclk_foot_print cpu 0x6
                                     (set_bus_bw e (bw_level (l2_freq_tbl st5 ! l)) st5))))))))"
  using assms(1) unfolding set_rate_to_def tgt_def vm_def vd_def vc_def inc_def
  by (auto simp: Let_def case_prod_beta split: if_splits sum.splits prod.splits)


lemma set_rate_to_result:
  assumes len: "cpu < length (scalable st)"
    and run: "set_rate_to e cpu i reason st = Inr (rc, st')"
  shows "same_fixed_state st st'"
    and "rc = 0 \<Longrightarrow> cpu \<noteq> L2 \<Longrightarrow> current_speed (scalable st' ! cpu) = Some (Acpu_speed i)"
    and "rc = 0 \<Longrightarrow> reason = SETRATE_CPUFREQ \<or> reason = SETRATE_HOTPLUG \<Longrightarrow>
           first_set_call (scalable st' ! cpu) = False"
    and "rc \<noteq> 0 \<Longrightarrow> map current_speed (scalable st') = map current_speed (scalable st)
                   \<and> map l2_vote (scalable st') = map l2_vote (scalable st)
                   \<and> map first_set_call (scalable st') = map first_set_call (scalable st)"
    and "map first_set_call (scalable st') = map first_set_call (scalable st)
         \<or> map first_set_call (scalable st') = (map first_set_call (scalable st))[cpu := False]"
proof -
  define tgt where "tgt = acpu_freq_tbl st ! i"
  define vm where "vm = calculate_vdd_mem (l2_freq_tbl st) tgt"
  define vd where "vd = calculate_vdd_dig (l2_freq_tbl st) tgt"
  define vc where "vc = calculate_vdd_core tgt"
  define inc where "inc = (if reason = SETRATE_CPUFREQ \<or> reason = SETRATE_HOTPLUG
                    then increase_vdd e cpu vc vm vd reason st else (0, st))"
  define st1 where "st1 = snd inc"
  have f1: "same_fixed_state st st1"
    and c1: "map current_speed (scalable st1) = map current_speed (scalable st)"
    and s1: "map first_set_call (scalable st1) = map first_set_call (scalable st)"
    and v1: "map l2_vote (scalable st1) = map l2_vote (scalable st)"
    using increase_vdd_frame[OF len, of e vc vm vd reason] by (simp_all add: st1_def inc_def)
  note stages = set_rate_to_stages[OF run, folded tgt_def, folded vm_def vd_def vc_def,
      folded inc_def, folded st1_def]
  have all: "same_fixed_state st st'
     \<and> (rc = 0 \<longrightarrow> cpu \<noteq> L2 \<longrightarrow> current_speed (scalable st' ! cpu) = Some (Acpu_speed i))
     \<and> (rc = 0 \<longrightarrow> reason = SETRATE_CPUFREQ \<or> reason = SETRATE_HOTPLUG \<longrightarrow>
           first_set_call (scalable st' ! cpu) = False)
     \<and> (rc \<noteq> 0 \<longrightarrow> map current_speed (scalable st') = map current_speed (scalable st)
                   \<and> map l2_vote (scalable st') = map l2_vote (scalable st)
                   \<and> map first_set_call (scalable st') = map first_set_call (scalable st))
     \<and> (map first_set_call (scalable st') = map first_set_call (scalable st)
         \<or> map first_set_call (scalable st') = (map first_set_call (scalable st))[cpu := False])"
  proof (cases "fst inc \<noteq> 0")
    case True
    then have "rc = fst inc" "st' = set_acpuclk_foot_print cpu 0x8 st1" using stages by auto
    then show ?thesis
      using True f1 c1 s1 v1 by (simp add: same_fixed_state_def)
  next
    case False
    then obtain st3 l st5 where rc0: "rc = 0"
      and sp: "set_speed e cpu (Acpu_speed i) reason (set_acpuclk_foot_print cpu 0x3 st1) = Inr st3"
      and up: "update_l2_vote e cpu (l2_level tgt) reason
                 (set_acpuclk_foot_print cpu 0x4
                   (set_acpuclk_cpu_freq_foot_print cpu (khz (speed tgt)) st3)) = Inr (l, st5)"
      and fin: "st' = (if reason = SETRATE_PC \<or> reason = SETRATE_SWFI
                      then set_acpuclk_foot_print cpu 0x8 st5
                      else set_acpuclk_foot_print cpu 0x8
                             (clear_first_set_call cpu
                               (set_acpuclk_foot_print cpu 0x7
                                 (decrease_vdd e cpu vc vm vd reason
                                   (set_acpuclk_foot_print cpu 0x6
                                     (set_bus_bw e (bw_level (l2_freq_tbl st5 ! l)) st5))))))"
      using stages by auto
    note sp' = set_speed_frame[OF sp]
    note up' = update_l2_vote_frame[OF up]
    have f3: "same_fixed_state st st3"
      using f1 sp'(1) by (simp add: same_fixed_state_def)
    have c3: "map current_speed (scalable st3) = (map current_speed (scalable st))[cpu := Some (Acpu_speed i)]"
      using sp'(2) c1 by simp
    have f5: "same_fixed_state st st5"
      using f3 up'(1) by (simp add: same_fixed_state_def)
    have c5: "map current_speed (scalable st5) =
        ((map current_speed (scalable st))[cpu := Some (Acpu_speed i)])[L2 := Some (L2_speed l)]"
      using up'(2) c3 by simp
    have len5: "cpu < length (scalable st5)"
      using same_fixed_state_length[OF f5] len by simp
    define st6 where "st6 = set_acpuclk_foot_print cpu 0x6
                                     (set_bus_bw e (bw_level (l2_freq_tbl st5 ! l)) st5)"
    have len6: "cpu < length (scalable st6)" using len5 by (simp add: st6_def)
    have f6: "same_fixed_state st st6" and c6: "map current_speed (scalable st6) = map current_speed (scalable st5)"
      using f5 by (simp_all add: st6_def same_fixed_state_def)
    define st8 where "st8 = decrease_vdd e cpu vc vm vd reason st6"
    note d = decrease_vdd_frame[OF len6, of e vc vm vd reason, folded st8_def]
    have f8: "same_fixed_state st st8" using f6 d(1) by (rule same_fixed_state_trans)
    have c8: "map current_speed (scalable st8) = map current_speed (scalable st5)"
      using d(2) c6 by simp
    have len8: "cpu < length (scalable st8)"
      using same_fixed_state_length[OF f8] len by simp
    have cur5: "cpu \<noteq> L2 \<Longrightarrow> (map current_speed (scalable st5)) ! cpu = Some (Acpu_speed i)"
      using c5 len by simp
    have s5: "map first_set_call (scalable st5) = map first_set_call (scalable st)"
      using up'(3) sp'(3) s1 by simp
    have s8: "map first_set_call (scalable st8) = map first_set_call (scalable st)"
      using d(3) s5 by (simp add: st6_def)
    show ?thesis
    proof (cases "reason = SETRATE_PC \<or> reason = SETRATE_SWFI")
      case True
      then have e: "st' = set_acpuclk_foot_print cpu 0x8 st5" using fin by simp
      have "cpu \<noteq> L2 \<longrightarrow> current_speed (scalable st' ! cpu) = Some (Acpu_speed i)"
        using cur5 len5 e by simp
      then show ?thesis using e f5 rc0 True s5 by (auto simp: same_fixed_state_def)
    next
      case False
      then have e: "st' = set_acpuclk_foot_print cpu 0x8
                             (clear_first_set_call cpu (set_acpuclk_foot_print cpu 0x7 st8))"
        using fin by (simp add: st8_def st6_def)
      have fs: "same_fixed_state st st'"
        using f8 by (simp add: e same_fixed_state_def clear_first_set_call_def map_list_update_same)
      have cs: "map current_speed (scalable st') = map current_speed (scalable st5)"
        using c8 by (simp add: e clear_first_set_call_frame)
      have fl: "map first_set_call (scalable st') = (map first_set_call (scalable st8))[cpu := False]"
        by (simp add: e clear_first_set_call_frame)
      then have "(map first_set_call (scalable st')) ! cpu = False"
        using len8 by simp
      moreover have len': "cpu < length (scalable st')"
        using same_fixed_state_length[OF fs] len by simp
      ultimately have fsc: "first_set_call (scalable st' ! cpu) = False" by simp
      have "cpu \<noteq> L2 \<longrightarrow> current_speed (scalable st' ! cpu) = Some (Acpu_speed i)"
        using cur5 cs len' by (metis nth_map)
      then show ?thesis using fs fsc rc0 fl s8 by simp
    qed
  qed
  show "same_fixed_state st st'" using all by simp
  show "rc = 0 \<Longrightarrow> cpu \<noteq> L2 \<Longrightarrow> current_speed (scalable st' ! cpu) = Some (Acpu_speed i)"
    using all by simp
  show "rc = 0 \<Longrightarrow> reason = SETRATE_CPUFREQ \<or> reason = SETRATE_HOTPLUG \<Longrightarrow>
           first_set_call (scalable st' ! cpu) = False"
    using all by simp
  show "rc \<noteq> 0 \<Longrightarrow> map current_speed (scalable st') = map current_speed (scalable st)
                   \<and> map l2_vote (scalable st') = map l2_vote (scalable st)
                   \<and> map first_set_call (scalable st') = map first_set_call (scalable st)"
    using all by simp
  show "map first_set_call (scalable st') = map first_set_call (scalable st)
         \<or> map first_set_call (scalable st') = (map first_set_call (scalable st))[cpu := False]"
    using all by simp
qed

lemma find_target_Some:
  "find_target ls k rate = Inr (Some i) \<Longrightarrow>
     k \<le> i \<and> i - k < length ls \<and> khz (speed (ls ! (i - k))) = rate"
proof (induction ls arbitrary: k)
  case Nil
  then show ?case by simp
next
  case (Cons l ls)
  show ?case
  proof (cases "khz (speed l) = 0 \<or> khz (speed l) = rate")
    case True
    then show ?thesis using Cons.prems by (auto split: if_splits)
  next
    case False
    then have "find_target ls (Suc k) rate = Inr (Some i)" using Cons.prems by simp
    from Cons.IH[OF this] have "Suc k \<le> i" "i - Suc k < length ls"
      "khz (speed (ls ! (i - Suc k))) = rate" by simp_all
    then show ?thesis by (simp add: Suc_diff_Suc Suc_le_eq)
  qed
qed

lemma speed_at_foot_print [simp]:
  "speed_at (set_acpuclk_foot_print c s st) p = speed_at st p"
  by (rule speed_at_cong) simp_all

lemma set_rate_stages:
  assumes run: "acpuclk_8960_set_rate e cpu rate reason st = Inr (rc, st')"
  defines "st2 \<equiv> set_acpuclk_foot_print cpu 0x2 (set_acpuclk_foot_print cpu 0x1 st)"
  shows "(num_possible_cpus e < cpu \<and> rc = - EINVAL
            \<and> st' = set_acpuclk_foot_print cpu 0x8 (set_acpuclk_foot_print cpu 0x1 st))
       \<or> (cpu \<le> num_possible_cpus e \<and> cpu < length (scalable st) \<and>
           (\<exists>p. current_speed (scalable st ! cpu) = Some p \<and>
             ((rate = khz (speed_at st p) \<and> \<not> first_set_call (scalable st ! cpu)
                 \<and> rc = 0 \<and> st' = set_acpuclk_foot_print cpu 0x8 st2)
              \<or> (\<not> (rate = khz (speed_at st p) \<and> \<not> first_set_call (scalable st ! cpu))
                 \<and> find_target (acpu_freq_tbl st) 0 rate = Inr None
                 \<and> rc = - EINVAL \<and> st' = set_acpuclk_foot_print cpu 0x8 st2)
              \<or> (\<not> (rate = khz (speed_at st p) \<and> \<not> first_set_call (scalable st ! cpu))
                 \<and> (\<exists>i. find_target (acpu_freq_tbl st) 0 rate = Inr (Some i)
                       \<and> set_rate_to e cpu i reason st2 = Inr (rc, st'))))))"
proof (cases "num_possible_cpus e < cpu")
  case True
  then show ?thesis using run by (simp add: acpuclk_8960_set_rate_def Let_def)
next
  case npc: False
  show ?thesis
  proof (cases "cpu < length (scalable st)")
    case False
    then show ?thesis using run npc by (simp add: acpuclk_8960_set_rate_def Let_def)
  next
    case len: True
    show ?thesis
    proof (cases "current_speed (scalable st ! cpu)")
      case None
      then show ?thesis using run npc len by (simp add: acpuclk_8960_set_rate_def Let_def)
    next
      case (Some p)
      show ?thesis
      proof (cases "rate = khz (speed_at st p) \<and> \<not> first_set_call (scalable st ! cpu)")
        case True
        then show ?thesis using run npc len Some
          by (simp add: acpuclk_8960_set_rate_def Let_def st2_def)
      next
        case early: False
        show ?thesis
        proof (cases "find_target (acpu_freq_tbl st) 0 rate")
          case (Inl f)
          then show ?thesis using run npc len Some early
            by (simp add: acpuclk_8960_set_rate_def Let_def)
        next
          case (Inr r)
          show ?thesis
          proof (cases r)
            case None
            then show ?thesis using run npc len Some early Inr
              by (simp add: acpuclk_8960_set_rate_def Let_def st2_def)
          next
            case (Some i)
            then show ?thesis using run npc len \<open>current_speed (scalable st ! cpu) = Some p\<close> early Inr
              by (simp add: acpuclk_8960_set_rate_def Let_def st2_def)
          qed
        qed
      qed
    qed
  qed
qed

subsection \<open>The transition engine, the arbitrator and the hotplug coordinator\<close>

lemma set_rate_frame:
  assumes run: "acpuclk_8960_set_rate e cpu rate reason st = Inr (rc, st')"
  shows "same_fixed_state st st'"
    and "map first_set_call (scalable st') = map first_set_call (scalable st)
         \<or> map first_set_call (scalable st') = (map first_set_call (scalable st))[cpu := False]"
proof -
  define st2 where "st2 = set_acpuclk_foot_print cpu 0x2 (set_acpuclk_foot_print cpu 0x1 st)"
  have f2: "same_fixed_state st st2" "scalable st2 = scalable st"
    by (simp_all add: st2_def same_fixed_state_def)
  note stages = set_rate_stages[OF run, folded st2_def]
  have "same_fixed_state st st'
     \<and> (map first_set_call (scalable st') = map first_set_call (scalable st)
         \<or> map first_set_call (scalable st') = (map first_set_call (scalable st))[cpu := False])"
  proof (cases "\<exists>i. cpu < length (scalable st) \<and> set_rate_to e cpu i reason st2 = Inr (rc, st')")
    case True
    then obtain i where len: "cpu < length (scalable st2)"
      and r: "set_rate_to e cpu i reason st2 = Inr (rc, st')" using f2 by auto
    from set_rate_to_result(1,5)[OF len r] f2 show ?thesis
      by (auto intro: same_fixed_state_trans)
  next
    case False
    then have "st' = set_acpuclk_foot_print cpu 0x8 (set_acpuclk_foot_print cpu 0x1 st)
             \<or> st' = set_acpuclk_foot_print cpu 0x8 st2"
      using stages by auto
    then show ?thesis by (auto simp: st2_def same_fixed_state_def)
  qed
  then show "same_fixed_state st st'"
    and "map first_set_call (scalable st') = map first_set_call (scalable st)
         \<or> map first_set_call (scalable st') = (map first_set_call (scalable st))[cpu := False]"
    by simp_all
qed

lemma set_rate_flag_stays_clear:
  assumes "acpuclk_8960_set_rate e c rate reason st = Inr (rc, st')"
    and "cpu < length (scalable st)" and "\<not> first_set_call (scalable st ! cpu)"
  shows "\<not> first_set_call (scalable st' ! cpu)"
proof -
  have len: "length (scalable st') = length (scalable st)"
    using set_rate_frame(1)[OF assms(1)] by (rule same_fixed_state_length)
  have "map first_set_call (scalable st') ! cpu = False"
    using set_rate_frame(2)[OF assms(1)] assms(2,3)
    by (cases "c = cpu") (auto simp: nth_list_update)
  then show ?thesis using len assms(2) by simp
qed

lemma transitions_frame:
  assumes "transitions e reqs st = Inr st'"
  shows "same_fixed_state st st'"
    and "cpu < length (scalable st) \<Longrightarrow> \<not> first_set_call (scalable st ! cpu) \<Longrightarrow>
           \<not> first_set_call (scalable st' ! cpu)"
proof -
  have "same_fixed_state st st' \<and> (cpu < length (scalable st) \<longrightarrow> \<not> first_set_call (scalable st ! cpu) \<longrightarrow>
           \<not> first_set_call (scalable st' ! cpu))"
    using assms
  proof (induction reqs arbitrary: st)
    case Nil
    then show ?case by simp
  next
    case (Cons req reqs)
    obtain c rate reason where req: "req = (c, rate, reason)" by (cases req)
    from Cons.prems obtain rc st1 where
      r1: "acpuclk_8960_set_rate e c rate reason st = Inr (rc, st1)"
      and r2: "transitions e reqs st1 = Inr st'"
      by (auto simp: req split: sum.splits)
    note f1 = set_rate_frame(1)[OF r1]
    note l1 = same_fixed_state_length[OF f1]
    from Cons.IH[OF r2] f1 l1 set_rate_flag_stays_clear[OF r1, of cpu]
    show ?case by (auto intro: same_fixed_state_trans)
  qed
  then show "same_fixed_state st st'"
    and "cpu < length (scalable st) \<Longrightarrow> \<not> first_set_call (scalable st ! cpu) \<Longrightarrow>
           \<not> first_set_call (scalable st' ! cpu)"
    by simp_all
qed

text \<open>
  Claim C1.  For every core, frequency and reason: when \<open>acpuclk_8960_set_rate\<close> returns
  zero, \<open>acpuclk_8960_get_rate\<close> called next on that core returns the frequency that was
  requested.
\<close>

theorem set_rate_then_get_rate:
  assumes core: "cpu < L2"
    and run: "acpuclk_8960_set_rate e cpu rate reason st = Inr (0, st')"
  shows "acpuclk_8960_get_rate cpu st' = Inr rate"
proof -
  define st2 where "st2 = set_acpuclk_foot_print cpu 0x2 (set_acpuclk_foot_print cpu 0x1 st)"
  note stages = set_rate_stages[OF run, folded st2_def]
  from stages obtain p where len: "cpu < length (scalable st)"
    and p: "current_speed (scalable st ! cpu) = Some p"
    and alt: "(rate = khz (speed_at st p) \<and> st' = set_acpuclk_foot_print cpu 0x8 st2)
            \<or> (\<exists>i. find_target (acpu_freq_tbl st) 0 rate = Inr (Some i)
                       \<and> set_rate_to e cpu i reason st2 = Inr (0, st'))"
    by auto
  from alt show ?thesis
  proof
    assume "rate = khz (speed_at st p) \<and> st' = set_acpuclk_foot_print cpu 0x8 st2"
    then show ?thesis using len p by (simp add: acpuclk_8960_get_rate_def st2_def)
  next
    assume "\<exists>i. find_target (acpu_freq_tbl st) 0 rate = Inr (Some i)
                       \<and> set_rate_to e cpu i reason st2 = Inr (0, st')"
    then obtain i where ft: "find_target (acpu_freq_tbl st) 0 rate = Inr (Some i)"
      and r: "set_rate_to e cpu i reason st2 = Inr (0, st')" by blast
    have len2: "cpu < length (scalable st2)" using len by (simp add: st2_def)
    note res = set_rate_to_result[OF len2 r]
    have cs: "current_speed (scalable st' ! cpu) = Some (Acpu_speed i)"
      using res(2) core by simp
    have tbl: "acpu_freq_tbl st' = acpu_freq_tbl st"
      using res(1) by (simp add: same_fixed_state_def st2_def)
    have len': "cpu < length (scalable st')"
      using same_fixed_state_length[OF res(1)] len2 by simp
    have "khz (speed (acpu_freq_tbl st ! i)) = rate"
      using find_target_Some[OF ft] by simp
    then show ?thesis using cs tbl len'
      by (simp add: acpuclk_8960_get_rate_def speed_at_def)
  qed
qed

theorem set_rate_then_get_rate_witness:
  "acpuclk_8960_get_rate 0 driver_running = Inr 2160000"
  using set_rate_then_get_rate[OF _ cpufreq_run] by simp

text \<open>
  Claim C7, as amended.  Once a transition of a core with the cpufreq or the hotplug
  reason has returned zero, then after any further run of transition requests a request
  for the frequency the core is running at returns zero, makes no backend call, and
  changes nothing in the state but the footprint words.
\<close>

theorem same_rate_is_noop:
  assumes first: "acpuclk_8960_set_rate e cpu f reason st = Inr (0, st1)"
    and full: "reason = SETRATE_CPUFREQ \<or> reason = SETRATE_HOTPLUG"
    and later: "transitions e reqs st1 = Inr st2"
    and cur: "acpuclk_8960_get_rate cpu st2 = Inr rate"
  shows "\<exists>st3. acpuclk_8960_set_rate e cpu rate reason' st2 = Inr (0, st3)
           \<and> trace st3 = trace st2 \<and> st3 = st2\<lparr>foot_print := foot_print st3\<rparr>"
proof -
  define st0 where "st0 = set_acpuclk_foot_print cpu 0x2 (set_acpuclk_foot_print cpu 0x1 st)"
  note stages = set_rate_stages[OF first, folded st0_def]
  from stages have npc: "cpu \<le> num_possible_cpus e" and len: "cpu < length (scalable st)"
    by auto
  have len1: "cpu < length (scalable st1)"
    using same_fixed_state_length[OF set_rate_frame(1)[OF first]] len by simp
  have flag1: "\<not> first_set_call (scalable st1 ! cpu)"
  proof -
    from stages consider
      (early) "\<not> first_set_call (scalable st ! cpu)" "st1 = set_acpuclk_foot_print cpu 0x8 st0"
      | (found) i where "set_rate_to e cpu i reason st0 = Inr (0, st1)"
      by auto
    then show ?thesis
    proof cases
      case early
      then show ?thesis by (simp add: st0_def)
    next
      case found
      have "cpu < length (scalable st0)" using len by (simp add: st0_def)
      from set_rate_to_result(3)[OF this found] full show ?thesis by simp
    qed
  qed
  have flag2: "\<not> first_set_call (scalable st2 ! cpu)"
    using transitions_frame(2)[OF later len1 flag1] .
  from cur obtain p where len2: "cpu < length (scalable st2)"
    and p: "current_speed (scalable st2 ! cpu) = Some p" and r: "rate = khz (speed_at st2 p)"
    by (auto simp: acpuclk_8960_get_rate_def split: if_splits option.splits)
  let ?st3 = "set_acpuclk_foot_print cpu 0x8
                (set_acpuclk_foot_print cpu 0x2 (set_acpuclk_foot_print cpu 0x1 st2))"
  have run: "acpuclk_8960_set_rate e cpu rate reason' st2 = Inr (0, ?st3)"
    using npc len2 p r flag2 by (simp add: acpuclk_8960_set_rate_def Let_def)
  have "trace ?st3 = trace st2" by simp
  moreover have "?st3 = st2\<lparr>foot_print := foot_print ?st3\<rparr>"
    by (simp add: set_acpuclk_foot_print_def)
  ultimately show ?thesis using run by blast
qed

theorem same_rate_is_noop_witness:
  "\<exists>st3. acpuclk_8960_set_rate env_8960 0 384000 SETRATE_SWFI driver_slow = Inr (0, st3)
         \<and> trace st3 = trace driver_slow \<and> st3 = driver_slow\<lparr>foot_print := foot_print st3\<rparr>"
proof -
  have later: "transitions env_8960 [(0, 384000, SETRATE_CPUFREQ)] driver_running = Inr driver_slow"
    by (simp add: slow_run)
  show ?thesis
    by (rule same_rate_is_noop[OF cpufreq_run disjI1[OF refl] later slow_rate])
qed

text \<open>
  Claim C7 as the specification words it counts any first successful transition.  On the
  example system the first transition of core 0 after \<open>acpuclk_8960_init\<close> has the reason
  \<open>SETRATE_SWFI\<close> and returns zero, which leaves \<open>first_set_call\<close> set; the request
  that follows, for the frequency the core is running at, makes four backend calls.
\<close>

theorem same_rate_after_idle_request:
  "acpuclk_8960_init env_8960 boot_driver = Inr (0, driver_after_init)
   \<and> acpuclk_8960_set_rate env_8960 0 2160000 SETRATE_SWFI driver_after_init
       = Inr (0, driver_after_swfi)
   \<and> acpuclk_8960_get_rate 0 driver_after_swfi = Inr 2160000
   \<and> (\<exists>st. acpuclk_8960_set_rate env_8960 0 2160000 SETRATE_CPUFREQ driver_after_swfi
              = Inr (0, st)
          \<and> trace st = trace driver_after_swfi @
              [(Rpm_vreg_set_voltage 24 1 1150000 1150000 0, 0),
               (Rpm_vreg_set_voltage 3 1 1150000 1150000 0, 0),
               (Regulator_set_voltage ''krait0'' 1350000 1350000, 0),
               (Msm_bus_scale_client_update_request 7, 0)])"
proof (intro conjI)
  show "acpuclk_8960_init env_8960 boot_driver = Inr (0, driver_after_init)"
    by (rule init_result)
  show "acpuclk_8960_set_rate env_8960 0 2160000 SETRATE_SWFI driver_after_init
          = Inr (0, driver_after_swfi)"
    by (rule swfi_run)
  show "acpuclk_8960_get_rate 0 driver_after_swfi = Inr 2160000"
    by (simp add: eval_defs driver_after_swfi_def driver_after_init_def cong: eval_cong)
  show "\<exists>st. acpuclk_8960_set_rate env_8960 0 2160000 SETRATE_CPUFREQ driver_after_swfi
              = Inr (0, st)
          \<and> trace st = trace driver_after_swfi @
              [(Rpm_vreg_set_voltage 24 1 1150000 1150000 0, 0),
               (Rpm_vreg_set_voltage 3 1 1150000 1150000 0, 0),
               (Regulator_set_voltage ''krait0'' 1350000 1350000, 0),
               (Msm_bus_scale_client_update_request 7, 0)]"
    by (simp add: eval_defs driver_after_swfi_def driver_after_init_def cong: eval_cong)
qed

lemma fold_max_l2_ptr:
  "fold (\<lambda>c n. max_l2_ptr n (votes c)) cs n0 =
     Max (set (n0 # map (\<lambda>c. case votes c of None \<Rightarrow> 0 | Some v \<Rightarrow> v) cs))"
proof (induction cs arbitrary: n0)
  case Nil
  show ?case by simp
next
  case (Cons c cs)
  let ?g = "\<lambda>c. case votes c of None \<Rightarrow> (0::nat) | Some v \<Rightarrow> v"
  have m: "max_l2_ptr n0 (votes c) = max n0 (?g c)"
    by (simp add: max_l2_ptr_def split: option.splits)
  have "fold (\<lambda>c n. max_l2_ptr n (votes c)) (c # cs) n0 =
          Max (insert (max n0 (?g c)) (set (map ?g cs)))"
    using Cons.IH[of "max_l2_ptr n0 (votes c)"] by (simp add: m)
  also have "\<dots> = Max (insert n0 (insert (?g c) (set (map ?g cs))))"
    by (cases "set (map ?g cs) = {}") (simp_all add: max.assoc)
  finally show ?case by simp
qed

lemma set_speed_returns:
  "sci < length (scalable st) \<Longrightarrow> current_speed (scalable st ! sci) \<noteq> None \<Longrightarrow>
   \<exists>st'. set_speed e sci p reason st = Inr st'"
  by (auto simp: set_speed_def Let_def)

lemma nth_vote_update:
  "cpu < length xs \<Longrightarrow>
   (case l2_vote (xs[cpu := (xs ! cpu)\<lparr>l2_vote := Some vote_l\<rparr>] ! c) of None \<Rightarrow> 0 | Some v \<Rightarrow> v)
     = (if c = cpu then vote_l else case l2_vote (xs ! c) of None \<Rightarrow> 0 | Some v \<Rightarrow> v)"
  by (cases "c = cpu") simp_all

text \<open>
  Claim C2.  For a vote within the table, \<open>compute_l2_level\<close> records the vote of the
  core, leaves the rest of the state as it was, and returns the maximum over the present
  cores of the new vote for this core and the votes the other cores had, a core without
  vote counting as the lowest level; the critical section of \<open>acpuclk_8960_set_rate\<close>
  makes that level the current speed of the shared domain and keeps the votes.
\<close>

theorem domain_arbitrator_max:
  assumes len: "cpu < length (scalable st)"
    and vote: "vote_l < length (l2_freq_tbl st)"
    and l2: "L2 < length (scalable st)" "current_speed (scalable st ! L2) \<noteq> None"
  shows "\<exists>st1 st'.
             st1 = st\<lparr>scalable := (scalable st)[cpu := (scalable st ! cpu)\<lparr>l2_vote := Some vote_l\<rparr>]\<rparr>
           \<and> spec_max_vote e st1 =
               Max (set (0 # map (\<lambda>c. if c = cpu then vote_l
                                        else case l2_vote (scalable st ! c) of
                                               None \<Rightarrow> 0 | Some v \<Rightarrow> v) (cpu_present e)))
           \<and> compute_l2_level e cpu vote_l st = Inr (spec_max_vote e st1, st1)
           \<and> l2_vote (scalable st1 ! cpu) = Some vote_l
           \<and> update_l2_vote e cpu vote_l reason st = Inr (spec_max_vote e st1, st')
           \<and> map l2_vote (scalable st') = map l2_vote (scalable st1)
           \<and> current_speed (scalable st' ! L2) = Some (L2_speed (spec_max_vote e st1))"
proof -
  obtain new_l st1 where c: "compute_l2_level e cpu vote_l st = Inr (new_l, st1)"
    using vote by (simp add: compute_l2_level_def Let_def)
  note c' = compute_l2_level_result[OF c]
  have mx: "new_l = spec_max_vote e st1"
    unfolding c'(3) spec_max_vote_def present_votes_def by (rule fold_max_l2_ptr)
  have ex: "spec_max_vote e st1 =
               Max (set (0 # map (\<lambda>c. if c = cpu then vote_l
                                        else case l2_vote (scalable st ! c) of
                                               None \<Rightarrow> 0 | Some v \<Rightarrow> v) (cpu_present e)))"
    unfolding spec_max_vote_def present_votes_def c'(2) using len
    by (simp add: nth_vote_update)
  have v: "l2_vote (scalable st1 ! cpu) = Some vote_l"
    using c'(2) len by simp
  have "L2 < length (scalable st1)" "current_speed (scalable st1 ! L2) \<noteq> None"
    using c'(2) l2 by (simp_all add: nth_update_same_field[where f = current_speed])
  from set_speed_returns[OF this] obtain st2 where
    s: "set_speed e L2 (L2_speed new_l) reason st1 = Inr st2" by blast
  define st' where "st' = set_acpuclk_foot_print cpu 0x5
              (set_acpuclk_L2_freq_foot_print (khz (l2_level.speed (l2_freq_tbl st2 ! new_l))) st2)"
  have run: "update_l2_vote e cpu vote_l reason st = Inr (new_l, st')"
    using c s by (simp add: update_l2_vote_def Let_def st'_def)
  note s' = set_speed_frame[OF s] set_speed_result(1,2)[OF s]
  have m: "map l2_vote (scalable st') = map l2_vote (scalable st1)"
    using s'(4) by (simp add: st'_def)
  have cs: "current_speed (scalable st' ! L2) = Some (L2_speed new_l)"
    using s'(5,6) by (simp add: st'_def)
  show ?thesis
    by (intro exI[of _ st1] exI[of _ st'] conjI)
       (use c'(2) ex c run mx v m cs in simp_all)
qed

theorem domain_arbitrator_max_witness:
  "\<exists>st1 st'. compute_l2_level env_8960 0 7 driver_after_init = Inr (21, st1)
           \<and> map l2_vote (scalable st1) = [Some 7, Some 21, None, None, None]
           \<and> update_l2_vote env_8960 0 7 SETRATE_CPUFREQ driver_after_init = Inr (21, st')
           \<and> map l2_vote (scalable st') = [Some 7, Some 21, None, None, None]
           \<and> current_speed (scalable st' ! L2) = Some (L2_speed 21)"
proof -
  have 1: "0 < length (scalable driver_after_init)" by (simp add: after_init_length)
  have 2: "7 < length (l2_freq_tbl driver_after_init)"
    by (simp add: driver_after_init_def l2_entries)
  have 3: "L2 < length (scalable driver_after_init)" by (simp add: after_init_length)
  have 4: "current_speed (scalable driver_after_init ! L2) \<noteq> None"
    by (simp add: driver_after_init_def)
  from domain_arbitrator_max[OF 1 2 3 4, of env_8960 SETRATE_CPUFREQ] obtain st1 st' where
    a: "st1 = driver_after_init\<lparr>scalable := (scalable driver_after_init)
              [0 := (scalable driver_after_init ! 0)\<lparr>l2_vote := Some 7\<rparr>]\<rparr>"
    and b: "spec_max_vote env_8960 st1 =
               Max (set (0 # map (\<lambda>c. if c = 0 then 7
                                        else case l2_vote (scalable driver_after_init ! c) of
                                               None \<Rightarrow> 0 | Some v \<Rightarrow> v) (cpu_present env_8960)))"
    and c: "compute_l2_level env_8960 0 7 driver_after_init = Inr (spec_max_vote env_8960 st1, st1)"
    and u: "update_l2_vote env_8960 0 7 SETRATE_CPUFREQ driver_after_init
              = Inr (spec_max_vote env_8960 st1, st')"
    and m: "map l2_vote (scalable st') = map l2_vote (scalable st1)"
    and s: "current_speed (scalable st' ! L2) = Some (L2_speed (spec_max_vote env_8960 st1))"
    by blast
  have v: "spec_max_vote env_8960 st1 = 21"
    unfolding b by (simp add: env_8960_fields driver_after_init_def)
  have vs: "map l2_vote (scalable st1) = [Some 7, Some 21, None, None, None]"
    unfolding a by (simp add: driver_after_init_def)
  show ?thesis
    by (intro exI[of _ st1] exI[of _ st'] conjI) (use c u m s v vs in simp_all)
qed

lemma mask3: "(3::32 word) = mask 2" by (simp add: mask_eq_exp_minus_1)

lemma pri_bits: "((w AND NOT 3) OR (p AND 3)) AND 3 = p AND (3::32 word)"
  unfolding mask3
  by (rule bit_eqI) (auto simp: bit_simps)

lemma pri_keeps_sec: "drop_bit 2 ((w AND NOT 3) OR (p AND 3)) = drop_bit 2 (w::32 word)"
  unfolding mask3
  by (rule bit_eqI) (auto simp: bit_simps dest: bit_imp_le_length)

lemma sec_bits_gen:
  fixes r s m :: "32 word"
  assumes "\<not> bit m 2" "\<not> bit m 3"
  shows "drop_bit 2 ((((r OR m) AND NOT (push_bit 2 (mask 2))) OR push_bit 2 (s AND mask 2)) AND NOT m) AND mask 2
    = s AND mask 2"
proof (rule bit_eqI)
  fix n assume "possible_bit TYPE(32 word) n"
  have m: "n < 2 \<Longrightarrow> \<not> bit m (n + 2)"
    using assms by (cases n; cases "n - 1") (auto simp: numeral_2_eq_2 numeral_3_eq_3)
  show "bit (drop_bit 2 ((((r OR m) AND NOT (push_bit 2 (mask 2))) OR push_bit 2 (s AND mask 2)) AND NOT m) AND mask 2) n
    = bit (s AND mask 2) n"
    using m by (auto simp: bit_simps)
qed

lemma sec_bits:
  "drop_bit 2 ((((r OR 0x10) AND NOT (push_bit 2 3)) OR push_bit 2 (s AND 3)) AND NOT 0x10) AND 3
    = s AND (3::32 word)"
  using sec_bits_gen[of "0x10" r s] unfolding mask3 by simp

lemma and_mask30_mask2: "(y AND mask 30) AND mask 2 = y AND (mask 2::32 word)"
  by (rule bit_eqI) (auto simp: bit_simps)

lemma and_mask30_3: "(y AND 1073741823) AND 3 = y AND (3::32 word)"
  using and_mask30_mask2[of y] by (simp add: mask_eq_exp_minus_1)

lemma and3_idem: "(x AND 3) AND 3 = x AND (3::32 word)"
  by (simp add: and.assoc)

lemma get_pri_after_set:
  "get_pri_clk_src sci (set_pri_clk_src sci p (set_sec_clk_src sci s st)) = p AND 3"
  using pri_bits
  by (simp add: get_pri_clk_src_def set_pri_clk_src_def Let_def get_l2_indirect_reg_def
      set_l2_indirect_reg_def)

lemma get_sec_after_set:
  "get_sec_clk_src sci (set_pri_clk_src sci p (set_sec_clk_src sci s st)) = s AND 3"
  using sec_bits[of "l2_indirect st (l2cpmr_iaddr (scalable st ! sci))" s]
  by (simp add: and_mask30_3 get_sec_clk_src_def set_pri_clk_src_def set_sec_clk_src_def Let_def
      get_l2_indirect_reg_def set_l2_indirect_reg_def)

lemma hotplug_dying_saves:
  "prev_pri_src (hotplug_dying cpu st) cpu = get_pri_clk_src cpu st"
  "prev_sec_src (hotplug_dying cpu st) cpu = get_sec_clk_src cpu st"
  by (simp_all add: hotplug_dying_def Let_def get_pri_clk_src_def get_l2_indirect_reg_def)

text \<open>
  Claim C8.  For every core, a dying event followed, after any run of transition
  requests on any cores, by a starting event for that core leaves the primary and the
  secondary mux selection of the core as they were read at the dying event.
\<close>

theorem hotplug_mux_round_trip:
  assumes dying: "dying = CPU_DYING \<or> dying = CPU_DYING_FROZEN"
    and d: "acpuclock_cpu_callback e dying cpu st = Inr (n1, st1)"
    and between: "transitions e reqs st1 = Inr st2"
    and starting: "starting = CPU_STARTING \<or> starting = CPU_STARTING_FROZEN"
    and s: "acpuclock_cpu_callback e starting cpu st2 = Inr (n2, st3)"
  shows "get_pri_clk_src cpu st3 = get_pri_clk_src cpu st
       \<and> get_sec_clk_src cpu st3 = get_sec_clk_src cpu st"
proof -
  have st1: "st1 = hotplug_dying cpu st" using dying d by auto
  have st3: "st3 = hotplug_starting cpu st2" using starting s by auto
  have keep: "prev_pri_src st2 = prev_pri_src st1" "prev_sec_src st2 = prev_sec_src st1"
    using transitions_frame(1)[OF between] by (simp_all add: same_fixed_state_def)
  have "get_pri_clk_src cpu st3 = get_pri_clk_src cpu st AND 3"
    using keep by (simp add: st3 hotplug_starting_def Let_def get_pri_after_set st1 hotplug_dying_saves)
  moreover have "get_sec_clk_src cpu st3 = get_sec_clk_src cpu st AND 3"
    using keep by (simp add: st3 hotplug_starting_def Let_def get_sec_after_set st1 hotplug_dying_saves)
  ultimately show ?thesis
    by (simp add: get_pri_clk_src_def get_sec_clk_src_def Let_def and3_idem)
qed

theorem hotplug_mux_round_trip_witness:
  "\<exists>st1 st2 st3. acpuclock_cpu_callback env_8960 CPU_DYING 0 driver_running = Inr (NOTIFY_OK, st1)
     \<and> transitions env_8960 [(1, 2160000, SETRATE_SWFI)] st1 = Inr st2
     \<and> acpuclock_cpu_callback env_8960 CPU_STARTING 0 st2 = Inr (NOTIFY_OK, st3)
     \<and> get_pri_clk_src 0 st3 = get_pri_clk_src 0 driver_running
     \<and> get_sec_clk_src 0 st3 = get_sec_clk_src 0 driver_running"
proof -
  have d: "acpuclock_cpu_callback env_8960 CPU_DYING 0 driver_running
             = Inr (NOTIFY_OK, hotplug_dying 0 driver_running)"
    by simp
  have "\<exists>st2. transitions env_8960 [(1, 2160000, SETRATE_SWFI)] (hotplug_dying 0 driver_running)
               = Inr st2"
    by (simp add: eval_defs hotplug_dying_def get_sec_clk_src_def get_pri_clk_src_def
        driver_running_def driver_after_init_def cong: eval_cong)
  then obtain st2 where
    b: "transitions env_8960 [(1, 2160000, SETRATE_SWFI)] (hotplug_dying 0 driver_running) = Inr st2" ..
  have s: "acpuclock_cpu_callback env_8960 CPU_STARTING 0 st2
             = Inr (NOTIFY_OK, hotplug_starting 0 st2)"
    by simp
  from hotplug_mux_round_trip[OF disjI1[OF refl] d b disjI1[OF refl] s] d b s
  show ?thesis by blast
qed

subsection \<open>Where the code departs from the specification\<close>

text \<open>
  Claim C6.  \<open>acpuclk_8960_set_rate\<close> refuses a core index only when it is greater than
  \<open>num_possible_cpus()\<close>.  On the example system, which has two cores, the index 2 passes
  that test: \<open>scalable[2].current_speed\<close> is a null pointer and the comparison with the
  requested rate dereferences it, where the specification has the invalid-request error
  returned.  The index 3 gets that error.
\<close>

theorem set_rate_core_index_off_by_one:
  "acpuclk_8960_init env_8960 boot_driver = Inr (0, driver_after_init)
   \<and> num_possible_cpus env_8960 = 2
   \<and> acpuclk_8960_set_rate env_8960 2 384000 SETRATE_CPUFREQ driver_after_init
       = Inl Null_deref
   \<and> (\<exists>st. acpuclk_8960_set_rate env_8960 3 384000 SETRATE_CPUFREQ driver_after_init
          = Inr (- EINVAL, st))"
proof (intro conjI)
  show "acpuclk_8960_init env_8960 boot_driver = Inr (0, driver_after_init)"
    by (rule init_result)
  show "num_possible_cpus env_8960 = 2"
    by (simp add: num_possible_cpus_def env_8960_fields)
  show "acpuclk_8960_set_rate env_8960 2 384000 SETRATE_CPUFREQ driver_after_init
          = Inl Null_deref"
    by (simp add: eval_defs driver_after_init_def cong: eval_cong)
  show "\<exists>st. acpuclk_8960_set_rate env_8960 3 384000 SETRATE_CPUFREQ driver_after_init
          = Inr (- EINVAL, st)"
    by (simp add: eval_defs driver_after_init_def cong: eval_cong)
qed

text \<open>
  Claim C9.  The last loop of \<open>select_freq_plan\<close> takes an entry only when its frequency
  is 2160000 kHz.  When \<open>acpu_max_freq\<close> is 1512000 the nominal table keeps usable entries
  up to 1512000 kHz (index 22), the loop finds none, and \<open>BUG_ON(!max_acpu_level)\<close> stops
  the kernel, where the specification has the highest usable entry returned.
\<close>

theorem select_freq_plan_wants_2160000:
  "select_freq_plan (env_8960\<lparr>acpu_max_freq := 1512000\<rparr>) boot_driver = Inl Bug
   \<and> (\<exists>tbl. adjust_to_max_freq 1512000 acpu_freq_tbl_8960_fusion_nom = Inr tbl
          \<and> khz (speed (tbl ! 22)) = 1512000 \<and> use_for_scaling (tbl ! 22) \<noteq> 0
          \<and> find_max_acpu_level tbl 0 None = Inr None)"
proof (intro conjI)
  show "select_freq_plan (env_8960\<lparr>acpu_max_freq := 1512000\<rparr>) boot_driver = Inl Bug"
    by (simp add: select_freq_plan_def select_pvs_table_def env_8960_def Let_def
        krait_needs_vmin_def table_defs)
  show "\<exists>tbl. adjust_to_max_freq 1512000 acpu_freq_tbl_8960_fusion_nom = Inr tbl
          \<and> khz (speed (tbl ! 22)) = 1512000 \<and> use_for_scaling (tbl ! 22) \<noteq> 0
          \<and> find_max_acpu_level tbl 0 None = Inr None"
    by (simp add: table_defs)
qed

end
